(* ===== verification/Symfile_Prelude.thy ===== *)
theory Symfile_Prelude
  imports Main "HOL-Library.Word"
begin

text \<open>
  Shared vocabulary of the symfile-debug development (\<^verbatim>\<open>src/gdb/symfile-debug.c\<close>):
  the identities the C code handles as pointers, the errors by which the code aborts
  or faults, the rendering of numbers the way \<^verbatim>\<open>printf\<close> and gdb's
  \<^verbatim>\<open>host_address_to_string\<close> print them, and the combinators that thread the
  trace lines a call writes to \<^verbatim>\<open>gdb_stdlog\<close>, with the reader \<open>hex_value\<close> that
  reads printed hexadecimal back and the width of a printed word.  Generic lemmas on these are declared
  here, in the collection \<open>symfile_simps\<close> or as \<open>[simp]\<close>, for the component
  theories.
\<close>

named_theorems symfile_simps "evaluation rules of the symfile-debug model"

section \<open>Identities\<close>

text \<open>
  An \<^verbatim>\<open>struct objfile *\<close> is identified by a number (\<open>oid\<close>), a heap block of
  \<^verbatim>\<open>struct debug_sym_fns_data\<close> by its address (\<open>addr\<close>, \<open>0\<close> reads as
  \<^verbatim>\<open>NULL\<close> where a pointer is printed), and a symbol reader's static
  \<^verbatim>\<open>const struct sym_fns\<close> table by a table number (\<open>tab_id\<close>).
\<close>

type_synonym oid = nat
type_synonym addr = nat
type_synonym tab_id = nat

text \<open>\<^verbatim>\<open>symfile_add_flags\<close> is an enum-flags type; the proxy casts it to
  \<^verbatim>\<open>unsigned\<close> to print it, so it is a 32-bit word.\<close>

type_synonym symfile_add_flags = "32 word"

section \<open>Errors\<close>

text \<open>
  Every way the code stops without returning normally is a value:
  \<^item> \<open>Assertion_failed\<close>: a \<^verbatim>\<open>gdb_assert\<close> that does not hold (internal error);
  \<^item> \<open>Not_reached\<close>: \<^verbatim>\<open>gdb_assert_not_reached\<close>;
  \<^item> \<open>Null_deref\<close>: a read through a \<^verbatim>\<open>NULL\<close> pointer (the process faults);
  \<^item> \<open>Null_call\<close>: a call through an absent (\<^verbatim>\<open>NULL\<close>) slot of a table;
  \<^item> \<open>Dangling_pointer\<close>: a read through a pointer to memory that was freed or never
    allocated;
  \<^item> \<open>Bad_call_type\<close>: a call of a function pointer at a type it does not have
    (undefined in C, ruled out there by the slot types);
  \<^item> \<open>Backend_error n\<close>: an \<^verbatim>\<open>error ()\<close> thrown by the symbol reader's own function.
\<close>

datatype gdb_error =
    Assertion_failed string
  | Not_reached string
  | Null_deref
  | Null_call
  | Dangling_pointer
  | Bad_call_type
  | Backend_error nat

section \<open>Printing numbers\<close>

text \<open>Lower-case hexadecimal digits without leading zeros, as \<^verbatim>\<open>%x\<close> and gdb's
  \<^verbatim>\<open>phex_nz\<close> print them.\<close>

definition hex_digit :: "nat \<Rightarrow> char" where
  "hex_digit d = (if d < 10 then char_of (48 + d) else char_of (87 + d))"

fun hex_digits :: "nat \<Rightarrow> string" where
  "hex_digits n = (if n < 16 then [hex_digit n] else hex_digits (n div 16) @ [hex_digit (n mod 16)])"

text \<open>gdb's \<^verbatim>\<open>host_address_to_string\<close> (gdbsupport): \<^verbatim>\<open>0x\<close> and the address in hex.\<close>

definition host_address_to_string :: "addr \<Rightarrow> string" where
  "host_address_to_string a = ''0x'' @ hex_digits a"

text \<open>gdb's \<^verbatim>\<open>hex_string\<close> (gdbsupport) of a \<^verbatim>\<open>CORE_ADDR\<close>, a 64-bit value.\<close>

definition hex_string :: "64 word \<Rightarrow> string" where
  "hex_string v = ''0x'' @ hex_digits (unat v)"

text \<open>Decimal digits as \<^verbatim>\<open>%d\<close> prints a number, with its sign; a \<^verbatim>\<open>bool\<close>
  passed to \<^verbatim>\<open>%d\<close> is promoted to \<^verbatim>\<open>int\<close>, 0 or 1.\<close>

definition dec_digit :: "nat \<Rightarrow> char" where
  "dec_digit d = char_of (48 + d)"

fun dec_digits :: "nat \<Rightarrow> string" where
  "dec_digits n = (if n < 10 then [dec_digit n] else dec_digits (n div 10) @ [dec_digit (n mod 10)])"

definition int_dec :: "int \<Rightarrow> string" where
  "int_dec i = (if i < 0 then ''-'' @ dec_digits (nat (- i)) else dec_digits (nat i))"

definition bool_dec :: "bool \<Rightarrow> string" where
  "bool_dec b = (if b then ''1'' else ''0'')"

text \<open>Reading printed hexadecimal back, as a reader of the log does: the value of a
  digit and of a string of digits (the inverse of \<open>hex_digits\<close>).\<close>

definition hex_char_value :: "char \<Rightarrow> nat" where
  "hex_char_value c = (if of_char c \<le> (57::nat) then of_char c - 48 else of_char c - 87)"

definition hex_value :: "string \<Rightarrow> nat" where
  "hex_value s = foldl (\<lambda>acc c. 16 * acc + hex_char_value c) 0 s"

definition is_hex_char :: "char \<Rightarrow> bool" where
  "is_hex_char c = (c \<in> set ''0123456789abcdef'')"

section \<open>Trace lines of a call\<close>

text \<open>
  A call through a table either does not return (\<open>None\<close>: it recurses without end, or the
  model's fuel ran out) or returns the lines it wrote to \<^verbatim>\<open>gdb_stdlog\<close>, in order,
  with its outcome.  \<open>log_before\<close> writes a line and then runs the call;
  \<open>log_after\<close> runs the call and writes a line about its result only when it returns
  normally, as the C proxies do.
\<close>

type_synonym 'a traced = "(string list \<times> (gdb_error + 'a)) option"

definition log_before :: "string \<Rightarrow> 'a traced \<Rightarrow> 'a traced" where
  "log_before l r = map_option (\<lambda>(ls, x). (l # ls, x)) r"

definition log_after :: "('a \<Rightarrow> string) \<Rightarrow> 'a traced \<Rightarrow> 'a traced" where
  "log_after f r =
     map_option (\<lambda>(ls, x). case x of Inl e \<Rightarrow> (ls, Inl e) | Inr v \<Rightarrow> (ls @ [f v], Inr v)) r"

definition fault :: "gdb_error \<Rightarrow> 'a traced" where
  "fault e = Some ([], Inl e)"

section \<open>Lemmas\<close>

lemma hex_digits_nonempty [simp]: "hex_digits n \<noteq> []"
  by (subst hex_digits.simps) simp

declare hex_digits.simps [simp del]
declare dec_digits.simps [simp del]

lemma hex_digit_table: "\<forall>d < 16. hex_digit d = ''0123456789abcdef'' ! d"
  by code_simp

lemma hex_digit_nth [symfile_simps]: "d < 16 \<Longrightarrow> hex_digit d = ''0123456789abcdef'' ! d"
  using hex_digit_table by blast

lemma hex_digits_small [symfile_simps]: "n < 16 \<Longrightarrow> hex_digits n = [hex_digit n]"
  by (subst hex_digits.simps) simp

lemma log_before_simps [simp]:
  "log_before l None = None"
  "log_before l (Some (ls, x)) = Some (l # ls, x)"
  by (simp_all add: log_before_def)

lemma log_after_simps [simp]:
  "log_after f None = None"
  "log_after f (Some (ls, Inl e)) = Some (ls, Inl e)"
  "log_after f (Some (ls, Inr v)) = Some (ls @ [f v], Inr v)"
  by (simp_all add: log_after_def)

lemma log_before_eq_None [simp]: "log_before l r = None \<longleftrightarrow> r = None"
  by (simp add: log_before_def)

lemma log_after_eq_None [simp]: "log_after f r = None \<longleftrightarrow> r = None"
  by (simp add: log_after_def)

lemma fault_not_None [simp]: "fault e \<noteq> None"
  by (simp add: fault_def)

lemma set_concat_update_append:
  "i < length xss \<Longrightarrow> set (concat (xss[i := xss ! i @ [y]])) = insert y (set (concat xss))"
proof (induction xss arbitrary: i)
  case Nil
  then show ?case by simp
next
  case (Cons xs xss)
  then show ?case by (cases i) auto
qed

lemma ran_fun_upd_None_inj:
  assumes k: "m k = Some a" and u: "\<And>x. m x = Some a \<Longrightarrow> x = k"
  shows "ran (m(k := None)) = ran m - {a}"
proof
  show "ran (m(k := None)) \<subseteq> ran m - {a}"
  proof
    fix b assume "b \<in> ran (m(k := None))"
    then obtain x where x: "x \<noteq> k" and "m x = Some b" by (auto simp: ran_def split: if_splits)
    with u have "b \<noteq> a" by blast
    with \<open>m x = Some b\<close> show "b \<in> ran m - {a}" by (auto intro: ranI)
  qed
  show "ran m - {a} \<subseteq> ran (m(k := None))"
  proof
    fix b assume b: "b \<in> ran m - {a}"
    then obtain x where x: "m x = Some b" by (auto simp: ran_def)
    with b k have "x \<noteq> k" by auto
    with x show "b \<in> ran (m(k := None))" by (auto intro: ranI)
  qed
qed

lemma sum_case_Inr_eq [simp]:
  "((case m of Inl e \<Rightarrow> Inl e | Inr x \<Rightarrow> f x) = Inr y) \<longleftrightarrow> (\<exists>x. m = Inr x \<and> f x = Inr y)"
  by (cases m) auto

lemma hex_char_value_digit [symfile_simps]: "d < 16 \<Longrightarrow> hex_char_value (hex_digit d) = d"
  by (simp add: hex_digit_def hex_char_value_def)

lemma is_hex_char_digit [symfile_simps]: "d < 16 \<Longrightarrow> is_hex_char (hex_digit d)"
  unfolding hex_digit_nth is_hex_char_def by (rule nth_mem) simp

lemma hex_value_snoc [simp]: "hex_value (s @ [c]) = 16 * hex_value s + hex_char_value c"
  by (simp add: hex_value_def)

lemma hex_value_digits: "hex_value (hex_digits n) = n"
proof (induction n rule: hex_digits.induct)
  case (1 n)
  show ?case
  proof (cases "n < 16")
    case True
    then show ?thesis by (simp add: hex_digits_small hex_value_def hex_char_value_digit)
  next
    case False
    then have "hex_digits n = hex_digits (n div 16) @ [hex_digit (n mod 16)]"
      by (subst hex_digits.simps) simp
    with 1 False show ?thesis by (simp add: hex_char_value_digit)
  qed
qed

lemma hex_digits_hex_chars: "list_all is_hex_char (hex_digits n)"
proof (induction n rule: hex_digits.induct)
  case (1 n)
  then show ?case
    by (subst hex_digits.simps) (simp add: is_hex_char_digit)
qed

lemma hex_digits_length_le: "n < 16 ^ k \<Longrightarrow> 0 < k \<Longrightarrow> length (hex_digits n) \<le> k"
proof (induction n arbitrary: k rule: hex_digits.induct)
  case (1 n)
  show ?case
  proof (cases "n < 16")
    case True
    with "1.prems"(2) show ?thesis by (simp add: hex_digits_small)
  next
    case False
    then obtain j where k: "k = Suc j" and j: "0 < j"
      using "1.prems" by (cases k; cases "k - 1") (auto simp: power_Suc)
    have "n div 16 < 16 ^ j" using "1.prems"(1) k by (simp add: div_less_iff_less_mult mult.commute)
    with "1.IH" [OF False this j] False k show ?thesis
      by (subst hex_digits.simps) simp
  qed
qed

lemma hex_digits_unat_len:
  "length (hex_digits (unat (x :: 'a::len word))) \<le> (LENGTH('a) + 3) div 4"
proof (rule hex_digits_length_le)
  have "unat x < 2 ^ LENGTH('a)" by (rule unsigned_less)
  also have "(2::nat) ^ LENGTH('a) \<le> 2 ^ (4 * ((LENGTH('a) + 3) div 4))"
    by (rule power_increasing) simp_all
  also have "\<dots> = 16 ^ ((LENGTH('a) + 3) div 4)" by (simp add: power_mult)
  finally show "unat x < 16 ^ ((LENGTH('a) + 3) div 4)" .
  show "0 < (LENGTH('a) + 3) div 4" using len_gt_0 [where 'a='a] by (simp add: div_greater_zero_iff Suc_le_eq)
qed

lemma card_ran_inj:
  assumes inj: "\<And>x y a. m x = Some a \<Longrightarrow> m y = Some a \<Longrightarrow> x = y"
  shows "card (ran m) = card (dom m)"
proof -
  have "ran m = (\<lambda>x. the (m x)) ` dom m" by (force simp: ran_def dom_def)
  moreover have "inj_on (\<lambda>x. the (m x)) (dom m)"
    by (rule inj_onI) (auto simp: dom_def intro: inj)
  ultimately show ?thesis by (simp add: card_image)
qed

end
