(* ===== verification/Sym_Fns.thy ===== *)
theory Sym_Fns
  imports Symfile_Prelude
begin

text \<open>
  The operation table of a symbol reader, \<^verbatim>\<open>struct sym_fns\<close> (declared in
  symfile.h, used by \<^verbatim>\<open>src/gdb/symfile-debug.c\<close>), its nested probe table
  \<^verbatim>\<open>struct sym_probe_fns\<close>, the function-pointer values its slots hold, and the
  construction by which \<^verbatim>\<open>install_symfile_debug_logging\<close> builds the shadow table:
  the template \<^verbatim>\<open>debug_sym_fns\<close> (lines 494--505), the macro \<^verbatim>\<open>COPY_SF_PTR\<close>
  (lines 524--528) and the sequence of its uses (lines 521--540).  The main fact is that
  the shadow table keeps exactly the absent slots of the real one
  (\<open>sf_slot_debug_sf_from\<close>).
\<close>

section \<open>Slots and function pointers\<close>

text \<open>The eight function slots of \<^verbatim>\<open>struct sym_fns\<close>, in declaration order, as
  the \<^verbatim>\<open>COPY_SF_PTR\<close> lines enumerate them.\<close>

datatype slot =
    Sym_new_init | Sym_init | Sym_read | Sym_finish | Sym_offsets | Sym_segments
  | Sym_read_linetable | Sym_relocate

text \<open>
  A function pointer held by a slot: a function of some symbol reader (numbered), one of
  the eight \<^verbatim>\<open>debug_sym_*\<close> proxies of this file (\<open>Debug_fn s\<close> is the proxy
  for slot \<open>s\<close>: \<open>Debug_fn Sym_read\<close> is \<^verbatim>\<open>debug_sym_read\<close>), or
  \<^verbatim>\<open>debug_sym_get_probes\<close>.
\<close>

datatype sym_fn = Backend_fn nat | Debug_fn slot | Debug_get_probes_fn

text \<open>A pointer to a \<^verbatim>\<open>struct sym_probe_fns\<close>: a reader's static table
  (numbered), or this file's \<^verbatim>\<open>debug_sym_probe_fns\<close>.\<close>

datatype probe_ref = Static_probes nat | Debug_probe_fns

record sym_probe_fns =
  sym_get_probes :: sym_fn

record sym_fns =
  sym_new_init :: "sym_fn option"
  sym_init :: "sym_fn option"
  sym_read :: "sym_fn option"
  sym_finish :: "sym_fn option"
  sym_offsets :: "sym_fn option"
  sym_segments :: "sym_fn option"
  sym_read_linetable :: "sym_fn option"
  sym_relocate :: "sym_fn option"
  sym_probe_fns :: "probe_ref option"

text \<open>
  A \<^verbatim>\<open>const struct sym_fns *\<close>: a reader's static table, or the
  \<^verbatim>\<open>debug_sf\<close> member of the \<^verbatim>\<open>debug_sym_fns_data\<close> block at an address.
  The block itself (lines 40--44): the saved real table, \<^verbatim>\<open>nullptr\<close> when
  allocated, and the shadow table, all slots \<^verbatim>\<open>NULL\<close> when allocated.
\<close>

datatype sf_ref = Static_sf tab_id | Debug_sf addr

record debug_sym_fns_data =
  real_sf :: "sf_ref option"
  debug_sf :: sym_fns

text \<open>The arguments of a call through each slot (the \<^verbatim>\<open>objfile\<close> argument is
  passed separately), and the value it returns; every non-void result of a slot is a
  pointer, which the proxies print with \<^verbatim>\<open>host_address_to_string\<close>.\<close>

datatype sym_call =
    Call_new_init | Call_init | Call_read symfile_add_flags | Call_finish
  | Call_offsets addr | Call_segments addr | Call_read_linetable
  | Call_relocate addr addr | Call_get_probes

datatype sym_ret = Ret_void | Ret_ptr addr

section \<open>Operations on tables\<close>

primrec sf_slot :: "slot \<Rightarrow> sym_fns \<Rightarrow> sym_fn option" where
  "sf_slot Sym_new_init t = sym_new_init t"
| "sf_slot Sym_init t = sym_init t"
| "sf_slot Sym_read t = sym_read t"
| "sf_slot Sym_finish t = sym_finish t"
| "sf_slot Sym_offsets t = sym_offsets t"
| "sf_slot Sym_segments t = sym_segments t"
| "sf_slot Sym_read_linetable t = sym_read_linetable t"
| "sf_slot Sym_relocate t = sym_relocate t"

primrec sf_slot_update :: "slot \<Rightarrow> sym_fn option \<Rightarrow> sym_fns \<Rightarrow> sym_fns" where
  "sf_slot_update Sym_new_init v t = t\<lparr>sym_new_init := v\<rparr>"
| "sf_slot_update Sym_init v t = t\<lparr>sym_init := v\<rparr>"
| "sf_slot_update Sym_read v t = t\<lparr>sym_read := v\<rparr>"
| "sf_slot_update Sym_finish v t = t\<lparr>sym_finish := v\<rparr>"
| "sf_slot_update Sym_offsets v t = t\<lparr>sym_offsets := v\<rparr>"
| "sf_slot_update Sym_segments v t = t\<lparr>sym_segments := v\<rparr>"
| "sf_slot_update Sym_read_linetable v t = t\<lparr>sym_read_linetable := v\<rparr>"
| "sf_slot_update Sym_relocate v t = t\<lparr>sym_relocate := v\<rparr>"

text \<open>The slot a call goes through; the probe query goes through the nested table.\<close>

primrec call_slot :: "sym_call \<Rightarrow> slot option" where
  "call_slot Call_new_init = Some Sym_new_init"
| "call_slot Call_init = Some Sym_init"
| "call_slot (Call_read f) = Some Sym_read"
| "call_slot Call_finish = Some Sym_finish"
| "call_slot (Call_offsets i) = Some Sym_offsets"
| "call_slot (Call_segments b) = Some Sym_segments"
| "call_slot Call_read_linetable = Some Sym_read_linetable"
| "call_slot (Call_relocate s b) = Some Sym_relocate"
| "call_slot Call_get_probes = None"

text \<open>\<^verbatim>\<open>struct sym_fns debug_sf {}\<close>: every slot \<^verbatim>\<open>NULL\<close>.\<close>

definition empty_sym_fns :: sym_fns where
  "empty_sym_fns =
     \<lparr>sym_new_init = None, sym_init = None, sym_read = None, sym_finish = None,
      sym_offsets = None, sym_segments = None, sym_read_linetable = None,
      sym_relocate = None, sym_probe_fns = None\<rparr>"

definition default_debug_sym_fns_data :: debug_sym_fns_data where
  "default_debug_sym_fns_data = \<lparr>real_sf = None, debug_sf = empty_sym_fns\<rparr>"

text \<open>\<^verbatim>\<open>debug_sym_probe_fns\<close> (lines 380--383).\<close>

definition debug_sym_probe_fns :: sym_probe_fns where
  "debug_sym_probe_fns = \<lparr>sym_get_probes = Debug_get_probes_fn\<rparr>"

text \<open>The template \<^verbatim>\<open>debug_sym_fns\<close> (lines 494--505): every slot its proxy.\<close>

definition debug_sym_fns :: sym_fns where
  "debug_sym_fns =
     \<lparr>sym_new_init = Some (Debug_fn Sym_new_init), sym_init = Some (Debug_fn Sym_init),
      sym_read = Some (Debug_fn Sym_read), sym_finish = Some (Debug_fn Sym_finish),
      sym_offsets = Some (Debug_fn Sym_offsets), sym_segments = Some (Debug_fn Sym_segments),
      sym_read_linetable = Some (Debug_fn Sym_read_linetable),
      sym_relocate = Some (Debug_fn Sym_relocate), sym_probe_fns = Some Debug_probe_fns\<rparr>"

text \<open>\<^verbatim>\<open>COPY_SF_PTR (from, to, name, func)\<close>: set the slot of the shadow table only
  when the slot of the real table is populated.\<close>

definition copy_sf_ptr :: "sym_fns \<Rightarrow> slot \<Rightarrow> sym_fn \<Rightarrow> sym_fns \<Rightarrow> sym_fns" where
  "copy_sf_ptr from s func to =
     (if sf_slot s from \<noteq> None then sf_slot_update s (Some func) to else to)"

text \<open>The shadow table \<^verbatim>\<open>install_symfile_debug_logging\<close> builds from the real table
  (lines 521--540), one \<^verbatim>\<open>COPY_SF_PTR\<close> per slot in the source's order, then the probe
  table.\<close>

definition debug_sf_from :: "sym_fns \<Rightarrow> sym_fns" where
  "debug_sf_from real =
     (let d = empty_sym_fns;
          d = copy_sf_ptr real Sym_new_init (Debug_fn Sym_new_init) d;
          d = copy_sf_ptr real Sym_init (Debug_fn Sym_init) d;
          d = copy_sf_ptr real Sym_read (Debug_fn Sym_read) d;
          d = copy_sf_ptr real Sym_finish (Debug_fn Sym_finish) d;
          d = copy_sf_ptr real Sym_offsets (Debug_fn Sym_offsets) d;
          d = copy_sf_ptr real Sym_segments (Debug_fn Sym_segments) d;
          d = copy_sf_ptr real Sym_read_linetable (Debug_fn Sym_read_linetable) d;
          d = copy_sf_ptr real Sym_relocate (Debug_fn Sym_relocate) d
      in if sym_probe_fns real \<noteq> None then d\<lparr>sym_probe_fns := Some Debug_probe_fns\<rparr> else d)"

text \<open>A table fits its slots when every populated slot holds a reader's function or the
  proxy of that very slot (C's slot types guarantee it).\<close>

definition fn_fits :: "slot \<Rightarrow> sym_fn \<Rightarrow> bool" where
  "fn_fits s f = (case f of Backend_fn b \<Rightarrow> True | Debug_fn s' \<Rightarrow> s' = s | Debug_get_probes_fn \<Rightarrow> False)"

instantiation slot :: enum
begin

definition enum_slot :: "slot list" where
  "enum_slot =
     [Sym_new_init, Sym_init, Sym_read, Sym_finish, Sym_offsets, Sym_segments,
      Sym_read_linetable, Sym_relocate]"

definition enum_all_slot :: "(slot \<Rightarrow> bool) \<Rightarrow> bool" where
  "enum_all_slot P = list_all P enum_class.enum"

definition enum_ex_slot :: "(slot \<Rightarrow> bool) \<Rightarrow> bool" where
  "enum_ex_slot P = list_ex P enum_class.enum"

instance
proof
  have univ: "(UNIV :: slot set) = set enum_class.enum"
  proof (rule UNIV_eq_I)
    fix s :: slot
    show "s \<in> set enum_class.enum" by (cases s) (simp_all add: enum_slot_def)
  qed
  show "(UNIV :: slot set) = set enum_class.enum" by (rule univ)
  show "distinct (enum_class.enum :: slot list)" by (simp add: enum_slot_def)
  fix P :: "slot \<Rightarrow> bool"
  show "enum_class.enum_all P = Ball UNIV P"
    by (simp add: univ enum_all_slot_def list_all_iff)
  show "enum_class.enum_ex P = Bex UNIV P"
    by (simp add: univ enum_ex_slot_def list_ex_iff)
qed

end

section \<open>Lemmas\<close>

lemma all_slots_iff:
  "(\<forall>s. P s) \<longleftrightarrow>
     P Sym_new_init \<and> P Sym_init \<and> P Sym_read \<and> P Sym_finish \<and> P Sym_offsets \<and>
     P Sym_segments \<and> P Sym_read_linetable \<and> P Sym_relocate"
  by (metis slot.exhaust)

lemma sf_slot_update_same [simp]: "sf_slot s (sf_slot_update s v t) = v"
  by (cases s) simp_all

lemma sf_slot_update_other [simp]: "s' \<noteq> s \<Longrightarrow> sf_slot s' (sf_slot_update s v t) = sf_slot s' t"
  by (cases s; cases s') simp_all

lemma sf_slot_update_probe [simp]: "sym_probe_fns (sf_slot_update s v t) = sym_probe_fns t"
  by (cases s) simp_all

lemma sf_slot_probe_update [simp]: "sf_slot s (t\<lparr>sym_probe_fns := p\<rparr>) = sf_slot s t"
  by (cases s) simp_all

lemma sf_slot_empty [simp]: "sf_slot s empty_sym_fns = None"
  by (cases s) (simp_all add: empty_sym_fns_def)

lemma sf_slot_debug_sym_fns [simp]: "sf_slot s debug_sym_fns = Some (Debug_fn s)"
  by (cases s) (simp_all add: debug_sym_fns_def)

lemma sf_slot_copy_sf_ptr [simp]:
  "sf_slot s' (copy_sf_ptr from s func to) =
     (if s' = s \<and> sf_slot s from \<noteq> None then Some func else sf_slot s' to)"
  by (auto simp: copy_sf_ptr_def)

lemma probe_copy_sf_ptr [simp]: "sym_probe_fns (copy_sf_ptr from s func to) = sym_probe_fns to"
  by (simp add: copy_sf_ptr_def)

lemma sym_fns_eq_iff:
  "(t :: sym_fns) = t' \<longleftrightarrow> (\<forall>s. sf_slot s t = sf_slot s t') \<and> sym_probe_fns t = sym_probe_fns t'"
proof
  assume "(\<forall>s. sf_slot s t = sf_slot s t') \<and> sym_probe_fns t = sym_probe_fns t'"
  then have "\<forall>s. sf_slot s t = sf_slot s t'" and p: "sym_probe_fns t = sym_probe_fns t'"
    by blast+
  then have "sf_slot s t = sf_slot s t'" for s by blast
  from this [of Sym_new_init] this [of Sym_init] this [of Sym_read] this [of Sym_finish]
    this [of Sym_offsets] this [of Sym_segments] this [of Sym_read_linetable]
    this [of Sym_relocate] p
  show "t = t'" by (cases t, cases t') simp
qed simp

text \<open>The shadow table keeps the partition of slots into absent and populated: an absent
  slot stays absent, a populated one holds the proxy of that slot, and the probe table is
  the debugging one exactly when the real table has one.\<close>

lemma sf_slot_debug_sf_from [simp]:
  "sf_slot s (debug_sf_from real) = (if sf_slot s real = None then None else Some (Debug_fn s))"
  by (cases s) (simp_all add: debug_sf_from_def Let_def copy_sf_ptr_def empty_sym_fns_def)

lemma probe_debug_sf_from [simp]:
  "sym_probe_fns (debug_sf_from real) =
     (if sym_probe_fns real = None then None else Some Debug_probe_fns)"
  by (simp add: debug_sf_from_def Let_def empty_sym_fns_def)

lemma fn_fits_debug_sf_from:
  "sf_slot s (debug_sf_from real) = Some f \<Longrightarrow> fn_fits s f"
  by (auto simp: fn_fits_def split: if_splits)

end
