(* ===== verification/Objfile_Key.thy ===== *)
theory Objfile_Key
  imports Symfile_Prelude
begin

text \<open>
  The per-objfile attachment store: gdb's \<^verbatim>\<open>objfile_key<T>\<close> registry, through which
  \<^verbatim>\<open>symfile_debug_objfile_data_key\<close> (\<^verbatim>\<open>src/gdb/symfile-debug.c\<close> lines 48--49)
  attaches a \<^verbatim>\<open>debug_sym_fns_data\<close> to an objfile.  The registry's code is not part
  of the sources; it is modelled from the contract of the specification (section 4.1):
  \<open>key_get\<close> never fails and answers \<open>None\<close> for an absent entry, \<open>key_set\<close> fails
  on a key that already has an entry, \<open>key_clear\<close> fails on a key that has none.  The
  store is a map keyed by the objfile's identity, independent of any field of the
  objfile.  The lemmas are the store's round trips.
\<close>

definition key_get :: "('k \<rightharpoonup> 'v) \<Rightarrow> 'k \<Rightarrow> 'v option" where
  "key_get m k = m k"

definition key_set :: "('k \<rightharpoonup> 'v) \<Rightarrow> 'k \<Rightarrow> 'v \<Rightarrow> gdb_error + ('k \<rightharpoonup> 'v)" where
  "key_set m k v =
     (if m k \<noteq> None then Inl (Assertion_failed ''objfile_key::set: entry exists'')
      else Inr (m(k \<mapsto> v)))"

definition key_clear :: "('k \<rightharpoonup> 'v) \<Rightarrow> 'k \<Rightarrow> gdb_error + ('k \<rightharpoonup> 'v)" where
  "key_clear m k =
     (if m k = None then Inl (Assertion_failed ''objfile_key::clear: no entry'')
      else Inr (m(k := None)))"

lemma key_set_Inr [simp]: "m k = None \<Longrightarrow> key_set m k v = Inr (m(k \<mapsto> v))"
  by (simp add: key_set_def)

lemma key_set_Inl [simp]: "m k \<noteq> None \<Longrightarrow> \<exists>e. key_set m k v = Inl e"
  by (simp add: key_set_def)

lemma key_clear_Inr [simp]: "m k \<noteq> None \<Longrightarrow> key_clear m k = Inr (m(k := None))"
  by (simp add: key_clear_def)

lemma key_get_set:
  "key_set m k v = Inr m' \<Longrightarrow> key_get m' k' = (if k' = k then Some v else key_get m k')"
  by (auto simp: key_set_def key_get_def split: if_splits)

lemma key_get_clear:
  "key_clear m k = Inr m' \<Longrightarrow> key_get m' k' = (if k' = k then None else key_get m k')"
  by (auto simp: key_clear_def key_get_def split: if_splits)

lemma key_clear_set:
  "key_set m k v = Inr m' \<Longrightarrow> key_clear m' k = Inr m"
  by (auto simp: key_set_def key_clear_def split: if_splits)

end
