(* ===== verification/Symfile_State.thy ===== *)
theory Symfile_State
  imports Sym_Fns Objfile_Key
begin

text \<open>
  The state the symfile-debug layer reads and writes.  An objfile (gdb's
  \<^verbatim>\<open>struct objfile\<close>, of which the layer reads the name it prints, the flags, the
  active table \<^verbatim>\<open>sf\<close> and the query object \<^verbatim>\<open>qf\<close>), and the world: the
  objfiles of every program space, the readers' static tables, the heap of
  \<^verbatim>\<open>debug_sym_fns_data\<close> blocks with its next free address, the registry slot of
  \<^verbatim>\<open>symfile_debug_objfile_data_key\<close> (lines 48--49), the flag \<^verbatim>\<open>debug_symfile\<close>
  (line 52) and the readers' own functions.  Pointers are read through \<open>deref_sf\<close>,
  which names the fault of a \<^verbatim>\<open>NULL\<close> or dangling pointer.
  \<open>symfile_debug_installed\<close> is lines 56--61.
\<close>

record objfile =
  objfile_name :: string
  objfile_flags :: "32 word"
  sf :: "sf_ref option"
  qf :: "nat option"

record symfile_world =
  program_spaces :: "oid list list"
  objfile_of :: "oid \<Rightarrow> objfile"
  sym_tabs :: "tab_id \<rightharpoonup> sym_fns"
  probe_tabs :: "nat \<rightharpoonup> sym_probe_fns"
  dd_heap :: "addr \<rightharpoonup> debug_sym_fns_data"
  dd_next :: addr
  data_key :: "oid \<rightharpoonup> addr"
  debug_symfile :: bool
  sym_backend :: "nat \<Rightarrow> oid \<Rightarrow> sym_call \<Rightarrow> gdb_error + sym_ret"

text \<open>The objfiles the command walks: those of every program space, in order.\<close>

definition live_objfiles :: "symfile_world \<Rightarrow> oid list" where
  "live_objfiles w = concat (program_spaces w)"

text \<open>\<^verbatim>\<open>objfile_debug_name\<close> (objfiles.c): the name the trace lines print.\<close>

definition objfile_debug_name :: "symfile_world \<Rightarrow> oid \<Rightarrow> string" where
  "objfile_debug_name w ob = objfile_name (objfile_of w ob)"

definition sf_of :: "symfile_world \<Rightarrow> oid \<Rightarrow> sf_ref option" where
  "sf_of w ob = sf (objfile_of w ob)"

text \<open>\<^verbatim>\<open>objfile->sf = r\<close>.\<close>

definition set_objfile_sf :: "oid \<Rightarrow> sf_ref option \<Rightarrow> symfile_world \<Rightarrow> symfile_world" where
  "set_objfile_sf ob r w = w\<lparr>objfile_of := (objfile_of w)(ob := (objfile_of w ob)\<lparr>sf := r\<rparr>)\<rparr>"

text \<open>Reading the table a pointer points at: a reader's static table, or the shadow
  table inside a live \<^verbatim>\<open>debug_sym_fns_data\<close> block.\<close>

definition deref_sf :: "symfile_world \<Rightarrow> sf_ref \<Rightarrow> gdb_error + sym_fns" where
  "deref_sf w r =
     (case r of
        Static_sf t \<Rightarrow> (case sym_tabs w t of None \<Rightarrow> Inl Dangling_pointer | Some tab \<Rightarrow> Inr tab)
      | Debug_sf a \<Rightarrow> (case dd_heap w a of None \<Rightarrow> Inl Dangling_pointer | Some d \<Rightarrow> Inr (debug_sf d)))"

definition deref_sf_ptr :: "symfile_world \<Rightarrow> sf_ref option \<Rightarrow> gdb_error + sym_fns" where
  "deref_sf_ptr w p = (case p of None \<Rightarrow> Inl Null_deref | Some r \<Rightarrow> deref_sf w r)"

definition deref_probes :: "symfile_world \<Rightarrow> probe_ref \<Rightarrow> gdb_error + sym_probe_fns" where
  "deref_probes w p =
     (case p of
        Static_probes n \<Rightarrow> (case probe_tabs w n of None \<Rightarrow> Inl Dangling_pointer | Some t \<Rightarrow> Inr t)
      | Debug_probe_fns \<Rightarrow> Inr debug_sym_probe_fns)"

text \<open>The registry slot of \<^verbatim>\<open>symfile_debug_objfile_data_key\<close>: \<^verbatim>\<open>get\<close>,
  \<^verbatim>\<open>set\<close> and \<^verbatim>\<open>clear\<close>, the last deleting the attached block as the registry's
  deleter does.\<close>

definition data_key_get :: "symfile_world \<Rightarrow> oid \<Rightarrow> addr option" where
  "data_key_get w ob = key_get (data_key w) ob"

definition data_key_set :: "oid \<Rightarrow> addr \<Rightarrow> symfile_world \<Rightarrow> gdb_error + symfile_world" where
  "data_key_set ob a w =
     (case key_set (data_key w) ob a of Inl e \<Rightarrow> Inl e | Inr k \<Rightarrow> Inr (w\<lparr>data_key := k\<rparr>))"

definition data_key_clear :: "oid \<Rightarrow> symfile_world \<Rightarrow> gdb_error + symfile_world" where
  "data_key_clear ob w =
     (case key_clear (data_key w) ob of
        Inl e \<Rightarrow> Inl e
      | Inr k \<Rightarrow> Inr (w\<lparr>data_key := k,
                       dd_heap := (case data_key w ob of None \<Rightarrow> dd_heap w
                                   | Some a \<Rightarrow> (dd_heap w)(a := None))\<rparr>))"

text \<open>\<^verbatim>\<open>symfile_debug_installed\<close> (lines 56--61).\<close>

definition symfile_debug_installed :: "symfile_world \<Rightarrow> oid \<Rightarrow> bool" where
  "symfile_debug_installed w ob = (sf_of w ob \<noteq> None \<and> data_key_get w ob \<noteq> None)"

text \<open>The state at start-up: \<^verbatim>\<open>debug_symfile\<close> is \<^verbatim>\<open>false\<close> (line 52) and no
  objfile has a block attached.\<close>

definition symfile_start :: "symfile_world \<Rightarrow> bool" where
  "symfile_start w = (\<not> debug_symfile w \<and> data_key w = Map.empty \<and> dd_heap w = Map.empty)"

section \<open>Lemmas\<close>

lemma sf_of_set_objfile_sf [simp]:
  "sf_of (set_objfile_sf ob r w) ob' = (if ob' = ob then r else sf_of w ob')"
  by (simp add: sf_of_def set_objfile_sf_def)

lemma set_objfile_sf_fields [simp]:
  "data_key (set_objfile_sf ob r w) = data_key w"
  "dd_heap (set_objfile_sf ob r w) = dd_heap w"
  "dd_next (set_objfile_sf ob r w) = dd_next w"
  "debug_symfile (set_objfile_sf ob r w) = debug_symfile w"
  "sym_tabs (set_objfile_sf ob r w) = sym_tabs w"
  "probe_tabs (set_objfile_sf ob r w) = probe_tabs w"
  "program_spaces (set_objfile_sf ob r w) = program_spaces w"
  "sym_backend (set_objfile_sf ob r w) = sym_backend w"
  by (simp_all add: set_objfile_sf_def)

lemma sf_of_upd [simp]:
  "sf_of (w\<lparr>data_key := k\<rparr>) = sf_of w"
  "sf_of (w\<lparr>dd_heap := h\<rparr>) = sf_of w"
  "sf_of (w\<lparr>dd_next := n\<rparr>) = sf_of w"
  "sf_of (w\<lparr>debug_symfile := b\<rparr>) = sf_of w"
  "sf_of (w\<lparr>program_spaces := ps\<rparr>) = sf_of w"
  by (simp_all add: sf_of_def fun_eq_iff)

lemma objfile_debug_name_upd [simp]:
  "objfile_debug_name (w\<lparr>data_key := k\<rparr>) = objfile_debug_name w"
  "objfile_debug_name (w\<lparr>dd_heap := h\<rparr>) = objfile_debug_name w"
  "objfile_debug_name (w\<lparr>dd_next := n\<rparr>) = objfile_debug_name w"
  "objfile_debug_name (w\<lparr>debug_symfile := b\<rparr>) = objfile_debug_name w"
  "objfile_debug_name (w\<lparr>program_spaces := ps\<rparr>) = objfile_debug_name w"
  by (simp_all add: objfile_debug_name_def fun_eq_iff)

lemma objfile_debug_name_set_objfile_sf [simp]:
  "objfile_debug_name (set_objfile_sf ob r w) ob' = objfile_debug_name w ob'"
  by (simp add: objfile_debug_name_def set_objfile_sf_def)

lemma set_objfile_sf_same [simp]: "set_objfile_sf ob (sf_of w ob) w = w"
  by (simp add: set_objfile_sf_def sf_of_def)

lemma set_objfile_sf_twice [simp]:
  "set_objfile_sf ob r (set_objfile_sf ob r' w) = set_objfile_sf ob r w"
  by (simp add: set_objfile_sf_def)

lemma deref_sf_ptr_simps [simp]:
  "deref_sf_ptr w None = Inl Null_deref"
  "deref_sf_ptr w (Some r) = deref_sf w r"
  by (simp_all add: deref_sf_ptr_def)

lemma deref_sf_static [simp]:
  "sym_tabs w t = Some tab \<Longrightarrow> deref_sf w (Static_sf t) = Inr tab"
  by (simp add: deref_sf_def)

lemma deref_sf_debug [simp]:
  "dd_heap w a = Some d \<Longrightarrow> deref_sf w (Debug_sf a) = Inr (debug_sf d)"
  by (simp add: deref_sf_def)

lemma data_key_get_simps [simp]: "data_key_get w ob = data_key w ob"
  by (simp add: data_key_get_def key_get_def)

lemma data_key_set_Inr [simp]:
  "data_key w ob = None \<Longrightarrow> data_key_set ob a w = Inr (w\<lparr>data_key := (data_key w)(ob \<mapsto> a)\<rparr>)"
  by (simp add: data_key_set_def)

lemma data_key_clear_Inr [simp]:
  "data_key w ob = Some a \<Longrightarrow>
     data_key_clear ob w = Inr (w\<lparr>data_key := (data_key w)(ob := None), dd_heap := (dd_heap w)(a := None)\<rparr>)"
  by (simp add: data_key_clear_def)

lemma installed_iff [simp]:
  "symfile_debug_installed w ob \<longleftrightarrow> sf_of w ob \<noteq> None \<and> data_key w ob \<noteq> None"
  by (simp add: symfile_debug_installed_def)

end
