(* ===== verification/Symfile_Install.thy ===== *)
theory Symfile_Install
  imports Symfile_State
begin

text \<open>
  The procedures that change which table an objfile uses, from
  \<^verbatim>\<open>src/gdb/symfile-debug.c\<close>: \<^verbatim>\<open>install_symfile_debug_logging\<close> (lines
  510--547), \<^verbatim>\<open>uninstall_symfile_debug_logging\<close> (552--564), the mutator guard
  \<^verbatim>\<open>objfile_set_sym_fns\<close> (569--585), the command hook \<^verbatim>\<open>set_debug_symfile\<close>
  (587--604) with its two nested loops, the command as registered by
  \<^verbatim>\<open>_initialize_symfile_debug\<close> (613--626: the setting is stored, then the hook runs),
  and \<^verbatim>\<open>show_debug_symfile\<close> (606--611).  Each procedure maps a world to a world or
  to the error by which the C code stops.  The lemmas give each procedure's result on
  every branch and the frame of what it leaves unchanged; the claims are the install /
  uninstall round trip, the guard's postcondition, the idempotence of the command, and
  the failure of the command on an objfile without a table.
\<close>

section \<open>Install and uninstall\<close>

definition install_symfile_debug_logging :: "oid \<Rightarrow> symfile_world \<Rightarrow> gdb_error + symfile_world" where
  "install_symfile_debug_logging ob w =
     (if symfile_debug_installed w ob
      then Inl (Assertion_failed ''!symfile_debug_installed (objfile)'')
      else
        let real = sf_of w ob;
            a = dd_next w;
            w = w\<lparr>dd_heap := (dd_heap w)(a \<mapsto> default_debug_sym_fns_data), dd_next := Suc a\<rparr>
        in case deref_sf_ptr w real of
             Inl e \<Rightarrow> Inl e
           | Inr tab \<Rightarrow>
               let d = \<lparr>real_sf = real, debug_sf = debug_sf_from tab\<rparr>;
                   w = w\<lparr>dd_heap := (dd_heap w)(a \<mapsto> d)\<rparr>
               in case data_key_set ob a w of
                    Inl e \<Rightarrow> Inl e
                  | Inr w \<Rightarrow> Inr (set_objfile_sf ob (Some (Debug_sf a)) w))"

definition uninstall_symfile_debug_logging :: "oid \<Rightarrow> symfile_world \<Rightarrow> gdb_error + symfile_world" where
  "uninstall_symfile_debug_logging ob w =
     (if \<not> symfile_debug_installed w ob
      then Inl (Assertion_failed ''symfile_debug_installed (objfile)'')
      else
        case data_key_get w ob of
          None \<Rightarrow> Inl Null_deref
        | Some a \<Rightarrow>
            (case dd_heap w a of
               None \<Rightarrow> Inl Dangling_pointer
             | Some d \<Rightarrow> data_key_clear ob (set_objfile_sf ob (real_sf d) w)))"

section \<open>The mutator guard\<close>

definition objfile_set_sym_fns :: "oid \<Rightarrow> sf_ref option \<Rightarrow> symfile_world \<Rightarrow> gdb_error + symfile_world" where
  "objfile_set_sym_fns ob new w =
     (case (if symfile_debug_installed w ob
            then (if debug_symfile w then uninstall_symfile_debug_logging ob w
                  else Inl (Assertion_failed ''debug_symfile''))
            else Inr w) of
        Inl e \<Rightarrow> Inl e
      | Inr w \<Rightarrow>
          let w = set_objfile_sf ob new w
          in if debug_symfile w then install_symfile_debug_logging ob w else Inr w)"

section \<open>The command\<close>

text \<open>The body of the loop of \<^verbatim>\<open>set_debug_symfile\<close> for one objfile (lines 593--602).\<close>

definition set_debug_symfile_objfile :: "oid \<Rightarrow> symfile_world \<Rightarrow> gdb_error + symfile_world" where
  "set_debug_symfile_objfile ob w =
     (if debug_symfile w
      then (if \<not> symfile_debug_installed w ob then install_symfile_debug_logging ob w else Inr w)
      else (if symfile_debug_installed w ob then uninstall_symfile_debug_logging ob w else Inr w))"

text \<open>The inner loop, over the objfiles of one program space, and the outer loop, over
  the program spaces; an error leaves the loop as the C exception or abort would.\<close>

fun set_debug_symfile_objfiles :: "oid list \<Rightarrow> symfile_world \<Rightarrow> gdb_error + symfile_world" where
  "set_debug_symfile_objfiles [] w = Inr w"
| "set_debug_symfile_objfiles (ob # os) w =
     (case set_debug_symfile_objfile ob w of
        Inl e \<Rightarrow> Inl e
      | Inr w' \<Rightarrow> set_debug_symfile_objfiles os w')"

fun set_debug_symfile_pspaces :: "oid list list \<Rightarrow> symfile_world \<Rightarrow> gdb_error + symfile_world" where
  "set_debug_symfile_pspaces [] w = Inr w"
| "set_debug_symfile_pspaces (p # ps) w =
     (case set_debug_symfile_objfiles p w of
        Inl e \<Rightarrow> Inl e
      | Inr w' \<Rightarrow> set_debug_symfile_pspaces ps w')"

definition set_debug_symfile :: "symfile_world \<Rightarrow> gdb_error + symfile_world" where
  "set_debug_symfile w = set_debug_symfile_pspaces (program_spaces w) w"

text \<open>\<^verbatim>\<open>set debug symfile on|off\<close>, as \<^verbatim>\<open>_initialize_symfile_debug\<close> registers
  it: the boolean setting stores the value in \<^verbatim>\<open>debug_symfile\<close>, then calls the hook
  \<^verbatim>\<open>set_debug_symfile\<close>.\<close>

definition set_debug_symfile_cmd :: "bool \<Rightarrow> symfile_world \<Rightarrow> gdb_error + symfile_world" where
  "set_debug_symfile_cmd v w = set_debug_symfile (w\<lparr>debug_symfile := v\<rparr>)"

text \<open>\<^verbatim>\<open>show debug symfile\<close> (lines 606--611); \<open>value\<close> is the text of the
  setting, \<^verbatim>\<open>on\<close> or \<^verbatim>\<open>off\<close>.\<close>

definition show_debug_symfile :: "string \<Rightarrow> string" where
  "show_debug_symfile value = ''Symfile debugging is '' @ value @ ''.''"

section \<open>Lemmas: each procedure on each branch\<close>

lemma deref_sf_alloc [simp]:
  "r \<noteq> Debug_sf a \<Longrightarrow> deref_sf (w\<lparr>dd_heap := (dd_heap w)(a \<mapsto> x), dd_next := n\<rparr>) r = deref_sf w r"
  "r \<noteq> Debug_sf a \<Longrightarrow> deref_sf (w\<lparr>dd_heap := (dd_heap w)(a \<mapsto> x)\<rparr>) r = deref_sf w r"
  by (auto simp: deref_sf_def split: sf_ref.splits)

lemma install_when_installed:
  "symfile_debug_installed w ob \<Longrightarrow>
     install_symfile_debug_logging ob w = Inl (Assertion_failed ''!symfile_debug_installed (objfile)'')"
  by (simp add: install_symfile_debug_logging_def)

lemma install_null_sf:
  "sf_of w ob = None \<Longrightarrow> install_symfile_debug_logging ob w = Inl Null_deref"
  by (simp add: install_symfile_debug_logging_def Let_def)

lemma install_ok:
  assumes "sf_of w ob = Some r" and "data_key w ob = None" and "r \<noteq> Debug_sf (dd_next w)"
    and "deref_sf w r = Inr tab"
  shows "install_symfile_debug_logging ob w =
    Inr (set_objfile_sf ob (Some (Debug_sf (dd_next w)))
      (w\<lparr>dd_next := Suc (dd_next w),
         dd_heap := (dd_heap w)(dd_next w \<mapsto> \<lparr>real_sf = Some r, debug_sf = debug_sf_from tab\<rparr>),
         data_key := (data_key w)(ob \<mapsto> dd_next w)\<rparr>))"
  using assms by (simp add: install_symfile_debug_logging_def Let_def data_key_set_def)

lemma install_Inr_cases:
  assumes "install_symfile_debug_logging ob w = Inr w'"
  obtains r tab where "sf_of w ob = Some r" and "data_key w ob = None"
    and "deref_sf (w\<lparr>dd_heap := (dd_heap w)(dd_next w \<mapsto> default_debug_sym_fns_data),
                     dd_next := Suc (dd_next w)\<rparr>) r = Inr tab"
    and "w' = set_objfile_sf ob (Some (Debug_sf (dd_next w)))
      (w\<lparr>dd_next := Suc (dd_next w),
         dd_heap := (dd_heap w)(dd_next w \<mapsto> \<lparr>real_sf = Some r, debug_sf = debug_sf_from tab\<rparr>),
         data_key := (data_key w)(ob \<mapsto> dd_next w)\<rparr>)"
  using assms
  by (auto simp: install_symfile_debug_logging_def Let_def data_key_set_def key_set_def
      deref_sf_ptr_def split: if_splits sum.splits option.splits)

lemma uninstall_when_not_installed:
  "\<not> symfile_debug_installed w ob \<Longrightarrow>
     uninstall_symfile_debug_logging ob w = Inl (Assertion_failed ''symfile_debug_installed (objfile)'')"
  by (simp add: uninstall_symfile_debug_logging_def)

lemma uninstall_ok:
  assumes "sf_of w ob \<noteq> None" and "data_key w ob = Some a" and "dd_heap w a = Some d"
  shows "uninstall_symfile_debug_logging ob w =
    Inr ((set_objfile_sf ob (real_sf d) w)\<lparr>data_key := (data_key w)(ob := None),
                                          dd_heap := (dd_heap w)(a := None)\<rparr>)"
  using assms by (simp add: uninstall_symfile_debug_logging_def)

lemma uninstall_Inr_cases:
  assumes "uninstall_symfile_debug_logging ob w = Inr w'"
  obtains a d where "sf_of w ob \<noteq> None" and "data_key w ob = Some a" and "dd_heap w a = Some d"
    and "w' = (set_objfile_sf ob (real_sf d) w)\<lparr>data_key := (data_key w)(ob := None),
                                               dd_heap := (dd_heap w)(a := None)\<rparr>"
  using assms
  by (auto simp: uninstall_symfile_debug_logging_def split: if_splits option.splits)

section \<open>Lemmas: what each procedure leaves unchanged\<close>

lemma install_frame:
  assumes "install_symfile_debug_logging ob w = Inr w'"
  shows "debug_symfile w' = debug_symfile w" and "program_spaces w' = program_spaces w"
    and "sym_tabs w' = sym_tabs w" and "probe_tabs w' = probe_tabs w"
    and "sym_backend w' = sym_backend w"
    and "objfile_debug_name w' x = objfile_debug_name w x"
    and "x \<noteq> ob \<Longrightarrow> sf_of w' x = sf_of w x"
    and "x \<noteq> ob \<Longrightarrow> data_key w' x = data_key w x"
  using assms by (auto elim!: install_Inr_cases simp: objfile_debug_name_def set_objfile_sf_def sf_of_def)

lemma install_post:
  assumes "install_symfile_debug_logging ob w = Inr w'"
  shows "sf_of w' ob = Some (Debug_sf (dd_next w))" and "data_key w' ob = Some (dd_next w)"
    and "dd_next w' = Suc (dd_next w)" and "symfile_debug_installed w' ob"
    and "a \<noteq> dd_next w \<Longrightarrow> dd_heap w' a = dd_heap w a"
  using assms by (auto elim!: install_Inr_cases)

lemma uninstall_frame:
  assumes "uninstall_symfile_debug_logging ob w = Inr w'"
  shows "debug_symfile w' = debug_symfile w" and "program_spaces w' = program_spaces w"
    and "sym_tabs w' = sym_tabs w" and "probe_tabs w' = probe_tabs w"
    and "sym_backend w' = sym_backend w" and "dd_next w' = dd_next w"
    and "objfile_debug_name w' x = objfile_debug_name w x"
    and "x \<noteq> ob \<Longrightarrow> sf_of w' x = sf_of w x"
    and "x \<noteq> ob \<Longrightarrow> data_key w' x = data_key w x"
  using assms by (auto elim!: uninstall_Inr_cases simp: objfile_debug_name_def set_objfile_sf_def sf_of_def)

lemma uninstall_post:
  assumes "uninstall_symfile_debug_logging ob w = Inr w'"
  shows "data_key w' ob = None" and "\<not> symfile_debug_installed w' ob"
  using assms by (auto elim!: uninstall_Inr_cases)

lemmas procedure_frames = install_frame uninstall_frame

section \<open>Lemmas: the loops of the command\<close>

lemma objfile_set_sym_fns_Inr_cases:
  assumes s: "objfile_set_sym_fns ob r w = Inr w'"
  obtains (reinstall) w1 where "symfile_debug_installed w ob" "debug_symfile w"
      "uninstall_symfile_debug_logging ob w = Inr w1"
      "install_symfile_debug_logging ob (set_objfile_sf ob r w1) = Inr w'"
  | (install) "\<not> symfile_debug_installed w ob" "debug_symfile w"
      "install_symfile_debug_logging ob (set_objfile_sf ob r w) = Inr w'"
  | (plain) "\<not> symfile_debug_installed w ob" "\<not> debug_symfile w" "w' = set_objfile_sf ob r w"
proof (cases "symfile_debug_installed w ob")
  case inst: True
  show ?thesis
  proof (cases "debug_symfile w")
    case d: True
    with inst s obtain w1 where u: "uninstall_symfile_debug_logging ob w = Inr w1"
      and rest: "(let w2 = set_objfile_sf ob r w1
          in if debug_symfile w2 then install_symfile_debug_logging ob w2 else Inr w2) = Inr w'"
      by (cases "uninstall_symfile_debug_logging ob w")
         (simp_all add: objfile_set_sym_fns_def del: installed_iff)
    have "debug_symfile w1" using uninstall_frame(1) [OF u] d by simp
    with rest have "install_symfile_debug_logging ob (set_objfile_sf ob r w1) = Inr w'"
      by (simp add: Let_def)
    with inst d u show ?thesis by (rule reinstall)
  next
    case False
    with inst s show ?thesis by (simp add: objfile_set_sym_fns_def del: installed_iff)
  qed
next
  case False
  with s show ?thesis
    by (cases "debug_symfile w")
       (simp_all add: objfile_set_sym_fns_def Let_def install plain del: installed_iff)
qed

lemma objfile_set_sym_fns_frame:
  assumes s: "objfile_set_sym_fns ob r w = Inr w'"
  shows "debug_symfile w' = debug_symfile w \<and> program_spaces w' = program_spaces w \<and>
    sym_tabs w' = sym_tabs w \<and> probe_tabs w' = probe_tabs w \<and> sym_backend w' = sym_backend w \<and>
    (\<forall>x. x \<noteq> ob \<longrightarrow> sf_of w' x = sf_of w x \<and> data_key w' x = data_key w x)"
  using s
proof (cases rule: objfile_set_sym_fns_Inr_cases)
  case (reinstall w1)
  with uninstall_frame [OF reinstall(3)] install_frame [OF reinstall(4)] show ?thesis by simp
next
  case install
  with install_frame [OF install(3)] show ?thesis by simp
next
  case plain
  then show ?thesis by simp
qed

lemma set_debug_symfile_objfile_frame:
  assumes "set_debug_symfile_objfile ob w = Inr w'"
  shows "debug_symfile w' = debug_symfile w" and "program_spaces w' = program_spaces w"
    and "x \<noteq> ob \<Longrightarrow> sf_of w' x = sf_of w x"
    and "x \<noteq> ob \<Longrightarrow> data_key w' x = data_key w x"
  using assms procedure_frames [of ob w w']
  by (auto simp: set_debug_symfile_objfile_def split: if_splits)

lemma set_debug_symfile_objfile_post:
  assumes "set_debug_symfile_objfile ob w = Inr w'"
  shows "symfile_debug_installed w' ob \<longleftrightarrow> debug_symfile w"
  using assms install_post(4) [of ob w w'] uninstall_post(2) [of ob w w']
  by (auto simp del: installed_iff simp: set_debug_symfile_objfile_def split: if_splits)

lemma set_debug_symfile_objfile_null:
  assumes "set_debug_symfile_objfile ob w = Inr w'" and "sf_of w x = None"
  shows "sf_of w' x = None"
proof (cases "x = ob")
  case True
  with assms show ?thesis
    by (auto simp: set_debug_symfile_objfile_def install_null_sf split: if_splits)
next
  case False
  with assms show ?thesis by (simp add: set_debug_symfile_objfile_frame(3))
qed

lemma set_debug_symfile_objfiles_post:
  assumes "set_debug_symfile_objfiles os w = Inr w'"
  shows "debug_symfile w' = debug_symfile w \<and> program_spaces w' = program_spaces w \<and>
    (\<forall>x. x \<notin> set os \<longrightarrow> sf_of w' x = sf_of w x \<and> data_key w' x = data_key w x) \<and>
    (\<forall>x \<in> set os. symfile_debug_installed w' x \<longleftrightarrow> debug_symfile w) \<and>
    (\<forall>x. sf_of w x = None \<longrightarrow> sf_of w' x = None)"
  using assms
proof (induction os arbitrary: w)
  case Nil
  then show ?case by simp
next
  case (Cons ob os)
  from Cons.prems obtain w1 where w1: "set_debug_symfile_objfile ob w = Inr w1"
    and rest: "set_debug_symfile_objfiles os w1 = Inr w'"
    by (auto split: sum.splits)
  have IH: "debug_symfile w' = debug_symfile w1 \<and> program_spaces w' = program_spaces w1 \<and>
    (\<forall>x. x \<notin> set os \<longrightarrow> sf_of w' x = sf_of w1 x \<and> data_key w' x = data_key w1 x) \<and>
    (\<forall>x \<in> set os. symfile_debug_installed w' x \<longleftrightarrow> debug_symfile w1) \<and>
    (\<forall>x. sf_of w1 x = None \<longrightarrow> sf_of w' x = None)"
    by (rule Cons.IH [OF rest])
  note fr = set_debug_symfile_objfile_frame [OF w1]
  have head: "symfile_debug_installed w' ob \<longleftrightarrow> debug_symfile w"
  proof (cases "ob \<in> set os")
    case True
    with IH fr show ?thesis by simp
  next
    case False
    with IH have "sf_of w' ob = sf_of w1 ob" and "data_key w' ob = data_key w1 ob" by auto
    with set_debug_symfile_objfile_post [OF w1] show ?thesis by simp
  qed
  show ?case
    using IH fr head set_debug_symfile_objfile_null [OF w1] by auto
qed

lemma set_debug_symfile_objfiles_settled:
  assumes "\<forall>x \<in> set os. symfile_debug_installed w x \<longleftrightarrow> debug_symfile w"
  shows "set_debug_symfile_objfiles os w = Inr w"
  using assms by (induction os) (auto simp: set_debug_symfile_objfile_def simp del: installed_iff)

lemma set_debug_symfile_pspaces_post:
  assumes "set_debug_symfile_pspaces ps w = Inr w'"
  shows "debug_symfile w' = debug_symfile w \<and> program_spaces w' = program_spaces w \<and>
    (\<forall>x. x \<notin> set (concat ps) \<longrightarrow> sf_of w' x = sf_of w x \<and> data_key w' x = data_key w x) \<and>
    (\<forall>x \<in> set (concat ps). symfile_debug_installed w' x \<longleftrightarrow> debug_symfile w) \<and>
    (\<forall>x. sf_of w x = None \<longrightarrow> sf_of w' x = None)"
  using assms
proof (induction ps arbitrary: w)
  case Nil
  then show ?case by simp
next
  case (Cons p ps)
  from Cons.prems obtain w1 where w1: "set_debug_symfile_objfiles p w = Inr w1"
    and rest: "set_debug_symfile_pspaces ps w1 = Inr w'"
    by (auto split: sum.splits)
  note IH = Cons.IH [OF rest]
  note one = set_debug_symfile_objfiles_post [OF w1]
  have "\<forall>x \<in> set p. symfile_debug_installed w' x \<longleftrightarrow> debug_symfile w"
  proof
    fix x assume x: "x \<in> set p"
    show "symfile_debug_installed w' x \<longleftrightarrow> debug_symfile w"
    proof (cases "x \<in> set (concat ps)")
      case True
      with IH have "symfile_debug_installed w' x \<longleftrightarrow> debug_symfile w1" by blast
      with one show ?thesis by simp
    next
      case False
      with IH have "sf_of w' x = sf_of w1 x \<and> data_key w' x = data_key w1 x" by blast
      with one x show ?thesis by simp
    qed
  qed
  moreover have "\<forall>x \<in> set (concat ps). symfile_debug_installed w' x \<longleftrightarrow> debug_symfile w"
    using IH one by (simp del: installed_iff)
  moreover have "\<forall>x. x \<notin> set (concat (p # ps)) \<longrightarrow>
      sf_of w' x = sf_of w x \<and> data_key w' x = data_key w x"
    using IH one by simp
  ultimately show ?case
    using IH one by (simp del: installed_iff) blast
qed

lemma set_debug_symfile_pspaces_settled:
  assumes "\<forall>x \<in> set (concat ps). symfile_debug_installed w x \<longleftrightarrow> debug_symfile w"
  shows "set_debug_symfile_pspaces ps w = Inr w"
  using assms by (induction ps) (simp_all add: set_debug_symfile_objfiles_settled del: installed_iff)

lemma set_debug_symfile_on_needs_sf:
  assumes c: "set_debug_symfile_cmd True w = Inr w'" and live: "ob \<in> set (live_objfiles w)"
  shows "sf_of w ob \<noteq> None"
proof
  assume null: "sf_of w ob = None"
  have walk: "set_debug_symfile_pspaces (program_spaces w) (w\<lparr>debug_symfile := True\<rparr>) = Inr w'"
    using c by (simp add: set_debug_symfile_cmd_def set_debug_symfile_def)
  note post = set_debug_symfile_pspaces_post [OF walk]
  from null have "sf_of (w\<lparr>debug_symfile := True\<rparr>) ob = None" by (simp add: sf_of_def)
  with post have "sf_of w' ob = None" by blast
  moreover have "symfile_debug_installed w' ob"
  proof -
    from post have "\<forall>x \<in> set (concat (program_spaces w)). symfile_debug_installed w' x"
      by (simp del: installed_iff set_concat)
    with live show ?thesis by (simp add: live_objfiles_def del: installed_iff set_concat)
  qed
  ultimately show False by simp
qed

section \<open>Properties\<close>

text \<open>
  C1 (absence preservation).  Installing the debug proxies on an objfile whose table is a
  reader's static table succeeds, and the table the objfile then uses has exactly the
  absent slots of the real table: every absent slot stays absent, every populated slot
  holds the proxy of that slot, and the nested probe table is the debugging one exactly
  when the real table has one.
\<close>

theorem install_preserves_absence:
  assumes "\<not> symfile_debug_installed w ob" and "sf_of w ob = Some (Static_sf t)"
    and "sym_tabs w t = Some tab"
  shows "\<exists>w' tab'. install_symfile_debug_logging ob w = Inr w' \<and>
           deref_sf_ptr w' (sf_of w' ob) = Inr tab' \<and>
           (\<forall>s. sf_slot s tab' = (if sf_slot s tab = None then None else Some (Debug_fn s))) \<and>
           sym_probe_fns tab' = (if sym_probe_fns tab = None then None else Some Debug_probe_fns)"
proof -
  from assms(1,2) have k: "data_key w ob = None" by simp
  let ?d = "\<lparr>real_sf = Some (Static_sf t), debug_sf = debug_sf_from tab\<rparr>"
  let ?w' = "set_objfile_sf ob (Some (Debug_sf (dd_next w)))
      (w\<lparr>dd_next := Suc (dd_next w), dd_heap := (dd_heap w)(dd_next w \<mapsto> ?d),
         data_key := (data_key w)(ob \<mapsto> dd_next w)\<rparr>)"
  from assms(2,3) k have "install_symfile_debug_logging ob w = Inr ?w'"
    by (intro install_ok) simp_all
  moreover have "deref_sf_ptr ?w' (sf_of ?w' ob) = Inr (debug_sf_from tab)"
    by simp
  ultimately show ?thesis by auto
qed

text \<open>
  C2 (round trip).  Installing the debug proxies on an objfile whose table is a reader's
  static table and uninstalling them again gives back the world as it was: the objfile's
  table pointer is the original one again, the registry entry is gone and the block is
  freed.  Only the allocator has moved on.
\<close>

theorem install_uninstall_roundtrip:
  assumes "\<not> symfile_debug_installed w ob" and "sf_of w ob = Some (Static_sf t)"
    and "sym_tabs w t = Some tab" and "dd_heap w (dd_next w) = None"
  shows "(case install_symfile_debug_logging ob w of
            Inl e \<Rightarrow> Inl e
          | Inr w' \<Rightarrow> uninstall_symfile_debug_logging ob w') =
         Inr (w\<lparr>dd_next := Suc (dd_next w)\<rparr>)"
proof -
  from assms(1,2) have k: "data_key w ob = None" by simp
  from assms(2,3) k have i: "install_symfile_debug_logging ob w =
    Inr (set_objfile_sf ob (Some (Debug_sf (dd_next w)))
      (w\<lparr>dd_next := Suc (dd_next w),
         dd_heap := (dd_heap w)(dd_next w \<mapsto> \<lparr>real_sf = Some (Static_sf t), debug_sf = debug_sf_from tab\<rparr>),
         data_key := (data_key w)(ob \<mapsto> dd_next w)\<rparr>))"
    by (intro install_ok) simp_all
  from assms(2,4) k show ?thesis
    by (simp add: i uninstall_ok set_objfile_sf_def sf_of_def fun_upd_idem)
qed

text \<open>
  C3 (mutator guard).  After \<^verbatim>\<open>objfile_set_sym_fns\<close> replaces an objfile's table by a
  reader's static table: when debugging is on, the objfile is instrumented and its shadow
  wraps the new table (the saved real table is the new one, and the shadow table is built
  from it, not from the stale one); when it is off, the objfile's table is exactly the new
  one.
\<close>

theorem objfile_set_sym_fns_guard:
  assumes "objfile_set_sym_fns ob (Some (Static_sf t)) w = Inr w'"
  shows "if debug_symfile w
         then symfile_debug_installed w' ob \<and> sf_of w' ob = Some (Debug_sf (dd_next w)) \<and>
              (\<exists>tab. sym_tabs w t = Some tab \<and>
                 dd_heap w' (dd_next w) =
                   Some \<lparr>real_sf = Some (Static_sf t), debug_sf = debug_sf_from tab\<rparr>)
         else sf_of w' ob = Some (Static_sf t)"
proof -
  obtain w1 where w1: "(if symfile_debug_installed w ob
            then (if debug_symfile w then uninstall_symfile_debug_logging ob w
                  else Inl (Assertion_failed ''debug_symfile''))
            else Inr w) = Inr w1"
    and rest: "(let w2 = set_objfile_sf ob (Some (Static_sf t)) w1
          in if debug_symfile w2 then install_symfile_debug_logging ob w2 else Inr w2) = Inr w'"
    using assms by (auto simp: objfile_set_sym_fns_def split: sum.splits)
  have d1: "debug_symfile w1 = debug_symfile w" and n1: "dd_next w1 = dd_next w"
    and t1: "sym_tabs w1 = sym_tabs w"
    using w1 uninstall_frame [of ob w w1] by (auto split: if_splits)
  show ?thesis
  proof (cases "debug_symfile w")
    case True
    with rest d1 have i: "install_symfile_debug_logging ob (set_objfile_sf ob (Some (Static_sf t)) w1) = Inr w'"
      by (simp add: Let_def)
    then show ?thesis
      using True n1 t1
      by (auto elim!: install_Inr_cases simp: deref_sf_def split: option.splits)
  next
    case False
    with rest d1 have "w' = set_objfile_sf ob (Some (Static_sf t)) w1" by (simp add: Let_def)
    with False show ?thesis by simp
  qed
qed

text \<open>
  C4 (idempotent command).  Once \<^verbatim>\<open>set debug symfile on\<close> (or \<^verbatim>\<open>off\<close>) has
  succeeded, giving the same command again changes nothing: every objfile is already in
  the target state and is left untouched, never installed twice.
\<close>

theorem set_debug_symfile_cmd_idempotent:
  assumes "set_debug_symfile_cmd v w = Inr w'"
  shows "set_debug_symfile_cmd v w' = Inr w'"
proof -
  from assms have walk: "set_debug_symfile_pspaces (program_spaces w) (w\<lparr>debug_symfile := v\<rparr>) = Inr w'"
    by (simp add: set_debug_symfile_cmd_def set_debug_symfile_def)
  note post = set_debug_symfile_pspaces_post [OF walk]
  then have d: "debug_symfile w' = v" and ps: "program_spaces w' = program_spaces w"
    and settled: "\<forall>x \<in> set (concat (program_spaces w')). symfile_debug_installed w' x \<longleftrightarrow> debug_symfile w'"
    by (simp_all del: installed_iff)
  from d have "w'\<lparr>debug_symfile := v\<rparr> = w'" by simp
  with settled show ?thesis
    by (simp add: set_debug_symfile_cmd_def set_debug_symfile_def set_debug_symfile_pspaces_settled
        del: installed_iff)
qed

text \<open>
  C5 (the command faults on an objfile without a table).  If some live objfile has no
  symbol-reader table (\<^verbatim>\<open>objfile->sf == NULL\<close>), \<^verbatim>\<open>set debug symfile on\<close> never
  succeeds: \<^verbatim>\<open>set_debug_symfile\<close> finds it not instrumented and calls
  \<^verbatim>\<open>install_symfile_debug_logging\<close>, which reads the slots of the \<^verbatim>\<open>NULL\<close> table.
\<close>

theorem set_debug_symfile_on_null_sf:
  assumes "ob \<in> set (live_objfiles w)" and "sf_of w ob = None"
  shows "\<exists>e. set_debug_symfile_cmd True w = Inl e"
  using assms set_debug_symfile_on_needs_sf [of w _ ob] by (cases "set_debug_symfile_cmd True w") auto

end
