(* ===== verification/Symfile_Proxies.thy ===== *)
theory Symfile_Proxies
  imports Symfile_State
begin

text \<open>
  The logging proxies of \<^verbatim>\<open>src/gdb/symfile-debug.c\<close> and the dispatch of a call
  through a table.  Each proxy is one definition, in the order of the file:
  \<^verbatim>\<open>debug_sym_get_probes\<close> (lines 363--378), \<^verbatim>\<open>debug_sym_new_init\<close> (387--397),
  \<^verbatim>\<open>debug_sym_init\<close> (399--409), \<^verbatim>\<open>debug_sym_read\<close> (411--421),
  \<^verbatim>\<open>debug_sym_finish\<close> (423--433), \<^verbatim>\<open>debug_sym_offsets\<close> (435--447),
  \<^verbatim>\<open>debug_sym_segments\<close> (449--456), \<^verbatim>\<open>debug_sym_read_linetable\<close> (458--468) and
  \<^verbatim>\<open>debug_sym_relocate\<close> (470--487).  A proxy looks up the \<^verbatim>\<open>debug_sym_fns_data\<close>
  of its objfile argument in the registry, follows \<^verbatim>\<open>real_sf\<close> to the real table, and
  calls the function in the same slot; it receives that call as a parameter
  (\<open>call\<close>), so that the proxies are plain definitions and \<open>call_sym_fn\<close> ties them
  together.  A call through a function pointer recurses when the pointer is a proxy, and
  in a world where a real table is itself a shadow table the recursion does not end: the
  dispatcher therefore carries fuel, and running out of it is \<open>None\<close>.
  \<open>objfile_sym_call\<close> is a call site of the rest of gdb,
  \<^verbatim>\<open>objfile->sf->sym_read (objfile, flags)\<close> and its kin.
\<close>

section \<open>Reading the real table\<close>

text \<open>\<^verbatim>\<open>debug_data->real_sf->\<close>: the registry lookup
  (\<^verbatim>\<open>symfile_debug_objfile_data_key.get (objfile)\<close>), then the block, then the table
  its \<^verbatim>\<open>real_sf\<close> points at.\<close>

definition real_sf_of :: "symfile_world \<Rightarrow> oid \<Rightarrow> gdb_error + sym_fns" where
  "real_sf_of w ob =
     (case data_key_get w ob of
        None \<Rightarrow> Inl Null_deref
      | Some a \<Rightarrow> (case dd_heap w a of
                    None \<Rightarrow> Inl Dangling_pointer
                  | Some d \<Rightarrow> deref_sf_ptr w (real_sf d)))"

text \<open>The function pointer in a slot of a table; calling an absent slot is a call
  through \<^verbatim>\<open>NULL\<close>.\<close>

definition slot_fn :: "gdb_error + sym_fns \<Rightarrow> slot \<Rightarrow> gdb_error + sym_fn" where
  "slot_fn t s =
     (case t of
        Inl e \<Rightarrow> Inl e
      | Inr tab \<Rightarrow> (case sf_slot s tab of None \<Rightarrow> Inl Null_call | Some f \<Rightarrow> Inr f))"

text \<open>\<^verbatim>\<open>tab->sym_probe_fns->sym_get_probes\<close>.\<close>

definition probe_fn :: "symfile_world \<Rightarrow> gdb_error + sym_fns \<Rightarrow> gdb_error + sym_fn" where
  "probe_fn w t =
     (case t of
        Inl e \<Rightarrow> Inl e
      | Inr tab \<Rightarrow> (case sym_probe_fns tab of
                     None \<Rightarrow> Inl Null_deref
                   | Some p \<Rightarrow> (case deref_probes w p of
                                  Inl e \<Rightarrow> Inl e
                                | Inr pt \<Rightarrow> Inr (sym_get_probes pt))))"

text \<open>The function pointer a call uses in a table: its slot, or the probe table's
  \<^verbatim>\<open>sym_get_probes\<close>.\<close>

definition call_fn :: "symfile_world \<Rightarrow> gdb_error + sym_fns \<Rightarrow> sym_call \<Rightarrow> gdb_error + sym_fn" where
  "call_fn w t c = (case call_slot c of Some s \<Rightarrow> slot_fn t s | None \<Rightarrow> probe_fn w t)"

text \<open>Calling what a pointer read produced: a fault if the read faulted.\<close>

definition forward :: "(sym_fn \<Rightarrow> sym_call \<Rightarrow> sym_ret traced) \<Rightarrow> gdb_error + sym_fn \<Rightarrow> sym_call \<Rightarrow> sym_ret traced" where
  "forward call f c = (case f of Inl e \<Rightarrow> fault e | Inr g \<Rightarrow> call g c)"

text \<open>The pointer a slot returns, as \<^verbatim>\<open>host_address_to_string\<close> prints it
  (\<^verbatim>\<open>retval.data ()\<close> for the probe vector).\<close>

primrec ret_ptr :: "sym_ret \<Rightarrow> addr" where
  "ret_ptr Ret_void = 0"
| "ret_ptr (Ret_ptr p) = p"

section \<open>The proxies\<close>

definition debug_sym_get_probes :: "(sym_fn \<Rightarrow> sym_call \<Rightarrow> sym_ret traced) \<Rightarrow> symfile_world \<Rightarrow> oid \<Rightarrow> sym_ret traced" where
  "debug_sym_get_probes call w objfile =
     log_after (\<lambda>retval. ''probes->sym_get_probes ('' @ objfile_debug_name w objfile @ '') = ''
                         @ host_address_to_string (ret_ptr retval))
       (forward call (probe_fn w (real_sf_of w objfile)) Call_get_probes)"

definition debug_sym_new_init :: "(sym_fn \<Rightarrow> sym_call \<Rightarrow> sym_ret traced) \<Rightarrow> symfile_world \<Rightarrow> oid \<Rightarrow> sym_ret traced" where
  "debug_sym_new_init call w objfile =
     log_before (''sf->sym_new_init ('' @ objfile_debug_name w objfile @ '')'')
       (forward call (slot_fn (real_sf_of w objfile) Sym_new_init) Call_new_init)"

definition debug_sym_init :: "(sym_fn \<Rightarrow> sym_call \<Rightarrow> sym_ret traced) \<Rightarrow> symfile_world \<Rightarrow> oid \<Rightarrow> sym_ret traced" where
  "debug_sym_init call w objfile =
     log_before (''sf->sym_init ('' @ objfile_debug_name w objfile @ '')'')
       (forward call (slot_fn (real_sf_of w objfile) Sym_init) Call_init)"

definition debug_sym_read :: "(sym_fn \<Rightarrow> sym_call \<Rightarrow> sym_ret traced) \<Rightarrow> symfile_world \<Rightarrow> oid \<Rightarrow> symfile_add_flags \<Rightarrow> sym_ret traced" where
  "debug_sym_read call w objfile symfile_flags =
     log_before (''sf->sym_read ('' @ objfile_debug_name w objfile @ '', 0x''
                 @ hex_digits (unat symfile_flags) @ '')'')
       (forward call (slot_fn (real_sf_of w objfile) Sym_read) (Call_read symfile_flags))"

definition debug_sym_finish :: "(sym_fn \<Rightarrow> sym_call \<Rightarrow> sym_ret traced) \<Rightarrow> symfile_world \<Rightarrow> oid \<Rightarrow> sym_ret traced" where
  "debug_sym_finish call w objfile =
     log_before (''sf->sym_finish ('' @ objfile_debug_name w objfile @ '')'')
       (forward call (slot_fn (real_sf_of w objfile) Sym_finish) Call_finish)"

definition debug_sym_offsets :: "(sym_fn \<Rightarrow> sym_call \<Rightarrow> sym_ret traced) \<Rightarrow> symfile_world \<Rightarrow> oid \<Rightarrow> addr \<Rightarrow> sym_ret traced" where
  "debug_sym_offsets call w objfile info =
     log_before (''sf->sym_offsets ('' @ objfile_debug_name w objfile @ '', ''
                 @ host_address_to_string info @ '')'')
       (forward call (slot_fn (real_sf_of w objfile) Sym_offsets) (Call_offsets info))"

text \<open>\<^verbatim>\<open>debug_sym_segments\<close> has no objfile argument to find the real table by; it
  asserts that it is never reached.\<close>

definition debug_sym_segments :: "addr \<Rightarrow> sym_ret traced" where
  "debug_sym_segments abfd = fault (Not_reached ''debug_sym_segments called'')"

definition debug_sym_read_linetable :: "(sym_fn \<Rightarrow> sym_call \<Rightarrow> sym_ret traced) \<Rightarrow> symfile_world \<Rightarrow> oid \<Rightarrow> sym_ret traced" where
  "debug_sym_read_linetable call w objfile =
     log_before (''sf->sym_read_linetable ('' @ objfile_debug_name w objfile @ '')'')
       (forward call (slot_fn (real_sf_of w objfile) Sym_read_linetable) Call_read_linetable)"

text \<open>\<^verbatim>\<open>debug_sym_relocate\<close> calls first and prints one line after the call returns.\<close>

definition debug_sym_relocate :: "(sym_fn \<Rightarrow> sym_call \<Rightarrow> sym_ret traced) \<Rightarrow> symfile_world \<Rightarrow> oid \<Rightarrow> addr \<Rightarrow> addr \<Rightarrow> sym_ret traced" where
  "debug_sym_relocate call w objfile sectp buf =
     log_after (\<lambda>retval. ''sf->sym_relocate ('' @ objfile_debug_name w objfile @ '', ''
                         @ host_address_to_string sectp @ '', ''
                         @ host_address_to_string buf @ '') = ''
                         @ host_address_to_string (ret_ptr retval))
       (forward call (slot_fn (real_sf_of w objfile) Sym_relocate) (Call_relocate sectp buf))"

text \<open>The proxy behind \<open>Debug_fn s\<close>, called with the arguments of a call through slot
  \<open>s\<close>; a call with the arguments of another slot is ill-typed.\<close>

definition debug_proxy :: "(sym_fn \<Rightarrow> sym_call \<Rightarrow> sym_ret traced) \<Rightarrow> symfile_world \<Rightarrow> oid \<Rightarrow> slot \<Rightarrow> sym_call \<Rightarrow> sym_ret traced" where
  "debug_proxy call w ob s c =
     (if call_slot c \<noteq> Some s then fault Bad_call_type
      else case c of
        Call_new_init \<Rightarrow> debug_sym_new_init call w ob
      | Call_init \<Rightarrow> debug_sym_init call w ob
      | Call_read fl \<Rightarrow> debug_sym_read call w ob fl
      | Call_finish \<Rightarrow> debug_sym_finish call w ob
      | Call_offsets info \<Rightarrow> debug_sym_offsets call w ob info
      | Call_segments abfd \<Rightarrow> debug_sym_segments abfd
      | Call_read_linetable \<Rightarrow> debug_sym_read_linetable call w ob
      | Call_relocate sectp buf \<Rightarrow> debug_sym_relocate call w ob sectp buf
      | Call_get_probes \<Rightarrow> fault Bad_call_type)"

section \<open>Dispatch\<close>

text \<open>Calling a function pointer with the objfile \<open>ob\<close> and the arguments \<open>c\<close>: a
  reader's function returns what the reader returns, writing nothing to the log; a proxy
  runs with the calls it makes dispatched with one unit of fuel less.\<close>

fun call_sym_fn :: "nat \<Rightarrow> symfile_world \<Rightarrow> oid \<Rightarrow> sym_fn \<Rightarrow> sym_call \<Rightarrow> sym_ret traced" where
  "call_sym_fn 0 w ob f c = None"
| "call_sym_fn (Suc n) w ob (Backend_fn b) c = Some ([], sym_backend w b ob c)"
| "call_sym_fn (Suc n) w ob (Debug_fn s) c = debug_proxy (call_sym_fn n w ob) w ob s c"
| "call_sym_fn (Suc n) w ob Debug_get_probes_fn c =
     (if c = Call_get_probes then debug_sym_get_probes (call_sym_fn n w ob) w ob
      else fault Bad_call_type)"

text \<open>A call site of gdb: \<^verbatim>\<open>objfile->sf->sym_X (objfile, ...)\<close>, or
  \<^verbatim>\<open>objfile->sf->sym_probe_fns->sym_get_probes (objfile)\<close>.\<close>

definition objfile_sym_call :: "nat \<Rightarrow> symfile_world \<Rightarrow> oid \<Rightarrow> sym_call \<Rightarrow> sym_ret traced" where
  "objfile_sym_call n w ob c = forward (call_sym_fn n w ob) (call_fn w (deref_sf_ptr w (sf_of w ob)) c) c"

text \<open>One way of answering calls extends another when it answers every call the other
  answers, with the same answer (used for the monotonicity of fuel).\<close>

definition call_le :: "(sym_fn \<Rightarrow> sym_call \<Rightarrow> sym_ret traced) \<Rightarrow> (sym_fn \<Rightarrow> sym_call \<Rightarrow> sym_ret traced) \<Rightarrow> bool" where
  "call_le call call' = (\<forall>f c r. call f c = Some r \<longrightarrow> call' f c = Some r)"

section \<open>Lemmas\<close>


lemma forward_simps [simp]:
  "forward call (Inl e) c = fault e"
  "forward call (Inr g) c = call g c"
  by (simp_all add: forward_def)

lemma probe_fn_simps [simp]:
  "probe_fn w (Inl e) = Inl e"
  "probe_fn w (Inr tab) =
     (case sym_probe_fns tab of None \<Rightarrow> Inl Null_deref
      | Some p \<Rightarrow> (case deref_probes w p of Inl e \<Rightarrow> Inl e | Inr pt \<Rightarrow> Inr (sym_get_probes pt)))"
  by (simp_all add: probe_fn_def)

lemma real_sf_of_Some:
  "data_key w ob = Some a \<Longrightarrow> dd_heap w a = Some d \<Longrightarrow> real_sf_of w ob = deref_sf_ptr w (real_sf d)"
  by (simp add: real_sf_of_def)

lemmas proxy_defs = debug_sym_get_probes_def debug_sym_new_init_def debug_sym_init_def
  debug_sym_read_def debug_sym_finish_def debug_sym_offsets_def debug_sym_segments_def
  debug_sym_read_linetable_def debug_sym_relocate_def

lemma forward_mono:
  "call_le call call' \<Longrightarrow> forward call f c = Some r \<Longrightarrow> forward call' f c = Some r"
  unfolding call_le_def by (cases f; cases r) simp_all

lemma log_before_forward_mono:
  "log_before l (forward call f c) = Some r \<Longrightarrow> call_le call call' \<Longrightarrow>
     log_before l (forward call' f c) = Some r"
  by (cases "forward call f c") (auto dest: forward_mono)

lemma log_after_forward_mono:
  "log_after g (forward call f c) = Some r \<Longrightarrow> call_le call call' \<Longrightarrow>
     log_after g (forward call' f c) = Some r"
  by (cases "forward call f c") (auto dest: forward_mono)

lemma proxies_mono:
  assumes le: "call_le call call'"
  shows "debug_sym_new_init call w ob = Some r \<Longrightarrow> debug_sym_new_init call' w ob = Some r"
    and "debug_sym_init call w ob = Some r \<Longrightarrow> debug_sym_init call' w ob = Some r"
    and "debug_sym_read call w ob fl = Some r \<Longrightarrow> debug_sym_read call' w ob fl = Some r"
    and "debug_sym_finish call w ob = Some r \<Longrightarrow> debug_sym_finish call' w ob = Some r"
    and "debug_sym_offsets call w ob i = Some r \<Longrightarrow> debug_sym_offsets call' w ob i = Some r"
    and "debug_sym_read_linetable call w ob = Some r \<Longrightarrow> debug_sym_read_linetable call' w ob = Some r"
    and "debug_sym_relocate call w ob sp b = Some r \<Longrightarrow> debug_sym_relocate call' w ob sp b = Some r"
    and "debug_sym_get_probes call w ob = Some r \<Longrightarrow> debug_sym_get_probes call' w ob = Some r"
  unfolding proxy_defs
  by (erule log_before_forward_mono log_after_forward_mono, rule le)+

lemma debug_proxy_mono:
  assumes le: "call_le call call'" and r: "debug_proxy call w ob s c = Some r"
  shows "debug_proxy call' w ob s c = Some r"
  using r by (cases c) (simp_all add: debug_proxy_def proxies_mono [OF le] split: if_splits)


lemma call_sym_fn_mono:
  "call_sym_fn n w ob f c = Some r \<Longrightarrow> call_sym_fn (Suc n) w ob f c = Some r"
proof (induction n arbitrary: f c r)
  case 0
  then show ?case by simp
next
  case (Suc n)
  have le: "call_le (call_sym_fn n w ob) (call_sym_fn (Suc n) w ob)"
    using Suc.IH by (simp add: call_le_def)
  show ?case
  proof (cases f)
    case (Backend_fn b)
    with Suc.prems show ?thesis by simp
  next
    case (Debug_fn s)
    with Suc.prems le show ?thesis by (simp add: debug_proxy_mono)
  next
    case Debug_get_probes_fn
    with Suc.prems le show ?thesis by (simp add: proxies_mono(8) split: if_splits)
  qed
qed

lemma call_sym_fn_mono_le:
  "call_sym_fn n w ob f c = Some r \<Longrightarrow> n \<le> m \<Longrightarrow> call_sym_fn m w ob f c = Some r"
  by (induction m) (auto simp: le_Suc_eq call_sym_fn_mono)

lemma objfile_sym_call_mono:
  "objfile_sym_call n w ob c = Some r \<Longrightarrow> n \<le> m \<Longrightarrow> objfile_sym_call m w ob c = Some r"
  unfolding objfile_sym_call_def forward_def
  by (auto split: sum.splits intro: call_sym_fn_mono_le)

lemma slot_fn_simps [simp]:
  "slot_fn (Inl e) s = Inl e"
  "slot_fn (Inr tab) s = (case sf_slot s tab of None \<Rightarrow> Inl Null_call | Some f \<Rightarrow> Inr f)"
  by (simp_all add: slot_fn_def)

lemma call_sym_fn_self_loop:
  assumes "real_sf_of w ob = Inr tab" and "sf_slot Sym_read tab = Some (Debug_fn Sym_read)"
  shows "call_sym_fn n w ob (Debug_fn Sym_read) (Call_read fl) = None"
proof (induction n)
  case 0
  then show ?case by simp
next
  case (Suc n)
  have "call_sym_fn (Suc n) w ob (Debug_fn Sym_read) (Call_read fl) =
    log_before (''sf->sym_read ('' @ objfile_debug_name w ob @ '', 0x'' @ hex_digits (unat fl) @ '')'')
      (call_sym_fn n w ob (Debug_fn Sym_read) (Call_read fl))"
    using assms by (simp add: debug_proxy_def debug_sym_read_def del: log_before_eq_None)
  with Suc.IH show ?case by simp
qed

end
