(* ===== verification/Symfile_Invariant.thy ===== *)
theory Symfile_Invariant
  imports Symfile_Install Symfile_Proxies
begin

text \<open>
  The invariant of the symfile-debug layer and the system it holds in.  \<open>shape_inv\<close> says
  that each live objfile either has no block and a reader's static table (or \<^verbatim>\<open>NULL\<close>),
  or has exactly the block its registry entry names, its \<^verbatim>\<open>sf\<close> pointing at that block's
  shadow table, the block's saved \<^verbatim>\<open>real_sf\<close> a static table and its shadow table
  \<open>debug_sf_from\<close> of it (the table \<^verbatim>\<open>install_symfile_debug_logging\<close> builds); that
  registry entries belong to live objfiles and name distinct blocks; that the heap holds exactly
  the blocks named; and that the allocator is above every block.  \<open>sync_inv\<close> says that an
  objfile is instrumented exactly when \<^verbatim>\<open>debug_symfile\<close> is on and it has a table.
  \<open>symfile_step\<close> is one step of the system (the command, the guard
  \<^verbatim>\<open>objfile_set_sym_fns\<close>, an objfile created or destroyed) and \<open>symfile_reachable\<close>
  the states reachable from start-up; the lemmas show every step preserves the invariant,
  and that in a reachable state the heap holds one block per instrumented objfile.
\<close>


section \<open>Well-formed tables and blocks\<close>

fun is_backend_fn :: "sym_fn \<Rightarrow> bool" where
  "is_backend_fn (Backend_fn b) = True"
| "is_backend_fn f = False"

definition table_wf :: "symfile_world \<Rightarrow> sym_fns \<Rightarrow> bool" where
  "table_wf w tab =
     ((\<forall>s. case sf_slot s tab of None \<Rightarrow> True | Some f \<Rightarrow> is_backend_fn f) \<and>
      (case sym_probe_fns tab of
         None \<Rightarrow> True
       | Some (Static_probes n) \<Rightarrow>
           (case probe_tabs w n of None \<Rightarrow> False | Some pt \<Rightarrow> is_backend_fn (sym_get_probes pt))
       | Some Debug_probe_fns \<Rightarrow> False))"

definition static_sf_ok :: "symfile_world \<Rightarrow> sf_ref option \<Rightarrow> bool" where
  "static_sf_ok w r =
     (case r of
        None \<Rightarrow> True
      | Some (Static_sf t) \<Rightarrow> (case sym_tabs w t of None \<Rightarrow> False | Some tab \<Rightarrow> table_wf w tab)
      | Some (Debug_sf a) \<Rightarrow> False)"

definition block_ok :: "symfile_world \<Rightarrow> debug_sym_fns_data \<Rightarrow> bool" where
  "block_ok w d =
     (real_sf d \<noteq> None \<and> static_sf_ok w (real_sf d) \<and>
      (case deref_sf_ptr w (real_sf d) of Inl e \<Rightarrow> False | Inr tab \<Rightarrow> debug_sf d = debug_sf_from tab))"

definition objfile_ok :: "symfile_world \<Rightarrow> oid \<Rightarrow> bool" where
  "objfile_ok w ob =
     (case data_key w ob of
        None \<Rightarrow> static_sf_ok w (sf_of w ob)
      | Some a \<Rightarrow> sf_of w ob = Some (Debug_sf a) \<and>
                  (case dd_heap w a of None \<Rightarrow> False | Some d \<Rightarrow> block_ok w d))"

definition shape_inv :: "symfile_world \<Rightarrow> bool" where
  "shape_inv w =
     ((\<forall>ob \<in> set (live_objfiles w). objfile_ok w ob) \<and>
      dom (data_key w) \<subseteq> set (live_objfiles w) \<and>
      (\<forall>x y a. data_key w x = Some a \<longrightarrow> data_key w y = Some a \<longrightarrow> x = y) \<and>
      dom (dd_heap w) = ran (data_key w) \<and>
      (\<forall>a \<in> dom (dd_heap w). a < dd_next w))"

definition sync_inv :: "symfile_world \<Rightarrow> bool" where
  "sync_inv w =
     (\<forall>ob \<in> set (live_objfiles w). (data_key w ob \<noteq> None) = (debug_symfile w \<and> sf_of w ob \<noteq> None))"

definition symfile_inv :: "symfile_world \<Rightarrow> bool" where
  "symfile_inv w = (shape_inv w \<and> sync_inv w)"

section \<open>The environment: objfiles come and go\<close>

text \<open>
  Objfiles are created and destroyed by the rest of gdb (\<^verbatim>\<open>objfile::objfile\<close> and
  \<^verbatim>\<open>objfile::~objfile\<close>, not in the sources), modelled from the specification
  (sections 3 and 5): a new objfile joins a program space with no table, and receives one
  later through \<^verbatim>\<open>objfile_set_sym_fns\<close>; destroying an objfile removes it from its
  program space and drops its registry entry with the block, without restoring anything.
\<close>

definition objfile_new :: "oid \<Rightarrow> objfile \<Rightarrow> nat \<Rightarrow> symfile_world \<Rightarrow> symfile_world" where
  "objfile_new ob f i w =
     w\<lparr>objfile_of := (objfile_of w)(ob := f\<lparr>sf := None\<rparr>),
       program_spaces := (program_spaces w)[i := program_spaces w ! i @ [ob]]\<rparr>"

definition objfile_free :: "oid \<Rightarrow> symfile_world \<Rightarrow> symfile_world" where
  "objfile_free ob w =
     w\<lparr>program_spaces := map (filter (\<lambda>x. x \<noteq> ob)) (program_spaces w),
       data_key := (data_key w)(ob := None),
       dd_heap := (case data_key w ob of None \<Rightarrow> dd_heap w | Some a \<Rightarrow> (dd_heap w)(a := None))\<rparr>"

section \<open>Steps and reachable states\<close>

text \<open>
  One step of the system: the command \<^verbatim>\<open>set debug symfile\<close>, a table replacement through
  the guard with a reader's static table (or \<^verbatim>\<open>NULL\<close>), or an objfile created or
  destroyed.  Only steps that return normally lead to a new state.
\<close>

inductive symfile_step :: "symfile_world \<Rightarrow> symfile_world \<Rightarrow> bool" where
  toggle: "set_debug_symfile_cmd v w = Inr w' \<Longrightarrow> symfile_step w w'"
| set_sym_fns: "ob \<in> set (live_objfiles w) \<Longrightarrow> static_sf_ok w r \<Longrightarrow>
    objfile_set_sym_fns ob r w = Inr w' \<Longrightarrow> symfile_step w w'"
| new_objfile: "ob \<notin> set (live_objfiles w) \<Longrightarrow> i < length (program_spaces w) \<Longrightarrow>
    symfile_step w (objfile_new ob f i w)"
| free_objfile: "symfile_step w (objfile_free ob w)"

inductive symfile_reachable :: "symfile_world \<Rightarrow> bool" where
  start: "symfile_start w \<Longrightarrow> \<forall>ob \<in> set (live_objfiles w). static_sf_ok w (sf_of w ob) \<Longrightarrow>
    symfile_reachable w"
| step: "symfile_reachable w \<Longrightarrow> symfile_step w w' \<Longrightarrow> symfile_reachable w'"

section \<open>Lemmas\<close>

lemma static_sf_ok_cong:
  "sym_tabs w' = sym_tabs w \<Longrightarrow> probe_tabs w' = probe_tabs w \<Longrightarrow> static_sf_ok w' r = static_sf_ok w r"
  by (simp add: static_sf_ok_def table_wf_def split: option.splits sf_ref.splits probe_ref.splits)

lemma static_sf_ok_deref:
  "static_sf_ok w (Some r) \<Longrightarrow> \<exists>t tab. r = Static_sf t \<and> sym_tabs w t = Some tab \<and> table_wf w tab"
  by (auto simp: static_sf_ok_def split: sf_ref.splits option.splits)

lemma block_ok_cong:
  assumes "sym_tabs w' = sym_tabs w" and "probe_tabs w' = probe_tabs w"
  shows "block_ok w' d = block_ok w d"
proof (cases "static_sf_ok w (real_sf d) \<and> real_sf d \<noteq> None")
  case True
  then obtain t tab where "real_sf d = Some (Static_sf t)" "sym_tabs w t = Some tab"
    using static_sf_ok_deref by fastforce
  with assms show ?thesis by (simp add: block_ok_def static_sf_ok_cong [OF assms])
next
  case False
  with assms show ?thesis by (auto simp: block_ok_def static_sf_ok_cong [OF assms])
qed

lemma objfile_ok_cong:
  assumes "sym_tabs w' = sym_tabs w" and "probe_tabs w' = probe_tabs w"
    and "data_key w' x = data_key w x" and "sf_of w' x = sf_of w x"
    and "\<And>a. data_key w x = Some a \<Longrightarrow> dd_heap w' a = dd_heap w a"
  shows "objfile_ok w' x = objfile_ok w x"
  using assms
  by (simp add: objfile_ok_def static_sf_ok_cong [OF assms(1,2)] block_ok_cong [OF assms(1,2)]
      split: option.splits)


lemma shape_invD:
  assumes "shape_inv w"
  shows "ob \<in> set (live_objfiles w) \<Longrightarrow> objfile_ok w ob"
    and "data_key w x = Some a \<Longrightarrow> x \<in> set (live_objfiles w)"
    and "data_key w x = Some a \<Longrightarrow> data_key w y = Some a \<Longrightarrow> x = y"
    and "dom (dd_heap w) = ran (data_key w)"
    and "dd_heap w b = Some d \<Longrightarrow> b < dd_next w"
  using assms unfolding shape_inv_def by blast+

lemma shape_invI:
  assumes "\<And>ob. ob \<in> set (live_objfiles w) \<Longrightarrow> objfile_ok w ob"
    and "\<And>x a. data_key w x = Some a \<Longrightarrow> x \<in> set (live_objfiles w)"
    and "\<And>x y a. data_key w x = Some a \<Longrightarrow> data_key w y = Some a \<Longrightarrow> x = y"
    and "dom (dd_heap w) = ran (data_key w)"
    and "\<And>b d. dd_heap w b = Some d \<Longrightarrow> b < dd_next w"
  shows "shape_inv w"
  using assms unfolding shape_inv_def by blast

lemma shape_fresh:
  "shape_inv w \<Longrightarrow> dd_heap w (dd_next w) = None"
  by (auto simp: shape_inv_def)

lemma shape_key_heap:
  "shape_inv w \<Longrightarrow> data_key w x = Some a \<Longrightarrow> a < dd_next w \<and> dd_heap w a \<noteq> None"
  unfolding shape_inv_def by (metis domD domIff ranI)

lemma shape_attach:
  assumes inv: "shape_inv w" and live: "ob \<in> set (live_objfiles w)" and k: "data_key w ob = None"
    and ok: "static_sf_ok w (Some r)" and tab: "deref_sf w r = Inr tab"
  shows "shape_inv (set_objfile_sf ob (Some (Debug_sf (dd_next w)))
      (w\<lparr>dd_next := Suc (dd_next w),
         dd_heap := (dd_heap w)(dd_next w \<mapsto> \<lparr>real_sf = Some r, debug_sf = debug_sf_from tab\<rparr>),
         data_key := (data_key w)(ob \<mapsto> dd_next w)\<rparr>))"
    (is "shape_inv ?w'")
proof -
  let ?a = "dd_next w"
  have fresh: "dd_heap w ?a = None" using inv by (rule shape_fresh)
  have notran: "?a \<notin> ran (data_key w)" using inv fresh by (auto simp: shape_inv_def)
  have block: "block_ok ?w' \<lparr>real_sf = Some r, debug_sf = debug_sf_from tab\<rparr>"
    using ok tab static_sf_ok_deref [OF ok]
    by (auto simp: block_ok_def static_sf_ok_cong [of ?w' w] deref_sf_def)
  have others: "objfile_ok ?w' x = objfile_ok w x" if "x \<noteq> ob" for x
  proof (rule objfile_ok_cong)
    fix b assume "data_key w x = Some b"
    with inv have "b < ?a" by (blast dest: shape_key_heap)
    then show "dd_heap ?w' b = dd_heap w b" by simp
  qed (use that in \<open>simp_all add: sf_of_def set_objfile_sf_def\<close>)
  have "\<forall>x \<in> set (live_objfiles ?w'). objfile_ok ?w' x"
  proof
    fix x assume x: "x \<in> set (live_objfiles ?w')"
    show "objfile_ok ?w' x"
    proof (cases "x = ob")
      case True
      with block show ?thesis by (simp add: objfile_ok_def)
    next
      case False
      from x have "x \<in> set (live_objfiles w)" by (simp add: live_objfiles_def)
      with inv have "objfile_ok w x" by (simp add: shape_inv_def)
      with False others show ?thesis by simp
    qed
  qed
  moreover have "dom (data_key ?w') \<subseteq> set (live_objfiles ?w')"
    using inv live by (auto simp: shape_inv_def live_objfiles_def)
  moreover have "\<forall>x y b. data_key ?w' x = Some b \<longrightarrow> data_key ?w' y = Some b \<longrightarrow> x = y"
    using inv notran by (auto simp: shape_inv_def ran_def)
  moreover have "dom (dd_heap ?w') = ran (data_key ?w')"
    using inv k by (simp add: shape_inv_def ran_map_upd)
  moreover have "\<forall>b \<in> dom (dd_heap ?w'). b < dd_next ?w'"
  proof
    fix b assume "b \<in> dom (dd_heap ?w')"
    then have "b = ?a \<or> b \<in> dom (dd_heap w)" by (simp split: if_splits)
    then show "b < dd_next ?w'" using shape_invD(5) [OF inv] by (auto simp: less_Suc_eq)
  qed
  ultimately show ?thesis unfolding shape_inv_def by blast
qed

lemma shape_detach:
  assumes inv: "shape_inv w" and k: "data_key w ob = Some a" and d: "dd_heap w a = Some d"
  shows "shape_inv ((set_objfile_sf ob (real_sf d) w)\<lparr>data_key := (data_key w)(ob := None),
                                                    dd_heap := (dd_heap w)(a := None)\<rparr>)"
    (is "shape_inv ?w'")
proof -
  have live: "ob \<in> set (live_objfiles w)" using inv k by (auto simp: shape_inv_def)
  with inv have "objfile_ok w ob" by (simp add: shape_inv_def)
  with k d have blk: "block_ok w d" by (simp add: objfile_ok_def)
  have uniq: "data_key w x = Some a \<Longrightarrow> x = ob" for x using inv k by (auto simp: shape_inv_def)
  have "static_sf_ok ?w' (real_sf d) = static_sf_ok w (real_sf d)"
    by (rule static_sf_ok_cong) simp_all
  with blk k have own: "objfile_ok ?w' ob"
    by (simp add: objfile_ok_def block_ok_def)
  have others: "objfile_ok ?w' x = objfile_ok w x" if "x \<noteq> ob" for x
  proof (rule objfile_ok_cong)
    fix b assume "data_key w x = Some b"
    with that uniq have "b \<noteq> a" by blast
    then show "dd_heap ?w' b = dd_heap w b" by simp
  qed (use that in \<open>simp_all add: sf_of_def set_objfile_sf_def\<close>)
  have "\<forall>x \<in> set (live_objfiles ?w'). objfile_ok ?w' x"
  proof
    fix x assume x: "x \<in> set (live_objfiles ?w')"
    show "objfile_ok ?w' x"
    proof (cases "x = ob")
      case True
      with own show ?thesis by simp
    next
      case False
      from x have "x \<in> set (live_objfiles w)" by (simp add: live_objfiles_def)
      with inv have "objfile_ok w x" by (simp add: shape_inv_def)
      with False others show ?thesis by simp
    qed
  qed
  moreover have "dom (data_key ?w') \<subseteq> set (live_objfiles ?w')"
    using inv by (auto simp: shape_inv_def live_objfiles_def)
  moreover have "\<forall>x y b. data_key ?w' x = Some b \<longrightarrow> data_key ?w' y = Some b \<longrightarrow> x = y"
    using inv by (auto simp: shape_inv_def)
  moreover have "ran (data_key ?w') = ran (data_key w) - {a}"
    using ran_fun_upd_None_inj [of "data_key w", OF k uniq] by simp
  then have "dom (dd_heap ?w') = ran (data_key ?w')"
    using inv by (auto simp: shape_inv_def)
  moreover have "\<forall>b \<in> dom (dd_heap ?w'). b < dd_next ?w'"
  proof
    fix b assume "b \<in> dom (dd_heap ?w')"
    then obtain d' where "dd_heap w b = Some d'" by (auto split: if_splits)
    from shape_invD(5) [OF inv this] show "b < dd_next ?w'" by simp
  qed
  ultimately show ?thesis unfolding shape_inv_def by blast
qed

lemma shape_set_sf:
  assumes inv: "shape_inv w" and k: "data_key w ob = None" and ok: "static_sf_ok w r"
  shows "shape_inv (set_objfile_sf ob r w)"
    (is "shape_inv ?w'")
proof -
  have "objfile_ok ?w' x" if x: "x \<in> set (live_objfiles w)" for x
  proof (cases "x = ob")
    case True
    with k ok show ?thesis by (simp add: objfile_ok_def static_sf_ok_cong [of ?w' w])
  next
    case False
    have "objfile_ok ?w' x = objfile_ok w x"
      by (rule objfile_ok_cong) (use False in \<open>simp_all add: sf_of_def set_objfile_sf_def\<close>)
    with x inv show ?thesis by (simp add: shape_inv_def)
  qed
  with inv show ?thesis by (simp add: shape_inv_def live_objfiles_def)
qed

lemma shape_install:
  assumes inv: "shape_inv w" and live: "ob \<in> set (live_objfiles w)"
    and i: "install_symfile_debug_logging ob w = Inr w'"
  shows "shape_inv w'"
  using i
proof (rule install_Inr_cases)
  fix r tab
  assume sf: "sf_of w ob = Some r" and k: "data_key w ob = None"
    and d: "deref_sf (w\<lparr>dd_heap := (dd_heap w)(dd_next w \<mapsto> default_debug_sym_fns_data),
                       dd_next := Suc (dd_next w)\<rparr>) r = Inr tab"
    and w': "w' = set_objfile_sf ob (Some (Debug_sf (dd_next w)))
      (w\<lparr>dd_next := Suc (dd_next w),
         dd_heap := (dd_heap w)(dd_next w \<mapsto> \<lparr>real_sf = Some r, debug_sf = debug_sf_from tab\<rparr>),
         data_key := (data_key w)(ob \<mapsto> dd_next w)\<rparr>)"
  from inv live have "objfile_ok w ob" by (simp add: shape_inv_def)
  with sf k have ok: "static_sf_ok w (Some r)" by (simp add: objfile_ok_def)
  then obtain t where "r = Static_sf t" using static_sf_ok_deref by blast
  with d have "deref_sf w r = Inr tab" by simp
  from shape_attach [OF inv live k ok this] w' show ?thesis by simp
qed

lemma shape_uninstall:
  assumes inv: "shape_inv w" and u: "uninstall_symfile_debug_logging ob w = Inr w'"
  shows "shape_inv w'"
  using u by (rule uninstall_Inr_cases) (use shape_detach [OF inv] in simp)

lemma shape_set_debug_symfile_objfile:
  assumes inv: "shape_inv w" and live: "ob \<in> set (live_objfiles w)"
    and s: "set_debug_symfile_objfile ob w = Inr w'"
  shows "shape_inv w'"
  using s inv unfolding set_debug_symfile_objfile_def
  by (auto split: if_splits simp del: installed_iff
      intro: shape_install [OF inv live] shape_uninstall [OF inv])

lemma live_objfiles_frame:
  "program_spaces w' = program_spaces w \<Longrightarrow> live_objfiles w' = live_objfiles w"
  by (simp add: live_objfiles_def)

lemma shape_set_debug_symfile_objfiles:
  "shape_inv w \<Longrightarrow> set os \<subseteq> set (live_objfiles w) \<Longrightarrow> set_debug_symfile_objfiles os w = Inr w' \<Longrightarrow>
     shape_inv w'"
proof (induction os arbitrary: w)
  case Nil
  then show ?case by simp
next
  case (Cons ob os)
  from Cons.prems(3) obtain w1 where w1: "set_debug_symfile_objfile ob w = Inr w1"
    and rest: "set_debug_symfile_objfiles os w1 = Inr w'"
    by (cases "set_debug_symfile_objfile ob w") auto
  have "shape_inv w1" using shape_set_debug_symfile_objfile [OF Cons.prems(1) _ w1] Cons.prems(2) by simp
  moreover have "live_objfiles w1 = live_objfiles w"
    by (rule live_objfiles_frame) (rule set_debug_symfile_objfile_frame(2) [OF w1])
  ultimately show ?case using Cons.IH [OF _ _ rest] Cons.prems(2) by simp
qed

lemma shape_set_debug_symfile_pspaces:
  "shape_inv w \<Longrightarrow> set (concat ps) \<subseteq> set (live_objfiles w) \<Longrightarrow> set_debug_symfile_pspaces ps w = Inr w' \<Longrightarrow>
     shape_inv w'"
proof (induction ps arbitrary: w)
  case Nil
  then show ?case by simp
next
  case (Cons p ps)
  from Cons.prems(3) obtain w1 where w1: "set_debug_symfile_objfiles p w = Inr w1"
    and rest: "set_debug_symfile_pspaces ps w1 = Inr w'"
    by (cases "set_debug_symfile_objfiles p w") auto
  have "shape_inv w1" using shape_set_debug_symfile_objfiles [OF Cons.prems(1) _ w1] Cons.prems(2) by simp
  moreover have "live_objfiles w1 = live_objfiles w"
    using set_debug_symfile_objfiles_post [OF w1] by (simp add: live_objfiles_def)
  ultimately show ?case using Cons.IH [OF _ _ rest] Cons.prems(2) by simp
qed

lemma objfile_ok_debug_upd [simp]: "objfile_ok (w\<lparr>debug_symfile := v\<rparr>) x = objfile_ok w x"
  by (rule objfile_ok_cong) simp_all

lemma shape_inv_debug_upd [simp]: "shape_inv (w\<lparr>debug_symfile := v\<rparr>) = shape_inv w"
  by (simp add: shape_inv_def live_objfiles_def)

lemma shape_installed_iff:
  "shape_inv w \<Longrightarrow> x \<in> set (live_objfiles w) \<Longrightarrow> symfile_debug_installed w x \<longleftrightarrow> data_key w x \<noteq> None"
  by (auto simp: shape_inv_def objfile_ok_def split: option.splits)

lemma inv_set_debug_symfile_cmd:
  assumes inv: "symfile_inv w" and c: "set_debug_symfile_cmd v w = Inr w'"
  shows "symfile_inv w'"
proof -
  let ?w0 = "w\<lparr>debug_symfile := v\<rparr>"
  from c have walk: "set_debug_symfile_pspaces (program_spaces ?w0) ?w0 = Inr w'"
    by (simp add: set_debug_symfile_cmd_def set_debug_symfile_def)
  from inv have "shape_inv ?w0" by (simp add: symfile_inv_def)
  then have shape: "shape_inv w'"
    by (rule shape_set_debug_symfile_pspaces [OF _ _ walk]) (simp add: live_objfiles_def)
  note post = set_debug_symfile_pspaces_post [OF walk]
  then have d: "debug_symfile w' = v" and live: "live_objfiles w' = live_objfiles w"
    and inst: "\<forall>x \<in> set (live_objfiles w). symfile_debug_installed w' x \<longleftrightarrow> v"
    by (simp_all add: live_objfiles_def del: installed_iff)
  have "sync_inv w'"
    unfolding sync_inv_def
  proof
    fix x assume x: "x \<in> set (live_objfiles w')"
    with live inst have "symfile_debug_installed w' x \<longleftrightarrow> v" by simp
    moreover from shape x have "symfile_debug_installed w' x \<longleftrightarrow> data_key w' x \<noteq> None"
      by (rule shape_installed_iff)
    ultimately show "(data_key w' x \<noteq> None) = (debug_symfile w' \<and> sf_of w' x \<noteq> None)"
      using d by auto
  qed
  with shape show ?thesis by (simp add: symfile_inv_def)
qed

lemma sync_one:
  assumes "sync_inv w" and "live_objfiles w' = live_objfiles w" and "debug_symfile w' = debug_symfile w"
    and "\<And>x. x \<noteq> ob \<Longrightarrow> sf_of w' x = sf_of w x \<and> data_key w' x = data_key w x"
    and "(data_key w' ob \<noteq> None) = (debug_symfile w' \<and> sf_of w' ob \<noteq> None)"
  shows "sync_inv w'"
  using assms unfolding sync_inv_def by (metis (no_types, lifting))

lemma guard_first_step:
  assumes sh: "shape_inv w" and live: "ob \<in> set (live_objfiles w)"
    and u: "symfile_debug_installed w ob \<and> uninstall_symfile_debug_logging ob w = Inr w1 \<or>
            \<not> symfile_debug_installed w ob \<and> w1 = w"
  shows "shape_inv w1" and "data_key w1 ob = None"
    and "sym_tabs w1 = sym_tabs w" and "probe_tabs w1 = probe_tabs w"
    and "live_objfiles w1 = live_objfiles w" and "debug_symfile w1 = debug_symfile w"
    and "x \<noteq> ob \<Longrightarrow> sf_of w1 x = sf_of w x \<and> data_key w1 x = data_key w x"
proof -
  have "shape_inv w1 \<and> data_key w1 ob = None \<and> sym_tabs w1 = sym_tabs w \<and> probe_tabs w1 = probe_tabs w \<and>
      live_objfiles w1 = live_objfiles w \<and> debug_symfile w1 = debug_symfile w \<and>
      (x \<noteq> ob \<longrightarrow> sf_of w1 x = sf_of w x \<and> data_key w1 x = data_key w x)"
  proof (cases "symfile_debug_installed w ob")
    case True
    with u have un: "uninstall_symfile_debug_logging ob w = Inr w1" by blast
    note fr = uninstall_frame [OF un]
    from shape_uninstall [OF sh un] uninstall_post(1) [OF un] fr(1-5,8,9) show ?thesis
      by (simp add: live_objfiles_def)
  next
    case False
    with u have "w1 = w" by blast
    moreover from False shape_installed_iff [OF sh live] have "data_key w ob = None"
      by (simp del: installed_iff)
    ultimately show ?thesis using sh by simp
  qed
  then show "shape_inv w1" and "data_key w1 ob = None"
    and "sym_tabs w1 = sym_tabs w" and "probe_tabs w1 = probe_tabs w"
    and "live_objfiles w1 = live_objfiles w" and "debug_symfile w1 = debug_symfile w"
    and "x \<noteq> ob \<Longrightarrow> sf_of w1 x = sf_of w x \<and> data_key w1 x = data_key w x"
    by simp_all
qed

lemma inv_objfile_set_sym_fns:
  assumes inv: "symfile_inv w" and live: "ob \<in> set (live_objfiles w)" and ok: "static_sf_ok w r"
    and s: "objfile_set_sym_fns ob r w = Inr w'"
  shows "symfile_inv w'"
proof -
  from inv have sh: "shape_inv w" and sy: "sync_inv w" by (simp_all add: symfile_inv_def)
  have main: "symfile_inv w'"
    if u: "symfile_debug_installed w ob \<and> uninstall_symfile_debug_logging ob w = Inr w1 \<or>
           \<not> symfile_debug_installed w ob \<and> w1 = w"
    and i: "if debug_symfile w
      then install_symfile_debug_logging ob (set_objfile_sf ob r w1) = Inr w'
      else w' = set_objfile_sf ob r w1" for w1
  proof -
    note one = guard_first_step [OF sh live u]
    let ?w2 = "set_objfile_sf ob r w1"
    have ok1: "static_sf_ok w1 r" using ok static_sf_ok_cong [OF one(3,4)] by simp
    have sh2: "shape_inv ?w2" by (rule shape_set_sf [OF one(1,2) ok1])
    have live2: "ob \<in> set (live_objfiles ?w2)" using live one(5) by (simp add: live_objfiles_def)
    show ?thesis
    proof (cases "debug_symfile w")
      case True
      with i have i': "install_symfile_debug_logging ob ?w2 = Inr w'" by simp
      note fr = install_frame [OF i'] and po = install_post [OF i']
      have "sync_inv w'"
        by (rule sync_one [OF sy, of _ ob])
           (use fr po one True in \<open>simp_all add: live_objfiles_def\<close>)
      with shape_install [OF sh2 live2 i'] show ?thesis by (simp add: symfile_inv_def)
    next
      case False
      with i have w': "w' = ?w2" by simp
      have "sync_inv w'"
        by (rule sync_one [OF sy, of _ ob]) (use w' one False in \<open>simp_all add: live_objfiles_def\<close>)
      with sh2 w' show ?thesis by (simp add: symfile_inv_def)
    qed
  qed
  from s show ?thesis
  proof (cases rule: objfile_set_sym_fns_Inr_cases)
    case (reinstall w1)
    then show ?thesis by (intro main [of w1]) simp_all
  next
    case install
    then show ?thesis by (intro main [of w]) simp_all
  next
    case plain
    then show ?thesis by (intro main [of w]) simp_all
  qed
qed

lemma live_objfile_new:
  "i < length (program_spaces w) \<Longrightarrow>
     set (live_objfiles (objfile_new ob f i w)) = insert ob (set (live_objfiles w))"
  unfolding objfile_new_def live_objfiles_def by (simp del: set_concat add: set_concat_update_append)

lemma inv_objfile_new:
  assumes inv: "symfile_inv w" and fresh: "ob \<notin> set (live_objfiles w)"
    and i: "i < length (program_spaces w)"
  shows "symfile_inv (objfile_new ob f i w)" (is "symfile_inv ?w'")
proof -
  from inv have sh: "shape_inv w" and sy: "sync_inv w" by (simp_all add: symfile_inv_def)
  have k: "data_key w ob = None"
    using shape_invD(2) [OF sh, of ob] fresh by (cases "data_key w ob") auto
  have live': "set (live_objfiles ?w') = insert ob (set (live_objfiles w))"
    by (rule live_objfile_new [OF i])
  have fields: "data_key ?w' = data_key w" "dd_heap ?w' = dd_heap w" "dd_next ?w' = dd_next w"
    "debug_symfile ?w' = debug_symfile w"
    by (simp_all add: objfile_new_def)
  have sf: "sf_of ?w' ob = None" by (simp add: objfile_new_def sf_of_def)
  have fr: "sf_of ?w' x = sf_of w x" if "x \<noteq> ob" for x
    using that unfolding objfile_new_def sf_of_def by simp
  have others: "objfile_ok ?w' x = objfile_ok w x" if "x \<noteq> ob" for x
    by (rule objfile_ok_cong) (use that fr in \<open>simp_all add: objfile_new_def\<close>)
  have own: "objfile_ok ?w' ob" using k sf by (simp add: objfile_ok_def objfile_new_def static_sf_ok_def)
  have "shape_inv ?w'"
  proof (rule shape_invI)
    fix x assume "x \<in> set (live_objfiles ?w')"
    then have "x = ob \<or> x \<in> set (live_objfiles w)" using live' by simp
    then show "objfile_ok ?w' x" using own others shape_invD(1) [OF sh] by (cases "x = ob") simp_all
  next
    fix x a assume "data_key ?w' x = Some a"
    then show "x \<in> set (live_objfiles ?w')" using live' fields(1) shape_invD(2) [OF sh] by auto
  next
    fix x y a assume "data_key ?w' x = Some a" and "data_key ?w' y = Some a"
    then show "x = y" using fields(1) shape_invD(3) [OF sh] by metis
  next
    show "dom (dd_heap ?w') = ran (data_key ?w')" using fields shape_invD(4) [OF sh] by simp
  next
    fix b d assume "dd_heap ?w' b = Some d"
    then show "b < dd_next ?w'" using fields shape_invD(5) [OF sh] by simp
  qed
  moreover have "sync_inv ?w'"
    unfolding sync_inv_def
  proof
    fix x assume "x \<in> set (live_objfiles ?w')"
    then have "x = ob \<or> x \<noteq> ob \<and> x \<in> set (live_objfiles w)" using live' by auto
    then show "(data_key ?w' x \<noteq> None) = (debug_symfile ?w' \<and> sf_of ?w' x \<noteq> None)"
      using sy k sf fr fields unfolding sync_inv_def by auto
  qed
  ultimately show ?thesis by (simp add: symfile_inv_def)
qed

lemma objfile_free_heap:
  "dd_heap (objfile_free ob w) b = Some d \<Longrightarrow> dd_heap w b = Some d"
  by (auto simp: objfile_free_def split: option.splits if_splits)

lemma inv_objfile_free:
  assumes inv: "symfile_inv w"
  shows "symfile_inv (objfile_free ob w)" (is "symfile_inv ?w'")
proof -
  from inv have sh: "shape_inv w" and sy: "sync_inv w" by (simp_all add: symfile_inv_def)
  have live': "set (live_objfiles ?w') = set (live_objfiles w) - {ob}"
    by (auto simp: objfile_free_def live_objfiles_def)
  have key: "data_key ?w' = (data_key w)(ob := None)" by (simp add: objfile_free_def)
  have fields: "dd_next ?w' = dd_next w" "debug_symfile ?w' = debug_symfile w" "sf_of ?w' = sf_of w"
    by (simp_all add: objfile_free_def sf_of_def)
  have uniq: "data_key w x = Some a \<Longrightarrow> x = ob" if "data_key w ob = Some a" for x a
    using shape_invD(3) [OF sh] that by blast
  have others: "objfile_ok ?w' x = objfile_ok w x" if "x \<noteq> ob" for x
  proof (rule objfile_ok_cong)
    fix b assume "data_key w x = Some b"
    with that uniq have "data_key w ob \<noteq> Some b" by blast
    then show "dd_heap ?w' b = dd_heap w b" by (auto simp: objfile_free_def split: option.splits)
  qed (use that in \<open>simp_all add: objfile_free_def sf_of_def\<close>)
  have "shape_inv ?w'"
  proof (rule shape_invI)
    fix x assume "x \<in> set (live_objfiles ?w')"
    then show "objfile_ok ?w' x" using live' others shape_invD(1) [OF sh] by simp
  next
    fix x a assume "data_key ?w' x = Some a"
    then show "x \<in> set (live_objfiles ?w')"
      using live' key shape_invD(2) [OF sh] by (auto split: if_splits)
  next
    fix x y a assume "data_key ?w' x = Some a" and "data_key ?w' y = Some a"
    then show "x = y" using key shape_invD(3) [OF sh] by (auto split: if_splits)
  next
    show "dom (dd_heap ?w') = ran (data_key ?w')"
    proof (cases "data_key w ob")
      case None
      then have "(data_key w)(ob := None) = data_key w" by auto
      with None key shape_invD(4) [OF sh] show ?thesis by (simp add: objfile_free_def)
    next
      case (Some a)
      have "ran ((data_key w)(ob := None)) = ran (data_key w) - {a}"
        using ran_fun_upd_None_inj [of "data_key w", OF Some uniq [OF Some]] .
      with Some key shape_invD(4) [OF sh] show ?thesis by (simp add: objfile_free_def)
    qed
  next
    fix b d assume "dd_heap ?w' b = Some d"
    then show "b < dd_next ?w'" using fields shape_invD(5) [OF sh] objfile_free_heap by metis
  qed
  moreover have "sync_inv ?w'"
    using sy live' key fields unfolding sync_inv_def by auto
  ultimately show ?thesis by (simp add: symfile_inv_def)
qed

lemma inv_step:
  "symfile_step w w' \<Longrightarrow> symfile_inv w \<Longrightarrow> symfile_inv w'"
  by (induction rule: symfile_step.induct)
     (auto intro: inv_set_debug_symfile_cmd inv_objfile_set_sym_fns inv_objfile_new inv_objfile_free)

lemma inv_start:
  "symfile_start w \<Longrightarrow> \<forall>ob \<in> set (live_objfiles w). static_sf_ok w (sf_of w ob) \<Longrightarrow> symfile_inv w"
  by (simp add: symfile_start_def symfile_inv_def shape_inv_def sync_inv_def objfile_ok_def)

lemma inv_blocks:
  assumes inv: "symfile_inv w"
  shows "card (dom (dd_heap w)) =
           (if debug_symfile w then card {ob \<in> set (live_objfiles w). sf_of w ob \<noteq> None} else 0)"
proof -
  have sh: "shape_inv w" and sy: "sync_inv w" using inv by (simp_all add: symfile_inv_def)
  have "card (dom (dd_heap w)) = card (dom (data_key w))"
    using shape_invD(4) [OF sh] card_ran_inj [of "data_key w"] shape_invD(3) [OF sh] by metis
  moreover have "dom (data_key w) = {ob \<in> set (live_objfiles w). debug_symfile w \<and> sf_of w ob \<noteq> None}"
    using shape_invD(2) [OF sh] sy unfolding sync_inv_def by blast
  ultimately show ?thesis by simp
qed

text \<open>C6: the invariant holds in every reachable state: from start-up, through any sequence
  of toggles, table replacements through the guard, and objfiles created or destroyed,
  every live objfile is either uninstrumented with a reader's table or instrumented with
  exactly one block wrapping a reader's table, and it is instrumented exactly when logging is
  on and it has a table.\<close>

theorem reachable_inv:
  "symfile_reachable w \<Longrightarrow> symfile_inv w"
  by (induction rule: symfile_reachable.induct) (auto intro: inv_start inv_step)


text \<open>C29: no block leaks.  In every reachable state, the heap of
  \<^verbatim>\<open>debug_sym_fns_data\<close> blocks holds exactly one block per live objfile that has a
  table while logging is on, and none while it is off: install allocates one, uninstall and
  objfile destruction free it, and nothing else allocates.\<close>

theorem blocks_per_instrumented_objfile:
  assumes r: "symfile_reachable w"
  shows "card (dom (dd_heap w)) =
           (if debug_symfile w then card {ob \<in> set (live_objfiles w). sf_of w ob \<noteq> None} else 0)"
proof -
  from r have "symfile_inv w"
    by (induction rule: symfile_reachable.induct) (auto intro: inv_start inv_step)
  then show ?thesis by (rule inv_blocks)
qed

end
