(* ===== verification/Symfile_Calls.thy ===== *)
theory Symfile_Calls
  imports Symfile_Invariant
begin

text \<open>
  What a call through an objfile's table does, in every state the invariant allows.  The
  reference semantics \<open>plain_call\<close> calls the function the objfile's real table
  (\<open>abs_sf\<close>: its own table, or the one saved in its block when instrumented) holds
  for the call, with no proxy in between; it is the behaviour of gdb with
  \<^verbatim>\<open>debug_symfile\<close> off.  The lemmas show that an uninstrumented objfile's call is
  the plain call with an empty trace, that an instrumented objfile's call is the slot's
  proxy wrapped around the plain call, and that two units of fuel are enough for either.
\<close>

section \<open>Reference semantics\<close>

definition abs_sf :: "symfile_world \<Rightarrow> oid \<Rightarrow> sf_ref option" where
  "abs_sf w ob =
     (case data_key w ob of
        None \<Rightarrow> sf_of w ob
      | Some a \<Rightarrow> (case dd_heap w a of None \<Rightarrow> None | Some d \<Rightarrow> real_sf d))"

definition plain_call :: "symfile_world \<Rightarrow> sf_ref option \<Rightarrow> oid \<Rightarrow> sym_call \<Rightarrow> gdb_error + sym_ret" where
  "plain_call w r ob c =
     (case call_fn w (deref_sf_ptr w r) c of
        Inl e \<Rightarrow> Inl e
      | Inr (Backend_fn b) \<Rightarrow> sym_backend w b ob c
      | Inr f \<Rightarrow> Inl Bad_call_type)"

text \<open>The proxies that print their line after the call returns
  (\<^verbatim>\<open>debug_sym_relocate\<close>, \<^verbatim>\<open>debug_sym_get_probes\<close>).\<close>

primrec logs_after :: "sym_call \<Rightarrow> bool" where
  "logs_after Call_new_init = False"
| "logs_after Call_init = False"
| "logs_after (Call_read f) = False"
| "logs_after Call_finish = False"
| "logs_after (Call_offsets i) = False"
| "logs_after (Call_segments b) = False"
| "logs_after Call_read_linetable = False"
| "logs_after (Call_relocate s b) = True"
| "logs_after Call_get_probes = True"

primrec is_segments_call :: "sym_call \<Rightarrow> bool" where
  "is_segments_call Call_new_init = False"
| "is_segments_call Call_init = False"
| "is_segments_call (Call_read f) = False"
| "is_segments_call Call_finish = False"
| "is_segments_call (Call_offsets i) = False"
| "is_segments_call (Call_segments b) = True"
| "is_segments_call Call_read_linetable = False"
| "is_segments_call (Call_relocate s b) = False"
| "is_segments_call Call_get_probes = False"

text \<open>What C's slot types guarantee of a table: every populated slot holds a reader's
  function or the proxy of that very slot, and the probe table pointer can be followed to a
  table whose \<^verbatim>\<open>sym_get_probes\<close> is a reader's function or the probe proxy.\<close>

definition probe_fn_fits :: "sym_fn \<Rightarrow> bool" where
  "probe_fn_fits f = (case f of Backend_fn b \<Rightarrow> True | Debug_fn s \<Rightarrow> False | Debug_get_probes_fn \<Rightarrow> True)"

definition table_typed :: "symfile_world \<Rightarrow> sym_fns \<Rightarrow> bool" where
  "table_typed w tab =
     ((\<forall>s. case sf_slot s tab of None \<Rightarrow> True | Some f \<Rightarrow> fn_fits s f) \<and>
      (case sym_probe_fns tab of
         None \<Rightarrow> True
       | Some p \<Rightarrow> (case deref_probes w p of Inl e \<Rightarrow> False | Inr pt \<Rightarrow> probe_fn_fits (sym_get_probes pt))))"

section \<open>Lemmas\<close>

lemma call_fn_Inl [simp]: "call_fn w (Inl e) c = Inl e"
  by (simp add: call_fn_def split: option.splits)

lemma call_slot_None_iff: "call_slot c = None \<longleftrightarrow> c = Call_get_probes"
  by (cases c) simp_all

lemma is_backend_fn_iff: "is_backend_fn f \<longleftrightarrow> (\<exists>b. f = Backend_fn b)"
  by (cases f) simp_all

lemma table_wf_slot: "table_wf w tab \<Longrightarrow> sf_slot s tab = Some f \<Longrightarrow> is_backend_fn f"
  unfolding table_wf_def by (drule conjunct1, drule spec [of _ s]) simp

lemma table_wf_probe:
  "table_wf w tab \<Longrightarrow> sym_probe_fns tab = Some p \<Longrightarrow>
     \<exists>n pt. p = Static_probes n \<and> probe_tabs w n = Some pt \<and> is_backend_fn (sym_get_probes pt)"
  unfolding table_wf_def by (auto split: probe_ref.splits option.splits)

lemma table_wf_call_fn:
  assumes wf: "table_wf w tab" and f: "call_fn w (Inr tab) c = Inr f"
  shows "\<exists>b. f = Backend_fn b"
proof (cases "call_slot c")
  case (Some s)
  with f have "sf_slot s tab = Some f" by (simp add: call_fn_def split: option.splits)
  with wf show ?thesis by (simp add: table_wf_slot is_backend_fn_iff [symmetric])
next
  case None
  with f obtain p where p: "sym_probe_fns tab = Some p"
    by (cases "sym_probe_fns tab") (simp_all add: call_fn_def)
  from table_wf_probe [OF wf p] obtain n pt where "p = Static_probes n" "probe_tabs w n = Some pt"
    and "is_backend_fn (sym_get_probes pt)" by blast
  with None f p show ?thesis by (simp add: call_fn_def deref_probes_def is_backend_fn_iff)
qed

lemma shadow_call_fn:
  assumes wf: "table_wf w tab"
  shows "call_fn w (Inr (debug_sf_from tab)) c =
    (case call_fn w (Inr tab) c of
       Inl e \<Rightarrow> Inl e
     | Inr f \<Rightarrow> Inr (case call_slot c of Some s \<Rightarrow> Debug_fn s | None \<Rightarrow> Debug_get_probes_fn))"
proof (cases "call_slot c")
  case (Some s)
  then show ?thesis by (simp add: call_fn_def split: option.splits)
next
  case None
  show ?thesis
  proof (cases "sym_probe_fns tab")
    case None
    with \<open>call_slot c = None\<close> show ?thesis by (simp add: call_fn_def)
  next
    case (Some p)
    from table_wf_probe [OF wf Some] obtain n pt where "p = Static_probes n" "probe_tabs w n = Some pt"
      by blast
    with Some \<open>call_slot c = None\<close> show ?thesis
      by (simp add: call_fn_def deref_probes_def debug_sym_probe_fns_def)
  qed
qed

lemma static_forward:
  assumes ok: "static_sf_ok w r"
  shows "forward (call_sym_fn (Suc n) w ob) (call_fn w (deref_sf_ptr w r) c) c =
           Some ([], plain_call w r ob c)"
proof (cases "call_fn w (deref_sf_ptr w r) c")
  case (Inl e)
  then show ?thesis by (simp add: plain_call_def fault_def)
next
  case (Inr f)
  have "\<exists>b. f = Backend_fn b"
  proof (cases r)
    case None
    with Inr show ?thesis by simp
  next
    case (Some r')
    with ok obtain t tab where "r' = Static_sf t" "sym_tabs w t = Some tab" "table_wf w tab"
      using static_sf_ok_deref by blast
    with Some Inr show ?thesis using table_wf_call_fn by simp
  qed
  with Inr show ?thesis by (auto simp: plain_call_def)
qed

lemma abs_sf_uninstrumented: "data_key w ob = None \<Longrightarrow> abs_sf w ob = sf_of w ob"
  by (simp add: abs_sf_def)

lemma instrumented_parts:
  assumes sh: "shape_inv w" and live: "ob \<in> set (live_objfiles w)" and k: "data_key w ob = Some a"
  obtains d t tab where "dd_heap w a = Some d" and "sf_of w ob = Some (Debug_sf a)"
    and "real_sf d = Some (Static_sf t)" and "sym_tabs w t = Some tab" and "table_wf w tab"
    and "debug_sf d = debug_sf_from tab" and "abs_sf w ob = Some (Static_sf t)"
    and "real_sf_of w ob = Inr tab"
proof -
  have ok: "objfile_ok w ob" by (rule shape_invD(1) [OF sh live])
  with k obtain d where d: "dd_heap w a = Some d" and sf: "sf_of w ob = Some (Debug_sf a)"
    and blk: "block_ok w d"
    by (auto simp: objfile_ok_def split: option.splits)
  from blk obtain r where r: "real_sf d = Some r" and okr: "static_sf_ok w (Some r)"
    by (auto simp: block_ok_def)
  from static_sf_ok_deref [OF okr] obtain t tab where t: "r = Static_sf t" "sym_tabs w t = Some tab"
    and wf: "table_wf w tab" by blast
  from blk r t have dsf: "debug_sf d = debug_sf_from tab" by (simp add: block_ok_def)
  have "abs_sf w ob = Some (Static_sf t)" using k d r t by (simp add: abs_sf_def)
  moreover have "real_sf_of w ob = Inr tab" using k d r t by (simp add: real_sf_of_def)
  ultimately show ?thesis using that d sf r t wf dsf by blast
qed

lemma debug_proxy_cong:
  assumes "call_slot c = Some s"
    and "forward call (slot_fn (real_sf_of w ob) s) c = forward call' (slot_fn (real_sf_of w ob) s) c"
  shows "debug_proxy call w ob s c = debug_proxy call' w ob s c"
  using assms by (cases c) (simp_all add: debug_proxy_def proxy_defs)

lemma debug_sym_get_probes_cong:
  assumes "forward call (probe_fn w (real_sf_of w ob)) Call_get_probes =
           forward call' (probe_fn w (real_sf_of w ob)) Call_get_probes"
  shows "debug_sym_get_probes call w ob = debug_sym_get_probes call' w ob"
  using assms by (simp add: debug_sym_get_probes_def)

lemma uninstrumented_call:
  assumes sh: "shape_inv w" and live: "ob \<in> set (live_objfiles w)" and k: "data_key w ob = None"
  shows "objfile_sym_call (Suc n) w ob c = Some ([], plain_call w (abs_sf w ob) ob c)"
proof -
  have "objfile_ok w ob" by (rule shape_invD(1) [OF sh live])
  with k have "static_sf_ok w (sf_of w ob)" by (simp add: objfile_ok_def)
  from static_forward [OF this] k show ?thesis by (simp add: objfile_sym_call_def abs_sf_uninstrumented)
qed

text \<open>The call of an instrumented objfile: the proxy of the call's slot (or the probe
  proxy), whose own forwarded call is the plain call on the real table.\<close>

lemma instrumented_call:
  assumes sh: "shape_inv w" and live: "ob \<in> set (live_objfiles w)" and k: "data_key w ob = Some a"
  shows "objfile_sym_call (Suc (Suc n)) w ob c =
    (case call_fn w (deref_sf_ptr w (abs_sf w ob)) c of
       Inl e \<Rightarrow> fault e
     | Inr f \<Rightarrow>
         (case call_slot c of
            Some s \<Rightarrow> debug_proxy (\<lambda>_ _. Some ([], plain_call w (abs_sf w ob) ob c)) w ob s c
          | None \<Rightarrow> debug_sym_get_probes (\<lambda>_ _. Some ([], plain_call w (abs_sf w ob) ob c)) w ob))"
proof -
  obtain d t tab where d: "dd_heap w a = Some d" and sf: "sf_of w ob = Some (Debug_sf a)"
    and t: "sym_tabs w t = Some tab" and wf: "table_wf w tab"
    and dsf: "debug_sf d = debug_sf_from tab" and abs: "abs_sf w ob = Some (Static_sf t)"
    and rs: "real_sf_of w ob = Inr tab"
    using instrumented_parts [OF sh live k] by blast
  have real: "deref_sf_ptr w (abs_sf w ob) = Inr tab" using abs t by simp
  have shadow: "deref_sf_ptr w (sf_of w ob) = Inr (debug_sf_from tab)" using sf d dsf by simp
  let ?p = "plain_call w (abs_sf w ob) ob c"
  show ?thesis
  proof (cases "call_fn w (Inr tab) c")
    case (Inl e)
    with real shadow shadow_call_fn [OF wf, of c] show ?thesis
      by (simp add: objfile_sym_call_def)
  next
    case (Inr f)
    with wf obtain b where f: "f = Backend_fn b" using table_wf_call_fn by blast
    with Inr real have p: "?p = sym_backend w b ob c" by (simp add: plain_call_def)
    have fw: "forward (call_sym_fn (Suc n) w ob) (Inr f) c = forward (\<lambda>_ _. Some ([], ?p)) (Inr f) c"
      using f p by simp
    show ?thesis
    proof (cases "call_slot c")
      case (Some s)
      with Inr have "slot_fn (real_sf_of w ob) s = Inr f" using rs by (simp add: call_fn_def)
      with fw Some have "debug_proxy (call_sym_fn (Suc n) w ob) w ob s c =
          debug_proxy (\<lambda>_ _. Some ([], ?p)) w ob s c"
        by (intro debug_proxy_cong) simp_all
      with Inr Some real shadow shadow_call_fn [OF wf, of c] show ?thesis
        by (simp add: objfile_sym_call_def)
    next
      case None
      then have c: "c = Call_get_probes" by (simp add: call_slot_None_iff)
      with Inr None have "probe_fn w (real_sf_of w ob) = Inr f" using rs by (simp add: call_fn_def)
      with fw c have "debug_sym_get_probes (call_sym_fn (Suc n) w ob) w ob =
          debug_sym_get_probes (\<lambda>_ _. Some ([], ?p)) w ob"
        by (intro debug_sym_get_probes_cong) simp
      with Inr None c real shadow shadow_call_fn [OF wf, of c] show ?thesis
        by (simp add: objfile_sym_call_def)
    qed
  qed
qed

lemma proxy_result:
  assumes "call_slot c = Some s" and "slot_fn (real_sf_of w ob) s = Inr f" and "\<not> is_segments_call c"
  shows "\<exists>l. debug_proxy (\<lambda>_ _. Some ([], p)) w ob s c =
           Some (if logs_after c \<and> isl p then [] else [l], p)"
  using assms
  by (cases c; cases p) (simp_all add: debug_proxy_def proxy_defs log_before_def log_after_def)

lemma probes_result:
  assumes "probe_fn w (real_sf_of w ob) = Inr f"
  shows "\<exists>l. debug_sym_get_probes (\<lambda>_ _. Some ([], p)) w ob = Some (if isl p then [] else [l], p)"
  using assms by (cases p) (simp_all add: debug_sym_get_probes_def log_after_def)

lemma instrumented_real:
  assumes sh: "shape_inv w" and live: "ob \<in> set (live_objfiles w)" and k: "data_key w ob = Some a"
  shows "deref_sf_ptr w (abs_sf w ob) = real_sf_of w ob"
proof -
  obtain d t tab where "sym_tabs w t = Some tab" and "abs_sf w ob = Some (Static_sf t)"
    and "real_sf_of w ob = Inr tab"
    using instrumented_parts [OF sh live k] by blast
  then show ?thesis by simp
qed

lemma instrumented_call_populated:
  assumes sh: "shape_inv w" and live: "ob \<in> set (live_objfiles w)" and k: "data_key w ob = Some a"
    and f: "call_fn w (deref_sf_ptr w (abs_sf w ob)) c = Inr f" and ns: "\<not> is_segments_call c"
  shows "\<exists>l. objfile_sym_call (Suc (Suc n)) w ob c =
    Some (if logs_after c \<and> isl (plain_call w (abs_sf w ob) ob c) then [] else [l],
          plain_call w (abs_sf w ob) ob c)"
proof -
  note call = instrumented_call [OF sh live k, of n c]
  have rf: "call_fn w (real_sf_of w ob) c = Inr f" using f instrumented_real [OF sh live k] by simp
  show ?thesis
  proof (cases "call_slot c")
    case (Some s)
    with rf have "slot_fn (real_sf_of w ob) s = Inr f" by (simp add: call_fn_def)
    from proxy_result [OF Some this ns] call f Some show ?thesis by simp
  next
    case None
    then have c: "c = Call_get_probes" by (simp add: call_slot_None_iff)
    with rf have "probe_fn w (real_sf_of w ob) = Inr f" by (simp add: call_fn_def)
    from probes_result [OF this] call f None c show ?thesis by simp
  qed
qed

lemma instrumented_segments:
  assumes sh: "shape_inv w" and live: "ob \<in> set (live_objfiles w)" and k: "data_key w ob = Some a"
    and f: "call_fn w (deref_sf_ptr w (abs_sf w ob)) (Call_segments abfd) = Inr f"
  shows "objfile_sym_call (Suc (Suc n)) w ob (Call_segments abfd) =
           fault (Not_reached ''debug_sym_segments called'')"
  using instrumented_call [OF sh live k, of n "Call_segments abfd"] f
  by (simp add: debug_proxy_def debug_sym_segments_def)

lemma instrumented_faulting:
  assumes sh: "shape_inv w" and live: "ob \<in> set (live_objfiles w)" and k: "data_key w ob = Some a"
    and e: "call_fn w (deref_sf_ptr w (abs_sf w ob)) c = Inl e"
  shows "objfile_sym_call (Suc (Suc n)) w ob c = Some ([], plain_call w (abs_sf w ob) ob c)"
  using instrumented_call [OF sh live k, of n c] e by (simp add: plain_call_def fault_def)

lemma sync_instrumented:
  "sync_inv w \<Longrightarrow> ob \<in> set (live_objfiles w) \<Longrightarrow> debug_symfile w \<Longrightarrow> sf_of w ob \<noteq> None \<Longrightarrow>
     \<exists>a. data_key w ob = Some a"
  unfolding sync_inv_def by blast

lemma sync_uninstrumented:
  "sync_inv w \<Longrightarrow> ob \<in> set (live_objfiles w) \<Longrightarrow> \<not> debug_symfile w \<Longrightarrow> data_key w ob = None"
  unfolding sync_inv_def by blast

lemmas symfile_invD = symfile_inv_def [THEN iffD1, THEN conjunct1]
  symfile_inv_def [THEN iffD1, THEN conjunct2]

lemma uninstall_heap_other:
  "uninstall_symfile_debug_logging ob w = Inr w' \<Longrightarrow> data_key w ob \<noteq> Some a \<Longrightarrow>
     dd_heap w' a = dd_heap w a"
  by (erule uninstall_Inr_cases) auto

lemma guard_keeps_other_block:
  assumes s: "objfile_set_sym_fns ob r w = Inr w'" and on: "debug_symfile w"
    and k: "data_key w ob \<noteq> Some a" and h: "dd_heap w a = Some d"
  obtains w1 where "dd_heap w1 a = Some d" and "dd_next w1 = dd_next w"
    and "install_symfile_debug_logging ob (set_objfile_sf ob r w1) = Inr w'"
  using s
proof (cases rule: objfile_set_sym_fns_Inr_cases)
  case (reinstall w1)
  from uninstall_heap_other [OF reinstall(3) k] uninstall_frame(6) [OF reinstall(3)] h
  have "dd_heap w1 a = Some d" and "dd_next w1 = dd_next w" by simp_all
  with reinstall(4) that show ?thesis by blast
next
  case install
  with h that show ?thesis by blast
next
  case plain
  with on show ?thesis by simp
qed

lemma install_over_shadow:
  assumes i: "install_symfile_debug_logging ob w = Inr w'"
    and sf: "sf_of w ob = Some (Debug_sf a)" and h: "dd_heap w a = Some d" and na: "a \<noteq> dd_next w"
  shows "sf_of w' ob = Some (Debug_sf (dd_next w))"
    and "dd_heap w' (dd_next w) =
           Some \<lparr>real_sf = Some (Debug_sf a), debug_sf = debug_sf_from (debug_sf d)\<rparr>"
    and "dd_heap w' a = Some d" and "data_key w' ob = Some (dd_next w)"
  using i by (auto elim!: install_Inr_cases simp: sf h na deref_sf_def)

text \<open>A table whose \<^verbatim>\<open>sym_read\<close> proxy finds, behind its own block, a shadow table
  with a \<^verbatim>\<open>sym_read\<close> proxy: the call never returns.\<close>

lemma shadow_of_shadow_read:
  assumes sf: "sf_of w ob = Some (Debug_sf b)"
    and hb: "dd_heap w b = Some \<lparr>real_sf = Some (Debug_sf a), debug_sf = debug_sf_from (debug_sf_from tab)\<rparr>"
    and ha: "dd_heap w a = Some d" and dsf: "debug_sf d = debug_sf_from tab"
    and kb: "data_key w ob = Some b" and rd: "sf_slot Sym_read tab = Some f"
  shows "objfile_sym_call n w ob (Call_read fl) = None"
proof -
  have real: "real_sf_of w ob = Inr (debug_sf_from tab)" using kb hb ha dsf by (simp add: real_sf_of_def)
  have loop: "call_sym_fn n w ob (Debug_fn Sym_read) (Call_read fl) = None"
    by (rule call_sym_fn_self_loop [OF real]) (use rd in simp)
  have "call_fn w (deref_sf_ptr w (sf_of w ob)) (Call_read fl) = Inr (Debug_fn Sym_read)"
    using sf hb rd by (simp add: call_fn_def)
  with loop show ?thesis by (simp add: objfile_sym_call_def)
qed

lemma table_wf_typed:
  assumes wf: "table_wf w tab"
  shows "table_typed w tab"
proof -
  have "case sf_slot s tab of None \<Rightarrow> True | Some f \<Rightarrow> fn_fits s f" for s
    using table_wf_slot [OF wf, of s] by (auto simp: fn_fits_def is_backend_fn_iff split: option.split)
  moreover have "case deref_probes w p of Inl e \<Rightarrow> False | Inr pt \<Rightarrow> probe_fn_fits (sym_get_probes pt)"
    if "sym_probe_fns tab = Some p" for p
    using table_wf_probe [OF wf that] by (auto simp: deref_probes_def probe_fn_fits_def is_backend_fn_iff)
  ultimately show ?thesis unfolding table_typed_def by (simp split: option.split)
qed

lemma shadow_typed: "table_typed w (debug_sf_from tab)"
  unfolding table_typed_def
  by (auto simp: deref_probes_def debug_sym_probe_fns_def probe_fn_fits_def fn_fits_def split: option.split)

lemma call_transparent_fuel:
  assumes sh: "shape_inv w" and live: "ob \<in> set (live_objfiles w)" and ns: "\<not> is_segments_call c"
  shows "\<exists>ls. objfile_sym_call (Suc (Suc n)) w ob c = Some (ls, plain_call w (abs_sf w ob) ob c)"
proof (cases "data_key w ob")
  case None
  from uninstrumented_call [OF sh live None, of "Suc n" c] show ?thesis by blast
next
  case (Some a)
  show ?thesis
  proof (cases "call_fn w (deref_sf_ptr w (abs_sf w ob)) c")
    case (Inl e)
    from instrumented_faulting [OF sh live Some Inl, of n] show ?thesis by blast
  next
    case (Inr f)
    from instrumented_call_populated [OF sh live Some Inr ns, of n] show ?thesis by blast
  qed
qed

section \<open>Calls through an objfile's table\<close>

text \<open>C7: in every state the invariant allows, a call through a live objfile's table
  returns (normally or with a fault) within two nested dispatches: the proxies never call
  a proxy.\<close>

theorem objfile_sym_call_terminates:
  assumes inv: "symfile_inv w" and live: "ob \<in> set (live_objfiles w)"
  shows "\<exists>r. objfile_sym_call 2 w ob c = Some r"
proof (cases "data_key w ob")
  case None
  from uninstrumented_call [OF symfile_invD(1) [OF inv] live None, of 1 c] show ?thesis
    by (simp add: numeral_2_eq_2)
next
  case (Some a)
  note sh = symfile_invD(1) [OF inv]
  show ?thesis
  proof (cases "call_fn w (deref_sf_ptr w (abs_sf w ob)) c")
    case (Inl e)
    from instrumented_faulting [OF sh live Some Inl, of 0] show ?thesis by (simp add: numeral_2_eq_2)
  next
    case (Inr f)
    show ?thesis
    proof (cases "is_segments_call c")
      case True
      then obtain abfd where "c = Call_segments abfd" by (cases c) simp_all
      with instrumented_segments [OF sh live Some, of abfd f 0] Inr show ?thesis
        by (simp add: numeral_2_eq_2 fault_def)
    next
      case False
      from instrumented_call_populated [OF sh live Some Inr False, of 0] show ?thesis
        by (auto simp: numeral_2_eq_2)
    qed
  qed
qed

text \<open>C8: forwarding transparency.  In every state the invariant allows, every call
  through a live objfile's table other than \<^verbatim>\<open>sym_segments\<close> has the outcome of the
  plain call on the objfile's real table: the same result, the same error, the same fault
  for an absent slot, whether or not the objfile is instrumented.\<close>

theorem objfile_sym_call_transparent:
  assumes inv: "symfile_inv w" and live: "ob \<in> set (live_objfiles w)"
    and ns: "\<not> is_segments_call c"
  shows "map_option snd (objfile_sym_call 2 w ob c) = Some (plain_call w (abs_sf w ob) ob c)"
  using call_transparent_fuel [OF symfile_invD(1) [OF inv] live ns, of 0]
  by (auto simp: numeral_2_eq_2)

text \<open>C9: the trace of a call while logging is on.  An objfile with a table is instrumented,
  and a call through a populated slot other than \<^verbatim>\<open>sym_segments\<close> writes exactly one
  line and returns the plain call's outcome; except that \<^verbatim>\<open>sym_relocate\<close> and the probe
  query print their line only after the real function returns, so when it raises they write
  nothing at all.\<close>

theorem objfile_sym_call_trace:
  assumes inv: "symfile_inv w" and live: "ob \<in> set (live_objfiles w)"
    and on: "debug_symfile w" and sf: "sf_of w ob \<noteq> None"
    and f: "call_fn w (deref_sf_ptr w (abs_sf w ob)) c = Inr f" and ns: "\<not> is_segments_call c"
  shows "\<exists>l. objfile_sym_call 2 w ob c =
    Some (if logs_after c \<and> isl (plain_call w (abs_sf w ob) ob c) then [] else [l],
          plain_call w (abs_sf w ob) ob c)"
proof -
  obtain a where k: "data_key w ob = Some a"
    using sync_instrumented [OF symfile_invD(2) [OF inv] live on sf] by blast
  from instrumented_call_populated [OF symfile_invD(1) [OF inv] live k f ns, of 0] show ?thesis
    by (simp add: numeral_2_eq_2)
qed

text \<open>C10: the line \<^verbatim>\<open>debug_sym_read\<close> writes, and that it writes no other: the
  objfile's name and the flags in hex, before the real \<^verbatim>\<open>sym_read\<close> runs, whose
  outcome the call returns unchanged.\<close>

theorem objfile_sym_read_trace:
  assumes inv: "symfile_inv w" and live: "ob \<in> set (live_objfiles w)"
    and on: "debug_symfile w" and sf: "sf_of w ob \<noteq> None"
    and f: "call_fn w (deref_sf_ptr w (abs_sf w ob)) (Call_read fl) = Inr f"
  shows "objfile_sym_call 2 w ob (Call_read fl) =
    Some ([''sf->sym_read ('' @ objfile_debug_name w ob @ '', 0x'' @ hex_digits (unat fl) @ '')''],
          plain_call w (abs_sf w ob) ob (Call_read fl))"
proof -
  note sh = symfile_invD(1) [OF inv]
  obtain a where k: "data_key w ob = Some a"
    using sync_instrumented [OF symfile_invD(2) [OF inv] live on sf] by blast
  have "call_fn w (real_sf_of w ob) (Call_read fl) = Inr f"
    using f instrumented_real [OF sh live k] by simp
  then have "slot_fn (real_sf_of w ob) Sym_read = Inr f" by (simp add: call_fn_def)
  with instrumented_call [OF sh live k, of 0 "Call_read fl"] f show ?thesis
    by (simp add: numeral_2_eq_2 debug_proxy_def debug_sym_read_def log_before_def)
qed

text \<open>C11: \<^verbatim>\<open>sym_segments\<close> through an instrumented table never reaches the reader: the
  proxy \<^verbatim>\<open>debug_sym_segments\<close> asserts it is unreachable, with an empty trace, while the
  plain call would have run the reader's function.\<close>

theorem objfile_sym_segments_not_reached:
  assumes inv: "symfile_inv w" and live: "ob \<in> set (live_objfiles w)"
    and on: "debug_symfile w" and sf: "sf_of w ob \<noteq> None"
    and f: "call_fn w (deref_sf_ptr w (abs_sf w ob)) (Call_segments abfd) = Inr f"
  shows "objfile_sym_call 2 w ob (Call_segments abfd) =
           Some ([], Inl (Not_reached ''debug_sym_segments called''))"
proof -
  obtain a where k: "data_key w ob = Some a"
    using sync_instrumented [OF symfile_invD(2) [OF inv] live on sf] by blast
  from instrumented_segments [OF symfile_invD(1) [OF inv] live k f, of 0] show ?thesis
    by (simp add: numeral_2_eq_2 fault_def)
qed

text \<open>C15: the guard does not check that the table it is given is a reader's table.  Handing
  it, with logging on, another instrumented objfile's current table (a shadow table) makes the
  new block's \<^verbatim>\<open>real_sf\<close> a shadow table: the \<^verbatim>\<open>sym_read\<close> proxy of the second objfile
  then finds its own proxy behind it and calls itself, and the call never returns, whatever
  the fuel.\<close>

theorem set_sym_fns_shared_shadow_diverges:
  assumes inv: "symfile_inv w" and on: "debug_symfile w"
    and l1: "o1 \<in> set (live_objfiles w)" and ne: "o1 \<noteq> o2"
    and k1: "data_key w o1 = Some a"
    and rd: "call_fn w (deref_sf_ptr w (abs_sf w o1)) (Call_read fl) = Inr f"
    and s: "objfile_set_sym_fns o2 (sf_of w o1) w = Inr w'"
  shows "objfile_sym_call n w' o2 (Call_read fl) = None"
proof -
  note sh = symfile_invD(1) [OF inv]
  obtain d tab where h1: "dd_heap w a = Some d" and sf1: "sf_of w o1 = Some (Debug_sf a)"
    and dsf: "debug_sf d = debug_sf_from tab" and rs: "real_sf_of w o1 = Inr tab"
    using instrumented_parts [OF sh l1 k1] by blast
  have rdt: "sf_slot Sym_read tab = Some f"
    using rd instrumented_real [OF sh l1 k1] rs by (simp add: call_fn_def split: option.splits)
  have alt: "a < dd_next w" using shape_key_heap [OF sh k1] by simp
  have k2: "data_key w o2 \<noteq> Some a" using shape_invD(3) [OF sh _ k1, of o2] ne by blast
  obtain w1 where h1': "dd_heap w1 a = Some d" and n1: "dd_next w1 = dd_next w"
    and i: "install_symfile_debug_logging o2 (set_objfile_sf o2 (sf_of w o1) w1) = Inr w'"
    by (rule guard_keeps_other_block [OF s on k2 h1])
  let ?w2 = "set_objfile_sf o2 (sf_of w o1) w1"
  have sf2: "sf_of ?w2 o2 = Some (Debug_sf a)" using sf1 by simp
  have h2: "dd_heap ?w2 a = Some d" using h1' by simp
  have na: "a \<noteq> dd_next ?w2" using alt n1 by simp
  note io = install_over_shadow [OF i sf2 h2 na]
  show ?thesis
    by (rule shadow_of_shadow_read [OF io(1) _ io(3) dsf io(4) rdt]) (use io(2) dsf in simp)
qed


end
