(* ===== verification/Symfile_Refinement.thy ===== *)
theory Symfile_Refinement
  imports Symfile_Calls
begin

text \<open>
  The abstract view of the layer: the table each objfile effectively uses, \<open>abs_sf\<close>
  (its own pointer, or the real table saved in its block).  Instrumenting and
  uninstrumenting never change it; the guard \<^verbatim>\<open>objfile_set_sym_fns ob r\<close> changes it
  exactly at \<open>ob\<close>, to \<open>r\<close>; the command \<^verbatim>\<open>set debug symfile\<close> leaves it unchanged.
  With the transparency of calls (\<open>Symfile_Calls\<close>) these are the refinement of the
  abstract system in which an objfile is a table and nothing else.  \<open>env_eq\<close> is the
  frame every procedure keeps (program spaces, readers' tables, objfiles up to their table
  pointer), with which \<^verbatim>\<open>set debug symfile on\<close> then \<^verbatim>\<open>off\<close> is a round trip.
\<close>

text \<open>Two worlds agree on their environment when they have the same program spaces,
  readers' tables and functions, and the same objfiles up to their table pointers.\<close>

definition env_eq :: "symfile_world \<Rightarrow> symfile_world \<Rightarrow> bool" where
  "env_eq w w' =
     (program_spaces w' = program_spaces w \<and> sym_tabs w' = sym_tabs w \<and> probe_tabs w' = probe_tabs w \<and>
      sym_backend w' = sym_backend w \<and> (\<forall>x. objfile_of w' x = (objfile_of w x)\<lparr>sf := sf_of w' x\<rparr>))"

section \<open>Lemmas\<close>

lemma abs_sf_install:
  assumes bound: "\<And>x c. data_key w x = Some c \<Longrightarrow> c < dd_next w"
    and i: "install_symfile_debug_logging ob w = Inr w'"
  shows "abs_sf w' = abs_sf w"
  using i
proof (rule install_Inr_cases)
  fix r tab
  assume sf: "sf_of w ob = Some r" and k: "data_key w ob = None"
    and w': "w' = set_objfile_sf ob (Some (Debug_sf (dd_next w)))
      (w\<lparr>dd_next := Suc (dd_next w),
         dd_heap := (dd_heap w)(dd_next w \<mapsto> \<lparr>real_sf = Some r, debug_sf = debug_sf_from tab\<rparr>),
         data_key := (data_key w)(ob \<mapsto> dd_next w)\<rparr>)"
  show "abs_sf w' = abs_sf w"
  proof
    fix x
    show "abs_sf w' x = abs_sf w x"
    proof (cases "x = ob")
      case True
      with sf k w' show ?thesis by (simp add: abs_sf_def)
    next
      case False
      show ?thesis
      proof (cases "data_key w x")
        case None
        with False w' show ?thesis by (simp add: abs_sf_def)
      next
        case (Some c)
        with bound have "c < dd_next w" by blast
        with Some False w' show ?thesis by (simp add: abs_sf_def)
      qed
    qed
  qed
qed

lemma abs_sf_uninstall:
  assumes sh: "shape_inv w" and u: "uninstall_symfile_debug_logging ob w = Inr w'"
  shows "abs_sf w' = abs_sf w"
  using u
proof (rule uninstall_Inr_cases)
  fix a d
  assume k: "data_key w ob = Some a" and h: "dd_heap w a = Some d"
    and w': "w' = (set_objfile_sf ob (real_sf d) w)\<lparr>data_key := (data_key w)(ob := None),
                                                   dd_heap := (dd_heap w)(a := None)\<rparr>"
  show "abs_sf w' = abs_sf w"
  proof
    fix x
    show "abs_sf w' x = abs_sf w x"
    proof (cases "x = ob")
      case True
      with k h w' show ?thesis by (simp add: abs_sf_def)
    next
      case False
      show ?thesis
      proof (cases "data_key w x")
        case None
        with False w' show ?thesis by (simp add: abs_sf_def sf_of_def set_objfile_sf_def)
      next
        case (Some c)
        with k False shape_invD(3) [OF sh] have "c \<noteq> a" by blast
        with Some False w' show ?thesis by (simp add: abs_sf_def sf_of_def set_objfile_sf_def)
      qed
    qed
  qed
qed

lemma abs_sf_set_sf:
  "data_key w ob = None \<Longrightarrow> abs_sf (set_objfile_sf ob r w) = (abs_sf w)(ob := r)"
  by (simp add: abs_sf_def fun_eq_iff sf_of_def set_objfile_sf_def split: option.splits)

lemma shape_bound: "shape_inv w \<Longrightarrow> data_key w x = Some c \<Longrightarrow> c < dd_next w"
  by (blast dest: shape_key_heap)

lemma abs_sf_debug_upd [simp]: "abs_sf (w\<lparr>debug_symfile := v\<rparr>) = abs_sf w"
  by (simp add: abs_sf_def fun_eq_iff sf_of_def split: option.splits)

lemma abs_sf_set_debug_symfile_objfile:
  assumes sh: "shape_inv w" and s: "set_debug_symfile_objfile ob w = Inr w'"
  shows "abs_sf w' = abs_sf w"
  using s unfolding set_debug_symfile_objfile_def
  by (auto split: if_splits simp del: installed_iff
      intro: abs_sf_install [OF shape_bound [OF sh]] abs_sf_uninstall [OF sh])

lemma abs_sf_set_debug_symfile_objfiles:
  "shape_inv w \<Longrightarrow> set os \<subseteq> set (live_objfiles w) \<Longrightarrow> set_debug_symfile_objfiles os w = Inr w' \<Longrightarrow>
     abs_sf w' = abs_sf w"
proof (induction os arbitrary: w)
  case Nil
  then show ?case by simp
next
  case (Cons ob os)
  from Cons.prems(3) obtain w1 where w1: "set_debug_symfile_objfile ob w = Inr w1"
    and rest: "set_debug_symfile_objfiles os w1 = Inr w'"
    by (cases "set_debug_symfile_objfile ob w") auto
  have live: "ob \<in> set (live_objfiles w)" using Cons.prems(2) by simp
  have sh1: "shape_inv w1" by (rule shape_set_debug_symfile_objfile [OF Cons.prems(1) live w1])
  have l1: "live_objfiles w1 = live_objfiles w"
    by (rule live_objfiles_frame) (rule set_debug_symfile_objfile_frame(2) [OF w1])
  have "abs_sf w' = abs_sf w1" using Cons.IH [OF sh1 _ rest] Cons.prems(2) l1 by simp
  also have "\<dots> = abs_sf w" by (rule abs_sf_set_debug_symfile_objfile [OF Cons.prems(1) w1])
  finally show ?case .
qed

lemma abs_sf_set_debug_symfile_pspaces:
  "shape_inv w \<Longrightarrow> set (concat ps) \<subseteq> set (live_objfiles w) \<Longrightarrow> set_debug_symfile_pspaces ps w = Inr w' \<Longrightarrow>
     abs_sf w' = abs_sf w"
proof (induction ps arbitrary: w)
  case Nil
  then show ?case by simp
next
  case (Cons p ps)
  from Cons.prems(3) obtain w1 where w1: "set_debug_symfile_objfiles p w = Inr w1"
    and rest: "set_debug_symfile_pspaces ps w1 = Inr w'"
    by (cases "set_debug_symfile_objfiles p w") auto
  have sh1: "shape_inv w1"
    using shape_set_debug_symfile_objfiles [OF Cons.prems(1) _ w1] Cons.prems(2) by simp
  have l1: "live_objfiles w1 = live_objfiles w"
    using set_debug_symfile_objfiles_post [OF w1] by (simp add: live_objfiles_def)
  have "abs_sf w' = abs_sf w1" using Cons.IH [OF sh1 _ rest] Cons.prems(2) l1 by simp
  also have "\<dots> = abs_sf w"
    using abs_sf_set_debug_symfile_objfiles [OF Cons.prems(1) _ w1] Cons.prems(2) by simp
  finally show ?case .
qed

lemma env_eq_refl [simp]: "env_eq w w"
  by (simp add: env_eq_def sf_of_def)

lemma env_eq_trans: "env_eq w1 w2 \<Longrightarrow> env_eq w2 w3 \<Longrightarrow> env_eq w1 w3"
  by (simp add: env_eq_def)

lemma env_eq_debug_upd [simp]: "env_eq w (w'\<lparr>debug_symfile := v\<rparr>) = env_eq w w'"
  by (simp add: env_eq_def sf_of_def)

lemma env_eq_install: "install_symfile_debug_logging ob w = Inr w' \<Longrightarrow> env_eq w w'"
  by (erule install_Inr_cases) (simp add: env_eq_def set_objfile_sf_def sf_of_def)

lemma env_eq_uninstall: "uninstall_symfile_debug_logging ob w = Inr w' \<Longrightarrow> env_eq w w'"
  by (erule uninstall_Inr_cases) (simp add: env_eq_def set_objfile_sf_def sf_of_def)

lemma env_eq_set_debug_symfile_objfile: "set_debug_symfile_objfile ob w = Inr w' \<Longrightarrow> env_eq w w'"
  by (auto simp: set_debug_symfile_objfile_def simp del: installed_iff
      intro: env_eq_install env_eq_uninstall split: if_splits)

lemma env_eq_set_debug_symfile_objfiles: "set_debug_symfile_objfiles os w = Inr w' \<Longrightarrow> env_eq w w'"
  by (induction os arbitrary: w)
    (auto split: sum.splits intro: env_eq_trans env_eq_set_debug_symfile_objfile)

lemma env_eq_set_debug_symfile_pspaces: "set_debug_symfile_pspaces ps w = Inr w' \<Longrightarrow> env_eq w w'"
  by (induction ps arbitrary: w)
    (auto split: sum.splits intro: env_eq_trans env_eq_set_debug_symfile_objfiles)

lemma set_debug_symfile_cmd_env:
  assumes "set_debug_symfile_cmd v w = Inr w'"
  shows "env_eq w w'" and "debug_symfile w' = v"
proof -
  have walk: "set_debug_symfile_pspaces (program_spaces w) (w\<lparr>debug_symfile := v\<rparr>) = Inr w'"
    using assms by (simp add: set_debug_symfile_cmd_def set_debug_symfile_def)
  from env_eq_set_debug_symfile_pspaces [OF walk] show "env_eq w w'"
    by (simp add: env_eq_def sf_of_def)
  from set_debug_symfile_pspaces_post [OF walk] show "debug_symfile w' = v" by simp
qed

lemma abs_sf_cmd:
  assumes inv: "symfile_inv w" and c: "set_debug_symfile_cmd v w = Inr w'"
  shows "abs_sf w' = abs_sf w"
proof -
  let ?w0 = "w\<lparr>debug_symfile := v\<rparr>"
  from c have walk: "set_debug_symfile_pspaces (program_spaces ?w0) ?w0 = Inr w'"
    by (simp add: set_debug_symfile_cmd_def set_debug_symfile_def)
  have "shape_inv ?w0" using symfile_invD(1) [OF inv] by simp
  from abs_sf_set_debug_symfile_pspaces [OF this _ walk] show ?thesis
    by (simp add: live_objfiles_def)
qed

lemma inv_off_clean:
  assumes inv: "symfile_inv w" and off: "\<not> debug_symfile w"
  shows "data_key w = Map.empty" and "dd_heap w = Map.empty" and "abs_sf w = sf_of w"
proof -
  note sh = symfile_invD(1) [OF inv]
  show k: "data_key w = Map.empty"
  proof
    fix x
    show "data_key w x = None"
    proof (cases "x \<in> set (live_objfiles w)")
      case True
      with sync_uninstrumented [OF symfile_invD(2) [OF inv] _ off] show ?thesis by blast
    next
      case False
      with shape_invD(2) [OF sh] show ?thesis by (cases "data_key w x") auto
    qed
  qed
  show "dd_heap w = Map.empty"
    using shape_invD(4) [OF sh] k by (simp add: dom_eq_empty_conv)
  show "abs_sf w = sf_of w"
    using k by (simp add: abs_sf_def fun_eq_iff)
qed

lemma abs_sf_objfile_set_sym_fns:
  assumes inv: "symfile_inv w" and live: "ob \<in> set (live_objfiles w)"
    and s: "objfile_set_sym_fns ob r w = Inr w'"
  shows "abs_sf w' = (abs_sf w)(ob := r)"
proof -
  note sh = symfile_invD(1) [OF inv]
  have step: "abs_sf w' = (abs_sf w)(ob := r)"
    if sh1: "shape_inv w1" and k1: "data_key w1 ob = None" and a1: "abs_sf w1 = abs_sf w"
      and i: "if debug_symfile w then install_symfile_debug_logging ob (set_objfile_sf ob r w1) = Inr w'
              else w' = set_objfile_sf ob r w1" for w1
  proof -
    have a2: "abs_sf (set_objfile_sf ob r w1) = (abs_sf w)(ob := r)" using abs_sf_set_sf [OF k1] a1 by simp
    show ?thesis
    proof (cases "debug_symfile w")
      case True
      with i have i': "install_symfile_debug_logging ob (set_objfile_sf ob r w1) = Inr w'" by simp
      have "\<And>x c. data_key (set_objfile_sf ob r w1) x = Some c \<Longrightarrow> c < dd_next (set_objfile_sf ob r w1)"
        using shape_bound [OF sh1] by simp
      from abs_sf_install [OF this i'] a2 show ?thesis by simp
    next
      case False
      with i a2 show ?thesis by simp
    qed
  qed
  have k0: "\<not> symfile_debug_installed w ob \<Longrightarrow> data_key w ob = None"
    using shape_installed_iff [OF sh live] by (simp del: installed_iff)
  from s show ?thesis
  proof (cases rule: objfile_set_sym_fns_Inr_cases)
    case (reinstall w1)
    from reinstall(3) have "shape_inv w1" "data_key w1 ob = None" "abs_sf w1 = abs_sf w"
      by (rule shape_uninstall [OF sh], rule uninstall_post(1), rule abs_sf_uninstall [OF sh])
    with reinstall show ?thesis by (intro step) simp_all
  next
    case install
    with k0 sh show ?thesis by (intro step [of w]) simp_all
  next
    case plain
    with k0 sh show ?thesis by (intro step [of w]) simp_all
  qed
qed

section \<open>Refinement\<close>

text \<open>C16: the guard refines the abstract table replacement.  In a state satisfying the
  invariant, a successful \<^verbatim>\<open>objfile_set_sym_fns ob r\<close> changes the table every objfile
  effectively uses exactly at \<open>ob\<close>, to \<open>r\<close>, whether logging is on (the new table is
  then wrapped) or off.\<close>

theorem objfile_set_sym_fns_refines:
  assumes inv: "symfile_inv w" and live: "ob \<in> set (live_objfiles w)"
    and s: "objfile_set_sym_fns ob r w = Inr w'"
  shows "abs_sf w' = (abs_sf w)(ob := r)"
  by (rule abs_sf_objfile_set_sym_fns [OF inv live s])

text \<open>C17: the command \<^verbatim>\<open>set debug symfile on|off\<close> refines the identity: in a state
  satisfying the invariant it never changes the table any objfile effectively uses.\<close>

theorem set_debug_symfile_cmd_refines:
  assumes inv: "symfile_inv w" and c: "set_debug_symfile_cmd v w = Inr w'"
  shows "abs_sf w' = abs_sf w"
  by (rule abs_sf_cmd [OF inv c])

text \<open>C18: \<^verbatim>\<open>set debug symfile on\<close> followed by \<^verbatim>\<open>set debug symfile off\<close> is a
  round trip: from a state satisfying the invariant with logging off, the two commands give
  back the same world (every objfile's table pointer, the registry, the heap of blocks, the
  flag), except the allocator of blocks, which has moved on.\<close>

theorem set_debug_symfile_on_off_roundtrip:
  assumes inv: "symfile_inv w" and off: "\<not> debug_symfile w"
    and c_on: "set_debug_symfile_cmd True w = Inr w1" and c_off: "set_debug_symfile_cmd False w1 = Inr w2"
  shows "w2 = w\<lparr>dd_next := dd_next w2\<rparr>"
proof -
  have inv1: "symfile_inv w1" by (rule inv_set_debug_symfile_cmd [OF inv c_on])
  have inv2: "symfile_inv w2" by (rule inv_set_debug_symfile_cmd [OF inv1 c_off])
  have off2: "\<not> debug_symfile w2" using set_debug_symfile_cmd_env(2) [OF c_off] by simp
  have env: "env_eq w w2"
    using env_eq_trans [OF set_debug_symfile_cmd_env(1) [OF c_on] set_debug_symfile_cmd_env(1) [OF c_off]] .
  have "sf_of w2 = sf_of w"
    using inv_off_clean(3) [OF inv2 off2] inv_off_clean(3) [OF inv off]
      abs_sf_cmd [OF inv1 c_off] abs_sf_cmd [OF inv c_on] by simp
  with env have obj: "objfile_of w2 = objfile_of w"
    by (simp add: env_eq_def fun_eq_iff sf_of_def)
  show ?thesis
    using env obj off off2 inv_off_clean(1,2) [OF inv off] inv_off_clean(1,2) [OF inv2 off2]
    by (simp add: env_eq_def symfile_world.equality)
qed

end
