(* ===== verification/Symfile_Progress.thy ===== *)
theory Symfile_Progress
  imports Symfile_Invariant
begin

text \<open>
  Progress of the procedures of \<^verbatim>\<open>src/gdb/symfile-debug.c\<close> in states satisfying the
  invariant: install (lines 509--546) succeeds on an uninstrumented objfile with a table,
  uninstall (lines 551--564) on an instrumented one, so the loops of
  \<^verbatim>\<open>set_debug_symfile\<close> (lines 587--603) run to the end unless an objfile has no table;
  and the exact outcome of the guard \<^verbatim>\<open>objfile_set_sym_fns\<close> (lines 569--585).
\<close>

section \<open>Lemmas: each procedure succeeds where the invariant says it may\<close>

lemma objfile_okD:
  assumes "shape_inv w" and "ob \<in> set (live_objfiles w)"
  shows "data_key w ob = None \<Longrightarrow> static_sf_ok w (sf_of w ob)"
    and "data_key w ob = Some a \<Longrightarrow>
           sf_of w ob = Some (Debug_sf a) \<and> (\<exists>d. dd_heap w a = Some d \<and> block_ok w d)"
  using shape_invD(1) [OF assms] by (auto simp: objfile_ok_def split: option.splits)

lemma install_progress:
  assumes sh: "shape_inv w" and live: "ob \<in> set (live_objfiles w)"
    and k: "data_key w ob = None" and sf: "sf_of w ob = Some r"
  shows "\<exists>w'. install_symfile_debug_logging ob w = Inr w'"
proof -
  have "static_sf_ok w (Some r)" using objfile_okD(1) [OF sh live k] sf by simp
  then obtain t tab where "r = Static_sf t" and "sym_tabs w t = Some tab"
    using static_sf_ok_deref by blast
  with install_ok [OF sf k] show ?thesis by simp
qed

lemma uninstall_progress:
  assumes sh: "shape_inv w" and live: "ob \<in> set (live_objfiles w)" and k: "data_key w ob = Some a"
  shows "\<exists>w'. uninstall_symfile_debug_logging ob w = Inr w'"
  using objfile_okD(2) [OF sh live k] uninstall_ok [of w ob a] k by fastforce

lemma set_debug_symfile_objfile_progress:
  assumes sh: "shape_inv w" and live: "ob \<in> set (live_objfiles w)" and sf: "sf_of w ob \<noteq> None"
  shows "\<exists>w'. set_debug_symfile_objfile ob w = Inr w'"
proof (cases "data_key w ob")
  case None
  with sf install_progress [OF sh live None] show ?thesis
    by (auto simp: set_debug_symfile_objfile_def)
next
  case (Some a)
  with sf uninstall_progress [OF sh live Some] show ?thesis
    by (auto simp: set_debug_symfile_objfile_def)
qed

lemma set_debug_symfile_objfile_keeps_sf:
  assumes sh: "shape_inv w" and live: "ob \<in> set (live_objfiles w)"
    and s: "set_debug_symfile_objfile ob w = Inr w'" and sf: "sf_of w x \<noteq> None"
  shows "sf_of w' x \<noteq> None"
proof (cases "x = ob")
  case False
  with set_debug_symfile_objfile_frame(3) [OF s] sf show ?thesis by simp
next
  case True
  have "sf_of w' ob \<noteq> None"
  proof (cases "debug_symfile w")
    case True
    with s install_post(1) [of ob w w'] show ?thesis
      by (auto simp: set_debug_symfile_objfile_def split: if_splits)
  next
    case False
    show ?thesis
    proof (cases "symfile_debug_installed w ob")
      case inst: True
      with False s have u: "uninstall_symfile_debug_logging ob w = Inr w'"
        by (simp add: set_debug_symfile_objfile_def)
      then show ?thesis
      proof (rule uninstall_Inr_cases)
        fix a d
        assume k: "data_key w ob = Some a" and h: "dd_heap w a = Some d"
          and w': "w' = (set_objfile_sf ob (real_sf d) w)\<lparr>data_key := (data_key w)(ob := None),
                                               dd_heap := (dd_heap w)(a := None)\<rparr>"
        from objfile_okD(2) [OF sh live k] h have "real_sf d \<noteq> None" by (auto simp: block_ok_def)
        with w' show ?thesis by simp
      qed
    next
      case inst: False
      with False s sf True show ?thesis by (simp add: set_debug_symfile_objfile_def)
    qed
  qed
  with True show ?thesis by simp
qed

lemma set_debug_symfile_objfiles_keep_sf:
  "shape_inv w \<Longrightarrow> set os \<subseteq> set (live_objfiles w) \<Longrightarrow> set_debug_symfile_objfiles os w = Inr w' \<Longrightarrow>
     sf_of w x \<noteq> None \<Longrightarrow> sf_of w' x \<noteq> None"
proof (induction os arbitrary: w)
  case Nil
  then show ?case by simp
next
  case (Cons ob os)
  from Cons.prems(3) obtain w1 where w1: "set_debug_symfile_objfile ob w = Inr w1"
    and rest: "set_debug_symfile_objfiles os w1 = Inr w'"
    by (cases "set_debug_symfile_objfile ob w") auto
  have live: "ob \<in> set (live_objfiles w)" using Cons.prems(2) by simp
  have sh1: "shape_inv w1" by (rule shape_set_debug_symfile_objfile [OF Cons.prems(1) live w1])
  have l1: "live_objfiles w1 = live_objfiles w"
    by (rule live_objfiles_frame) (rule set_debug_symfile_objfile_frame(2) [OF w1])
  have "sf_of w1 x \<noteq> None" by (rule set_debug_symfile_objfile_keeps_sf [OF Cons.prems(1) live w1 Cons.prems(4)])
  with Cons.IH [OF sh1 _ rest] Cons.prems(2) l1 show ?case by simp
qed

lemma set_debug_symfile_objfiles_progress:
  "shape_inv w \<Longrightarrow> set os \<subseteq> set (live_objfiles w) \<Longrightarrow>
     \<forall>x \<in> set (live_objfiles w). sf_of w x \<noteq> None \<Longrightarrow> \<exists>w'. set_debug_symfile_objfiles os w = Inr w'"
proof (induction os arbitrary: w)
  case Nil
  then show ?case by simp
next
  case (Cons ob os)
  have live: "ob \<in> set (live_objfiles w)" using Cons.prems(2) by simp
  obtain w1 where w1: "set_debug_symfile_objfile ob w = Inr w1"
    using set_debug_symfile_objfile_progress [OF Cons.prems(1) live] Cons.prems(3) live by blast
  have sh1: "shape_inv w1" by (rule shape_set_debug_symfile_objfile [OF Cons.prems(1) live w1])
  have l1: "live_objfiles w1 = live_objfiles w"
    by (rule live_objfiles_frame) (rule set_debug_symfile_objfile_frame(2) [OF w1])
  have "\<forall>x \<in> set (live_objfiles w1). sf_of w1 x \<noteq> None"
    using set_debug_symfile_objfile_keeps_sf [OF Cons.prems(1) live w1] Cons.prems(3) l1 by simp
  with Cons.IH [OF sh1] Cons.prems(2) l1 w1 show ?case by simp
qed

lemma set_debug_symfile_pspaces_progress:
  "shape_inv w \<Longrightarrow> set (concat ps) \<subseteq> set (live_objfiles w) \<Longrightarrow>
     \<forall>x \<in> set (live_objfiles w). sf_of w x \<noteq> None \<Longrightarrow> \<exists>w'. set_debug_symfile_pspaces ps w = Inr w'"
proof (induction ps arbitrary: w)
  case Nil
  then show ?case by simp
next
  case (Cons p ps)
  have "set p \<subseteq> set (live_objfiles w)" using Cons.prems(2) by simp
  then obtain w1 where w1: "set_debug_symfile_objfiles p w = Inr w1"
    using set_debug_symfile_objfiles_progress [OF Cons.prems(1) _ Cons.prems(3)] by blast
  have sh1: "shape_inv w1"
    using shape_set_debug_symfile_objfiles [OF Cons.prems(1) _ w1] Cons.prems(2) by simp
  have l1: "live_objfiles w1 = live_objfiles w"
    using set_debug_symfile_objfiles_post [OF w1] by (simp add: live_objfiles_def)
  have "\<forall>x \<in> set (live_objfiles w1). sf_of w1 x \<noteq> None"
    using set_debug_symfile_objfiles_keep_sf [OF Cons.prems(1) _ w1] Cons.prems(2,3) l1 by simp
  with Cons.IH [OF sh1] Cons.prems(2) l1 w1 show ?case by simp
qed

lemma guard_reduces:
  assumes inv: "symfile_inv w" and live: "ob \<in> set (live_objfiles w)"
  obtains w1 where "shape_inv w1" and "data_key w1 ob = None" and "sym_tabs w1 = sym_tabs w"
    and "objfile_set_sym_fns ob new w =
           (if debug_symfile w then install_symfile_debug_logging ob (set_objfile_sf ob new w1)
            else Inr (set_objfile_sf ob new w1))"
proof -
  have sh: "shape_inv w" and sy: "sync_inv w" using inv by (simp_all add: symfile_inv_def)
  obtain w1 where first:
      "(if symfile_debug_installed w ob
        then (if debug_symfile w then uninstall_symfile_debug_logging ob w
              else Inl (Assertion_failed ''debug_symfile''))
        else Inr w) = Inr w1"
    and u: "symfile_debug_installed w ob \<and> uninstall_symfile_debug_logging ob w = Inr w1 \<or>
            \<not> symfile_debug_installed w ob \<and> w1 = w"
  proof (cases "symfile_debug_installed w ob")
    case True
    then obtain a where k: "data_key w ob = Some a" by (cases "data_key w ob") simp_all
    have "debug_symfile w" using sy live k unfolding sync_inv_def by blast
    with True uninstall_progress [OF sh live k] that show ?thesis by auto
  next
    case False
    with that [of w] show ?thesis by (simp del: installed_iff)
  qed
  note g = guard_first_step [OF sh live u]
  have "objfile_set_sym_fns ob new w =
          (if debug_symfile w then install_symfile_debug_logging ob (set_objfile_sf ob new w1)
           else Inr (set_objfile_sf ob new w1))"
    using first g(6) by (simp add: objfile_set_sym_fns_def Let_def del: installed_iff)
  with g(1-3) that show ?thesis by blast
qed

lemma guard_progress:
  assumes inv: "symfile_inv w" and live: "ob \<in> set (live_objfiles w)"
    and ok: "static_sf_ok w (Some r)"
  shows "\<exists>w'. objfile_set_sym_fns ob (Some r) w = Inr w'"
proof -
  from ok obtain t tab where r: "r = Static_sf t" and t: "sym_tabs w t = Some tab"
    using static_sf_ok_deref by blast
  obtain w1 where k: "data_key w1 ob = None" and st: "sym_tabs w1 = sym_tabs w"
    and res: "objfile_set_sym_fns ob (Some r) w =
       (if debug_symfile w then install_symfile_debug_logging ob (set_objfile_sf ob (Some r) w1)
        else Inr (set_objfile_sf ob (Some r) w1))"
    by (rule guard_reduces [OF inv live, of "Some r"])
  show ?thesis using res install_ok [of "set_objfile_sf ob (Some r) w1" ob r tab] r t k st by auto
qed

lemma set_debug_symfile_objfile_error:
  assumes sh: "shape_inv w" and live: "ob \<in> set (live_objfiles w)"
    and e: "set_debug_symfile_objfile ob w = Inl err"
  shows "err = Null_deref \<and> debug_symfile w \<and> sf_of w ob = None"
proof -
  have sf: "sf_of w ob = None"
    using set_debug_symfile_objfile_progress [OF sh live] e by (cases "sf_of w ob") auto
  with e show ?thesis
    by (auto simp: set_debug_symfile_objfile_def install_null_sf split: if_splits)
qed

lemma set_debug_symfile_objfiles_error:
  "shape_inv w \<Longrightarrow> set os \<subseteq> set (live_objfiles w) \<Longrightarrow> set_debug_symfile_objfiles os w = Inl err \<Longrightarrow>
     err = Null_deref \<and> debug_symfile w \<and> (\<exists>ob \<in> set os. sf_of w ob = None)"
proof (induction os arbitrary: w)
  case Nil
  then show ?case by simp
next
  case (Cons ob os)
  have live: "ob \<in> set (live_objfiles w)" using Cons.prems(2) by simp
  show ?case
  proof (cases "set_debug_symfile_objfile ob w")
    case (Inl e)
    with Cons.prems(3) have "e = err" by simp
    with set_debug_symfile_objfile_error [OF Cons.prems(1) live Inl] show ?thesis by simp
  next
    case (Inr w1)
    with Cons.prems(3) have rest: "set_debug_symfile_objfiles os w1 = Inl err" by simp
    have sh1: "shape_inv w1" by (rule shape_set_debug_symfile_objfile [OF Cons.prems(1) live Inr])
    have l1: "live_objfiles w1 = live_objfiles w"
      by (rule live_objfiles_frame) (rule set_debug_symfile_objfile_frame(2) [OF Inr])
    from Cons.IH [OF sh1 _ rest] Cons.prems(2) l1 obtain x where
      r: "err = Null_deref" "debug_symfile w1" and x: "x \<in> set os" "sf_of w1 x = None" by auto
    have "sf_of w x = None"
      using set_debug_symfile_objfile_keeps_sf [OF Cons.prems(1) live Inr, of x] x(2) by blast
    with r x set_debug_symfile_objfile_frame(1) [OF Inr] show ?thesis by auto
  qed
qed

lemma set_debug_symfile_pspaces_error:
  "shape_inv w \<Longrightarrow> set (concat ps) \<subseteq> set (live_objfiles w) \<Longrightarrow> set_debug_symfile_pspaces ps w = Inl err \<Longrightarrow>
     err = Null_deref \<and> debug_symfile w \<and> (\<exists>ob \<in> set (concat ps). sf_of w ob = None)"
proof (induction ps arbitrary: w)
  case Nil
  then show ?case by simp
next
  case (Cons p ps)
  have sub: "set p \<subseteq> set (live_objfiles w)" using Cons.prems(2) by simp
  show ?case
  proof (cases "set_debug_symfile_objfiles p w")
    case (Inl e)
    with Cons.prems(3) have "e = err" by simp
    with set_debug_symfile_objfiles_error [OF Cons.prems(1) sub Inl] show ?thesis by auto
  next
    case (Inr w1)
    with Cons.prems(3) have rest: "set_debug_symfile_pspaces ps w1 = Inl err" by simp
    have sh1: "shape_inv w1" by (rule shape_set_debug_symfile_objfiles [OF Cons.prems(1) sub Inr])
    have post: "debug_symfile w1 = debug_symfile w" "live_objfiles w1 = live_objfiles w"
      using set_debug_symfile_objfiles_post [OF Inr] by (simp_all add: live_objfiles_def)
    from Cons.IH [OF sh1 _ rest] Cons.prems(2) post obtain x where
      r: "err = Null_deref" "debug_symfile w1" and x: "x \<in> set (concat ps)" "sf_of w1 x = None" by auto
    have "sf_of w x = None"
      using set_debug_symfile_objfiles_keep_sf [OF Cons.prems(1) sub Inr, of x] x(2) by blast
    with r x post show ?thesis by auto
  qed
qed

lemma set_debug_symfile_cmd_error:
  assumes sh: "shape_inv w" and c: "set_debug_symfile_cmd v w = Inl err"
  shows "err = Null_deref \<and> v \<and> (\<exists>ob \<in> set (live_objfiles w). sf_of w ob = None)"
proof -
  let ?w0 = "w\<lparr>debug_symfile := v\<rparr>"
  have walk: "set_debug_symfile_pspaces (program_spaces ?w0) ?w0 = Inl err"
    using c by (simp add: set_debug_symfile_cmd_def set_debug_symfile_def)
  have "shape_inv ?w0" using sh by simp
  from set_debug_symfile_pspaces_error [OF this _ walk] show ?thesis
    by (simp add: live_objfiles_def sf_of_def)
qed

section \<open>Progress of the command and outcome of the guard\<close>

text \<open>C26: the outcome of \<^verbatim>\<open>objfile_set_sym_fns\<close> on a live objfile, in a state satisfying
  the invariant, given a table pointer that is \<^verbatim>\<open>NULL\<close> or a reader's table: when logging
  is on and the new pointer is \<^verbatim>\<open>NULL\<close>, the reinstall dereferences it
  (\<^verbatim>\<open>real_sf->sym_new_init\<close>) and the call faults; in every other case it succeeds.\<close>

theorem objfile_set_sym_fns_outcome:
  assumes inv: "symfile_inv w" and live: "ob \<in> set (live_objfiles w)" and ok: "static_sf_ok w new"
  shows "objfile_set_sym_fns ob new w \<in>
           (if debug_symfile w \<and> new = None then {Inl Null_deref} else range Inr)"
proof (cases new)
  case None
  from guard_reduces [OF inv live, of new] obtain w1 where
    "objfile_set_sym_fns ob new w =
       (if debug_symfile w then install_symfile_debug_logging ob (set_objfile_sf ob new w1)
        else Inr (set_objfile_sf ob new w1))" by blast
  with None show ?thesis by (simp add: install_null_sf)
next
  case (Some r)
  with guard_progress [OF inv live] ok show ?thesis by auto
qed

text \<open>C30: the errors of \<^verbatim>\<open>set debug symfile on|off\<close>, completely.  In a state
  satisfying the invariant the command fails exactly when it switches logging on while some
  live objfile has no table, and then always with the \<^verbatim>\<open>NULL\<close> dereference of
  \<^verbatim>\<open>install_symfile_debug_logging\<close>; switching off never fails, and no assertion of
  install or uninstall is ever reached.\<close>

theorem set_debug_symfile_cmd_outcome:
  assumes inv: "symfile_inv w"
  shows "set_debug_symfile_cmd v w \<in>
           (if v \<and> (\<exists>ob \<in> set (live_objfiles w). sf_of w ob = None) then {Inl Null_deref} else range Inr)"
proof (cases "set_debug_symfile_cmd v w")
  case (Inl e)
  have "shape_inv w" using inv by (simp add: symfile_inv_def)
  from set_debug_symfile_cmd_error [OF this Inl] Inl show ?thesis by auto
next
  case (Inr w')
  have "\<not> (v \<and> (\<exists>ob \<in> set (live_objfiles w). sf_of w ob = None))"
    using Inr set_debug_symfile_on_needs_sf [of w w'] by auto
  with Inr show ?thesis by simp
qed

end
