(* ===== verification/Symfile_System.thy ===== *)
theory Symfile_System
  imports Symfile_Refinement Symfile_Progress
begin

text \<open>
  The layer of \<^verbatim>\<open>src/gdb/symfile-debug.c\<close> as the rest of gdb drives it: sequences of
  commands, guarded table replacements and calls, interleaved in any order (spec sections 4.5,
  4.6 and 5).  \<open>sys_run\<close> runs them on the detailed model; \<open>abs_run\<close> runs them on
  tables alone.  The claims show that every such run returns, never aborts, and gives each
  call the outcome the abstract system gives it (C27), and that a run in which logging is
  never switched on writes nothing (C28); and that a new objfile must receive its table before
  logging is switched on (C31).
\<close>

section \<open>Operations and runs\<close>

text \<open>What the rest of gdb does to the layer, one operation at a time: the command
  \<^verbatim>\<open>set debug symfile on|off\<close>, a table replacement through the guard, a call
  through an objfile's table, or an objfile created (in a program space, with no table) or
  destroyed.\<close>

datatype sym_op = Op_set_debug bool | Op_set_sym_fns oid "sf_ref option" | Op_call oid sym_call
  | Op_new oid objfile nat | Op_free oid

text \<open>A run of the layer: the operations in order, each on the world the previous one
  left.  The lines written to \<^verbatim>\<open>gdb_stdlog\<close> accumulate, each call's outcome is
  recorded; a failing command or guard stops the run with its error, and a call that does
  not return within the fuel makes the whole run \<open>None\<close>.\<close>

fun sys_run :: "nat \<Rightarrow> sym_op list \<Rightarrow> symfile_world \<Rightarrow>
    (string list \<times> (gdb_error + sym_ret) list \<times> (gdb_error + symfile_world)) option" where
  "sys_run n [] w = Some ([], [], Inr w)"
| "sys_run n (Op_set_debug v # ops) w =
     (case set_debug_symfile_cmd v w of Inl e \<Rightarrow> Some ([], [], Inl e) | Inr w' \<Rightarrow> sys_run n ops w')"
| "sys_run n (Op_set_sym_fns ob r # ops) w =
     (case objfile_set_sym_fns ob r w of Inl e \<Rightarrow> Some ([], [], Inl e) | Inr w' \<Rightarrow> sys_run n ops w')"
| "sys_run n (Op_call ob c # ops) w =
     (case objfile_sym_call n w ob c of
        None \<Rightarrow> None
      | Some (ls, x) \<Rightarrow> map_option (\<lambda>(ls', xs, r). (ls @ ls', x # xs, r)) (sys_run n ops w))"
| "sys_run n (Op_new ob f i # ops) w = sys_run n ops (objfile_new ob f i w)"
| "sys_run n (Op_free ob # ops) w = sys_run n ops (objfile_free ob w)"

text \<open>The same operations on the abstract system, in which an objfile is only its
  reader table: toggling does nothing, the guard replaces the table, and a call is the plain
  call on the table.\<close>

fun abs_run :: "symfile_world \<Rightarrow> (oid \<Rightarrow> sf_ref option) \<Rightarrow> sym_op list \<Rightarrow> (gdb_error + sym_ret) list" where
  "abs_run w a [] = []"
| "abs_run w a (Op_set_debug v # ops) = abs_run w a ops"
| "abs_run w a (Op_set_sym_fns ob r # ops) = abs_run w (a(ob := r)) ops"
| "abs_run w a (Op_call ob c # ops) = plain_call w (a ob) ob c # abs_run w a ops"
| "abs_run w a (Op_new ob f i # ops) = abs_run w (a(ob := None)) ops"
| "abs_run w a (Op_free ob # ops) = abs_run w a ops"

text \<open>The operations the rest of gdb performs on live objfiles that C27 and C28 cover: a
  replacement table is a reader's table, \<^verbatim>\<open>sym_segments\<close> is not called (C11), and
  the set of objfiles is fixed.\<close>

primrec op_ok :: "symfile_world \<Rightarrow> sym_op \<Rightarrow> bool" where
  "op_ok w (Op_set_debug v) = True"
| "op_ok w (Op_set_sym_fns ob r) = (ob \<in> set (live_objfiles w) \<and> r \<noteq> None \<and> static_sf_ok w r)"
| "op_ok w (Op_call ob c) = (ob \<in> set (live_objfiles w) \<and> \<not> is_segments_call c)"
| "op_ok w (Op_new ob f i) = False"
| "op_ok w (Op_free ob) = False"

section \<open>Lemmas\<close>

lemma env_eq_set_objfile_sf: "env_eq w (set_objfile_sf ob r w)"
  by (simp add: env_eq_def set_objfile_sf_def sf_of_def)

lemma env_eq_objfile_set_sym_fns:
  assumes s: "objfile_set_sym_fns ob r w = Inr w'"
  shows "env_eq w w'"
  using s
proof (cases rule: objfile_set_sym_fns_Inr_cases)
  case (reinstall w1)
  have "env_eq w (set_objfile_sf ob r w1)"
    by (rule env_eq_trans [OF env_eq_uninstall [OF reinstall(3)] env_eq_set_objfile_sf])
  with env_eq_install [OF reinstall(4)] show ?thesis by (blast intro: env_eq_trans)
next
  case install
  with env_eq_install [OF install(3)] show ?thesis by (blast intro: env_eq_trans env_eq_set_objfile_sf)
next
  case plain
  then show ?thesis by (simp add: env_eq_set_objfile_sf)
qed

lemma env_eq_live: "env_eq w w' \<Longrightarrow> live_objfiles w' = live_objfiles w"
  by (simp add: env_eq_def live_objfiles_def)

lemma env_eq_static: "env_eq w w' \<Longrightarrow> static_sf_ok w' r = static_sf_ok w r"
  unfolding env_eq_def by (metis static_sf_ok_cong)

lemma plain_call_env:
  assumes e: "env_eq w w'" and nd: "\<And>a. r \<noteq> Some (Debug_sf a)"
  shows "plain_call w' r ob c = plain_call w r ob c"
proof -
  have d: "deref_sf_ptr w' r = deref_sf_ptr w r"
    using e nd by (cases r) (auto simp: env_eq_def deref_sf_def split: sf_ref.split)
  have pt: "probe_tabs w' = probe_tabs w" using e unfolding env_eq_def by blast
  have dp: "deref_probes w' = deref_probes w" unfolding deref_probes_def pt by (rule refl)
  have p: "probe_fn w' = probe_fn w" unfolding probe_fn_def dp by (rule refl)
  have b: "sym_backend w' = sym_backend w" using e unfolding env_eq_def by blast
  show ?thesis unfolding plain_call_def call_fn_def d p b by (rule refl)
qed

lemma abs_sf_live_static:
  assumes sh: "shape_inv w" and live: "ob \<in> set (live_objfiles w)"
  shows "static_sf_ok w (abs_sf w ob)"
proof (cases "data_key w ob")
  case None
  with objfile_okD(1) [OF sh live None] show ?thesis by (simp add: abs_sf_def)
next
  case (Some a)
  obtain d t tab where "dd_heap w a = Some d" and "sf_of w ob = Some (Debug_sf a)"
    and "real_sf d = Some (Static_sf t)" and t: "sym_tabs w t = Some tab" and wf: "table_wf w tab"
    and "debug_sf d = debug_sf_from tab" and a: "abs_sf w ob = Some (Static_sf t)"
    and "real_sf_of w ob = Inr tab"
    by (rule instrumented_parts [OF sh live Some])
  from a t wf show ?thesis by (simp add: static_sf_ok_def)
qed

lemma static_sf_ok_not_debug: "static_sf_ok w r \<Longrightarrow> r \<noteq> Some (Debug_sf a)"
  by (auto simp: static_sf_ok_def)

lemma guard_keeps_sf:
  assumes s: "objfile_set_sym_fns ob (Some r) w = Inr w'" and sf: "sf_of w x \<noteq> None"
  shows "sf_of w' x \<noteq> None"
  using s
proof (cases rule: objfile_set_sym_fns_Inr_cases)
  case (reinstall w1)
  then show ?thesis using sf install_post(1) [OF reinstall(4)] install_frame(7) [OF reinstall(4)]
    uninstall_frame(8) [OF reinstall(3)] by (cases "x = ob") simp_all
next
  case install
  then show ?thesis using sf install_post(1) [OF install(3)] install_frame(7) [OF install(3)]
    by (cases "x = ob") simp_all
next
  case plain
  then show ?thesis using sf by (cases "x = ob") simp_all
qed

lemma set_debug_symfile_pspaces_keep_sf:
  "shape_inv w \<Longrightarrow> set (concat ps) \<subseteq> set (live_objfiles w) \<Longrightarrow> set_debug_symfile_pspaces ps w = Inr w' \<Longrightarrow>
     sf_of w x \<noteq> None \<Longrightarrow> sf_of w' x \<noteq> None"
proof (induction ps arbitrary: w)
  case Nil
  then show ?case by simp
next
  case (Cons p ps)
  from Cons.prems(3) obtain w1 where w1: "set_debug_symfile_objfiles p w = Inr w1"
    and rest: "set_debug_symfile_pspaces ps w1 = Inr w'"
    by (cases "set_debug_symfile_objfiles p w") auto
  have sub: "set p \<subseteq> set (live_objfiles w)" using Cons.prems(2) by simp
  have sh1: "shape_inv w1" by (rule shape_set_debug_symfile_objfiles [OF Cons.prems(1) sub w1])
  have l1: "live_objfiles w1 = live_objfiles w"
    using set_debug_symfile_objfiles_post [OF w1] by (simp add: live_objfiles_def)
  have "sf_of w1 x \<noteq> None" by (rule set_debug_symfile_objfiles_keep_sf [OF Cons.prems(1) sub w1 Cons.prems(4)])
  with Cons.IH [OF sh1 _ rest] Cons.prems(2) l1 show ?case by simp
qed

lemma set_debug_symfile_cmd_keeps_sf:
  assumes sh: "shape_inv w" and c: "set_debug_symfile_cmd v w = Inr w'" and sf: "sf_of w x \<noteq> None"
  shows "sf_of w' x \<noteq> None"
proof -
  let ?w0 = "w\<lparr>debug_symfile := v\<rparr>"
  have walk: "set_debug_symfile_pspaces (program_spaces ?w0) ?w0 = Inr w'"
    using c by (simp add: set_debug_symfile_cmd_def set_debug_symfile_def)
  have "shape_inv ?w0" using sh by simp
  from set_debug_symfile_pspaces_keep_sf [OF this _ walk] sf show ?thesis
    by (simp add: live_objfiles_def)
qed

lemma sys_run_sim:
  assumes "symfile_inv w" and "env_eq w0 w" and "\<forall>ob \<in> set (live_objfiles w). sf_of w ob \<noteq> None"
    and "list_all (op_ok w0) ops"
  shows "\<exists>ls w'. sys_run (Suc (Suc m)) ops w = Some (ls, abs_run w0 (abs_sf w) ops, Inr w')"
  using assms
proof (induction ops arbitrary: w)
  case Nil
  then show ?case by simp
next
  case (Cons op ops)
  note inv = Cons.prems(1) and env = Cons.prems(2) and nn = Cons.prems(3)
  have sh: "shape_inv w" using inv by (simp add: symfile_inv_def)
  have live0: "live_objfiles w = live_objfiles w0" by (rule env_eq_live [OF env])
  have rest: "list_all (op_ok w0) ops" using Cons.prems(4) by simp
  show ?case
  proof (cases op)
    case (Op_set_debug v)
    have "\<exists>w'. set_debug_symfile_pspaces (program_spaces (w\<lparr>debug_symfile := v\<rparr>)) (w\<lparr>debug_symfile := v\<rparr>) = Inr w'"
      using nn sh by (intro set_debug_symfile_pspaces_progress) (simp_all add: live_objfiles_def)
    then obtain w' where c: "set_debug_symfile_cmd v w = Inr w'"
      by (auto simp: set_debug_symfile_cmd_def set_debug_symfile_def)
    have inv': "symfile_inv w'" by (rule inv_set_debug_symfile_cmd [OF inv c])
    have env': "env_eq w0 w'" by (rule env_eq_trans [OF env set_debug_symfile_cmd_env(1) [OF c]])
    have nn': "\<forall>ob \<in> set (live_objfiles w'). sf_of w' ob \<noteq> None"
      using nn set_debug_symfile_cmd_keeps_sf [OF sh c] env_eq_live [OF set_debug_symfile_cmd_env(1) [OF c]]
      by simp
    from Cons.IH [OF inv' env' nn' rest] c abs_sf_cmd [OF inv c] Op_set_debug show ?thesis by simp
  next
    case (Op_set_sym_fns ob r)
    with Cons.prems(4) obtain r' where r: "r = Some r'" and l0: "ob \<in> set (live_objfiles w0)"
      and ok0: "static_sf_ok w0 r" by auto
    have live: "ob \<in> set (live_objfiles w)" using l0 live0 by simp
    have ok: "static_sf_ok w (Some r')" using ok0 r env_eq_static [OF env] by simp
    obtain w' where s: "objfile_set_sym_fns ob (Some r') w = Inr w'"
      using guard_progress [OF inv live ok] by blast
    have inv': "symfile_inv w'" by (rule inv_objfile_set_sym_fns [OF inv live ok s])
    have env': "env_eq w0 w'" by (rule env_eq_trans [OF env env_eq_objfile_set_sym_fns [OF s]])
    have nn': "\<forall>ob \<in> set (live_objfiles w'). sf_of w' ob \<noteq> None"
      using nn guard_keeps_sf [OF s] env_eq_live [OF env_eq_objfile_set_sym_fns [OF s]] by simp
    from Cons.IH [OF inv' env' nn' rest] s r abs_sf_objfile_set_sym_fns [OF inv live s] Op_set_sym_fns
    show ?thesis by (simp add: fun_upd_def)
  next
    case (Op_call ob c)
    with Cons.prems(4) have l0: "ob \<in> set (live_objfiles w0)" and ns: "\<not> is_segments_call c" by auto
    have live: "ob \<in> set (live_objfiles w)" using l0 live0 by simp
    obtain ls where call: "objfile_sym_call (Suc (Suc m)) w ob c = Some (ls, plain_call w (abs_sf w ob) ob c)"
      using call_transparent_fuel [OF sh live ns] by blast
    have "plain_call w (abs_sf w ob) ob c = plain_call w0 (abs_sf w ob) ob c"
      by (rule plain_call_env [OF env static_sf_ok_not_debug [OF abs_sf_live_static [OF sh live]]])
    with Cons.IH [OF inv env nn rest] call Op_call show ?thesis by auto
  next
    case (Op_new ob f i)
    with Cons.prems(4) show ?thesis by simp
  next
    case (Op_free ob)
    with Cons.prems(4) show ?thesis by simp
  qed
qed

lemma set_debug_symfile_cmd_off_settled:
  assumes inv: "symfile_inv w" and off: "\<not> debug_symfile w"
  shows "set_debug_symfile_cmd False w = Inr w"
proof -
  have "\<forall>x \<in> set (concat (program_spaces w)). symfile_debug_installed w x \<longleftrightarrow> debug_symfile w"
    using inv off inv_off_clean(1) [OF inv off] by simp
  moreover have "w\<lparr>debug_symfile := False\<rparr> = w" using off by (cases w) simp
  ultimately show ?thesis
    by (simp add: set_debug_symfile_cmd_def set_debug_symfile_def set_debug_symfile_pspaces_settled
        del: installed_iff)
qed

lemma sys_run_off_sim:
  assumes "symfile_inv w" and "\<not> debug_symfile w" and "env_eq w0 w"
    and "Op_set_debug True \<notin> set ops" and "list_all (op_ok w0) ops"
  shows "\<exists>xs w'. sys_run (Suc m) ops w = Some ([], xs, Inr w')"
  using assms
proof (induction ops arbitrary: w)
  case Nil
  then show ?case by simp
next
  case (Cons op ops)
  note inv = Cons.prems(1) and off = Cons.prems(2) and env = Cons.prems(3)
  have sh: "shape_inv w" using inv by (simp add: symfile_inv_def)
  have no_on: "Op_set_debug True \<notin> set ops" and rest: "list_all (op_ok w0) ops"
    using Cons.prems(4,5) by simp_all
  show ?case
  proof (cases op)
    case (Op_set_debug v)
    with Cons.prems(4) have v: "v = False" by auto
    with Cons.IH [OF inv off env no_on rest] Op_set_debug set_debug_symfile_cmd_off_settled [OF inv off]
    show ?thesis by simp
  next
    case (Op_set_sym_fns ob r')
    from Cons.prems(5) Op_set_sym_fns have "ob \<in> set (live_objfiles w0)" and "static_sf_ok w0 r'" by simp_all
    with env_eq_live [OF env] env_eq_static [OF env]
    have live: "ob \<in> set (live_objfiles w)" and ok: "static_sf_ok w r'" by simp_all
    obtain w1 where "objfile_set_sym_fns ob r' w =
        (if debug_symfile w then install_symfile_debug_logging ob (set_objfile_sf ob r' w1)
         else Inr (set_objfile_sf ob r' w1))"
      by (rule guard_reduces [OF inv live])
    with off have s: "objfile_set_sym_fns ob r' w = Inr (set_objfile_sf ob r' w1)" by simp
    have "symfile_inv (set_objfile_sf ob r' w1)" by (rule inv_objfile_set_sym_fns [OF inv live ok s])
    moreover have "\<not> debug_symfile (set_objfile_sf ob r' w1)" using objfile_set_sym_fns_frame [OF s] off by simp
    moreover have "env_eq w0 (set_objfile_sf ob r' w1)"
      by (rule env_eq_trans [OF env env_eq_objfile_set_sym_fns [OF s]])
    ultimately show ?thesis using Cons.IH [OF _ _ _ no_on rest] Op_set_sym_fns s by simp
  next
    case (Op_call ob c)
    from Cons.prems(5) Op_call have "ob \<in> set (live_objfiles w0)" by simp
    with env_eq_live [OF env] have live: "ob \<in> set (live_objfiles w)" by simp
    have "data_key w ob = None"
      using sync_uninstrumented [OF _ live off] inv by (simp add: symfile_inv_def)
    from uninstrumented_call [OF sh live this, of m c]
    have "objfile_sym_call (Suc m) w ob c = Some ([], plain_call w (abs_sf w ob) ob c)" .
    with Op_call Cons.IH [OF inv off env no_on rest] show ?thesis by auto
  next
    case (Op_new ob f i)
    with Cons.prems(5) show ?thesis by simp
  next
    case (Op_free ob)
    with Cons.prems(5) show ?thesis by simp
  qed
qed

lemma objfile_new_facts:
  "sf_of (objfile_new ob f i w) ob = None"
  "x \<noteq> ob \<Longrightarrow> sf_of (objfile_new ob f i w) x = sf_of w x"
  "debug_symfile (objfile_new ob f i w) = debug_symfile w"
  by (simp_all add: objfile_new_def sf_of_def)

lemma guard_sets_sf:
  assumes s: "objfile_set_sym_fns ob (Some r) w = Inr w'"
  shows "sf_of w' ob \<noteq> None"
  using s
proof (cases rule: objfile_set_sym_fns_Inr_cases)
  case (reinstall w1)
  then show ?thesis using install_post(1) [OF reinstall(4)] by simp
next
  case install
  then show ?thesis using install_post(1) [OF install(3)] by simp
next
  case plain
  then show ?thesis by simp
qed

lemma cmd_Inr_if_tables:
  assumes inv: "symfile_inv w" and nn: "\<forall>ob \<in> set (live_objfiles w). sf_of w ob \<noteq> None"
  shows "\<exists>w'. set_debug_symfile_cmd v w = Inr w'"
proof (cases "set_debug_symfile_cmd v w")
  case (Inl e)
  have "shape_inv w" using inv by (simp add: symfile_inv_def)
  from set_debug_symfile_cmd_error [OF this Inl] nn show ?thesis by blast
qed simp

section \<open>Runs of the layer\<close>

text \<open>C27: refinement of the whole system.  From a state satisfying the invariant in which
  every live objfile has a table, any sequence of commands, guarded replacements by readers'
  tables and calls other than \<^verbatim>\<open>sym_segments\<close>, in any interleaving, returns (with the
  fuel of two nested dispatches), never aborts, and gives every call the outcome the
  abstract system of plain tables gives it.\<close>

theorem sys_run_refines:
  assumes inv: "symfile_inv w" and nn: "\<forall>ob \<in> set (live_objfiles w). sf_of w ob \<noteq> None"
    and ok: "list_all (op_ok w) ops" and n: "2 \<le> n"
  shows "\<exists>ls w'. sys_run n ops w = Some (ls, abs_run w (abs_sf w) ops, Inr w')"
proof -
  from n obtain m where "n = Suc (Suc m)" by (metis add_2_eq_Suc le_Suc_ex)
  with sys_run_sim [OF inv env_eq_refl nn ok] show ?thesis by simp
qed

text \<open>C28: with logging off and never switched on, a run of such operations returns, never
  aborts and writes no line to \<^verbatim>\<open>gdb_stdlog\<close>.\<close>

theorem sys_run_logging_off_silent:
  assumes inv: "symfile_inv w" and off: "\<not> debug_symfile w"
    and no_on: "Op_set_debug True \<notin> set ops" and ok: "list_all (op_ok w) ops"
  shows "\<exists>xs w'. sys_run (Suc n) ops w = Some ([], xs, Inr w')"
  by (rule sys_run_off_sim [OF inv off env_eq_refl no_on ok])

text \<open>C31: ordering of objfile creation and logging.  A new objfile joins with no table;
  if \<^verbatim>\<open>set debug symfile on\<close> comes before \<^verbatim>\<open>objfile_set_sym_fns\<close> gives it
  one, the command aborts on its \<^verbatim>\<open>NULL\<close> table; if the table comes first, the run
  completes.\<close>

theorem new_objfile_table_before_logging:
  assumes inv: "symfile_inv w" and nn: "\<forall>x \<in> set (live_objfiles w). sf_of w x \<noteq> None"
    and fresh: "ob \<notin> set (live_objfiles w)" and i: "i < length (program_spaces w)"
    and ok: "static_sf_ok w (Some r)"
  shows "sys_run n [Op_new ob f i, Op_set_debug True] w = Some ([], [], Inl Null_deref) \<and>
         (\<exists>w'. sys_run n [Op_new ob f i, Op_set_sym_fns ob (Some r), Op_set_debug True] w = Some ([], [], Inr w'))"
proof -
  let ?w1 = "objfile_new ob f i w"
  have inv1: "symfile_inv ?w1" by (rule inv_objfile_new [OF inv fresh i])
  have live1: "set (live_objfiles ?w1) = insert ob (set (live_objfiles w))" by (rule live_objfile_new [OF i])
  have null: "\<exists>x \<in> set (live_objfiles ?w1). sf_of ?w1 x = None"
    using live1 objfile_new_facts(1) by blast
  have first: "set_debug_symfile_cmd True ?w1 = Inl Null_deref"
  proof (cases "set_debug_symfile_cmd True ?w1")
    case (Inl e)
    have "shape_inv ?w1" using inv1 by (simp add: symfile_inv_def)
    from set_debug_symfile_cmd_error [OF this Inl] Inl show ?thesis by simp
  next
    case (Inr w')
    with null set_debug_symfile_on_needs_sf [OF Inr] show ?thesis by blast
  qed
  have ok1: "static_sf_ok ?w1 (Some r)" using ok static_sf_ok_cong [of ?w1 w] by (simp add: objfile_new_def)
  obtain w2 where s: "objfile_set_sym_fns ob (Some r) ?w1 = Inr w2"
    using guard_progress [OF inv1 _ ok1] live1 by blast
  have inv2: "symfile_inv w2" by (rule inv_objfile_set_sym_fns [OF inv1 _ ok1 s]) (simp add: live1)
  have live2: "live_objfiles w2 = live_objfiles ?w1"
    using objfile_set_sym_fns_frame [OF s] by (simp add: live_objfiles_def)
  have "\<forall>x \<in> set (live_objfiles w2). sf_of w2 x \<noteq> None"
  proof
    fix x assume "x \<in> set (live_objfiles w2)"
    with live2 live1 nn objfile_new_facts(2) [of x ob f i w] guard_keeps_sf [OF s, of x] guard_sets_sf [OF s]
    show "sf_of w2 x \<noteq> None" by (cases "x = ob") auto
  qed
  from cmd_Inr_if_tables [OF inv2 this, of True] obtain w3 where "set_debug_symfile_cmd True w2 = Inr w3" by blast
  with first s show ?thesis by simp
qed

end
