(* ===== verification/Symfile_Queries.thy ===== *)
theory Symfile_Queries
  imports Symfile_State
begin

unbundle bit_operations_syntax

text \<open>
  The query forwarding of \<^verbatim>\<open>src/gdb/symfile-debug.c\<close> (lines 63--358): the methods of
  \<^verbatim>\<open>struct objfile\<close> that forward a symbol query to the objfile's
  \<^verbatim>\<open>quick_symbol_functions\<close> object \<^verbatim>\<open>qf\<close> when there is one, and print a line
  before and a line with the result after the call when \<^verbatim>\<open>debug_symfile\<close> is on.  The
  query object belongs to the symbol readers and is not in the sources: it is a record of its
  methods (\<open>quick_symbol_functions\<close>), each returning its result or the error it raises,
  and the objfile's \<^verbatim>\<open>qf\<close> is an index into a family \<open>Q\<close> of such objects.  Symbol
  tables are represented by the name \<^verbatim>\<open>symtab_to_filename_for_display\<close> gives them,
  domains by the name \<^verbatim>\<open>domain_name\<close> and \<^verbatim>\<open>search_domain_name\<close> give them,
  callbacks by the address printed for them.  \<open>objfile_query\<close> dispatches a query
  (\<open>qf_query\<close>) to its method; \<open>qf_dispatch\<close> is the plain forwarding with no logging,
  the reference the lemmas compare the methods with.
\<close>

section \<open>The query object and the symbol tables\<close>

record symtab =
  filename_for_display :: string

record compunit_symtab =
  primary_filetab :: symtab

type_synonym language = nat

record quick_symbol_functions =
  qsf_has_symbols :: "oid \<Rightarrow> gdb_error + bool"
  qsf_can_lazily_read_symbols :: "gdb_error + bool"
  qsf_find_last_source_symtab :: "oid \<Rightarrow> gdb_error + symtab option"
  qsf_forget_cached_source_info :: "oid \<Rightarrow> gdb_error + unit"
  qsf_map_symtabs_matching_filename :: "oid \<Rightarrow> string \<Rightarrow> string option \<Rightarrow> addr \<Rightarrow> gdb_error + bool"
  qsf_lookup_symbol :: "oid \<Rightarrow> int \<Rightarrow> string \<Rightarrow> string \<Rightarrow> gdb_error + compunit_symtab option"
  qsf_print_stats :: "oid \<Rightarrow> bool \<Rightarrow> gdb_error + unit"
  qsf_dump :: "oid \<Rightarrow> gdb_error + unit"
  qsf_expand_symtabs_for_function :: "oid \<Rightarrow> string \<Rightarrow> gdb_error + unit"
  qsf_expand_all_symtabs :: "oid \<Rightarrow> gdb_error + unit"
  qsf_expand_symtabs_with_fullname :: "oid \<Rightarrow> string \<Rightarrow> gdb_error + unit"
  qsf_map_matching_symbols :: "oid \<Rightarrow> string \<Rightarrow> string \<Rightarrow> int \<Rightarrow> addr \<Rightarrow> addr \<Rightarrow> gdb_error + unit"
  qsf_expand_symtabs_matching :: "oid \<Rightarrow> addr \<Rightarrow> string option \<Rightarrow> addr \<Rightarrow> addr \<Rightarrow> string \<Rightarrow> gdb_error + unit"
  qsf_find_pc_sect_compunit_symtab :: "oid \<Rightarrow> addr \<Rightarrow> 64 word \<Rightarrow> addr \<Rightarrow> int \<Rightarrow> gdb_error + compunit_symtab option"
  qsf_map_symbol_filenames :: "oid \<Rightarrow> addr \<Rightarrow> addr \<Rightarrow> int \<Rightarrow> gdb_error + unit"
  qsf_find_compunit_symtab_by_address :: "oid \<Rightarrow> 64 word \<Rightarrow> gdb_error + compunit_symtab option"
  qsf_lookup_global_symbol_language :: "oid \<Rightarrow> string \<Rightarrow> string \<Rightarrow> gdb_error + language \<times> bool"

type_synonym qf_family = "nat \<Rightarrow> quick_symbol_functions"

text \<open>\<^verbatim>\<open>OBJF_PSYMTABS_READ\<close> (objfile-flags.h, bit 4) and \<^verbatim>\<open>language_unknown\<close>
  (defs.h, the first enumerator).\<close>

definition OBJF_PSYMTABS_READ :: "32 word" where
  "OBJF_PSYMTABS_READ = 0x10"

definition language_unknown :: language where
  "language_unknown = 0"

text \<open>\<^verbatim>\<open>debug_symtab_name\<close> (lines 65--69), and the text printed for a result that
  may be \<^verbatim>\<open>NULL\<close>.\<close>

definition debug_symtab_name :: "symtab \<Rightarrow> string" where
  "debug_symtab_name s = filename_for_display s"

definition symtab_result_name :: "symtab option \<Rightarrow> string" where
  "symtab_result_name r = (case r of None \<Rightarrow> ''NULL'' | Some s \<Rightarrow> debug_symtab_name s)"

definition cust_result_name :: "compunit_symtab option \<Rightarrow> string" where
  "cust_result_name r = (case r of None \<Rightarrow> ''NULL'' | Some c \<Rightarrow> debug_symtab_name (primary_filetab c))"

text \<open>A \<^verbatim>\<open>const char *\<close> that may be \<^verbatim>\<open>NULL\<close>, passed to \<^verbatim>\<open>%s\<close>: glibc prints
  \<^verbatim>\<open>(null)\<close> for it (the C standard leaves it undefined).\<close>

definition c_str :: "string option \<Rightarrow> string" where
  "c_str s = (case s of None \<Rightarrow> ''(null)'' | Some t \<Rightarrow> t)"

section \<open>Logging and forwarding\<close>

text \<open>\<^verbatim>\<open>if (debug_symfile) fprintf_filtered (gdb_stdlog, ...)\<close> before a call, and after
  it (reached only when the call returns).\<close>

definition dbg_before :: "symfile_world \<Rightarrow> string \<Rightarrow> 'a traced \<Rightarrow> 'a traced" where
  "dbg_before w l r = (if debug_symfile w then log_before l r else r)"

definition dbg_after :: "symfile_world \<Rightarrow> ('a \<Rightarrow> string) \<Rightarrow> 'a traced \<Rightarrow> 'a traced" where
  "dbg_after w f r = (if debug_symfile w then log_after f r else r)"

text \<open>\<^verbatim>\<open>if (qf != nullptr) retval = qf->method (this, ...)\<close>, \<open>dflt\<close> otherwise.\<close>

definition qf_call :: "qf_family \<Rightarrow> symfile_world \<Rightarrow> oid \<Rightarrow> (quick_symbol_functions \<Rightarrow> gdb_error + 'a) \<Rightarrow> 'a \<Rightarrow> gdb_error + 'a" where
  "qf_call Q w ob m dflt = (case qf (objfile_of w ob) of None \<Rightarrow> Inr dflt | Some q \<Rightarrow> m (Q q))"

section \<open>The methods of struct objfile\<close>

text \<open>\<^verbatim>\<open>objfile::has_partial_symbols\<close> (lines 74--95): the value it computes, then the
  method, which prints only after the value is known.\<close>

definition partial_symbols_retval :: "qf_family \<Rightarrow> symfile_world \<Rightarrow> oid \<Rightarrow> gdb_error + bool" where
  "partial_symbols_retval Q w ob =
     (let f = objfile_of w ob;
          lazily = (if objfile_flags f AND OBJF_PSYMTABS_READ = 0 \<and> qf f \<noteq> None
                    then qf_call Q w ob qsf_can_lazily_read_symbols False
                    else Inr False)
      in case lazily of
           Inl e \<Rightarrow> Inl e
         | Inr True \<Rightarrow> Inr True
         | Inr False \<Rightarrow> qf_call Q w ob (\<lambda>q. qsf_has_symbols q ob) False)"

definition objfile_has_partial_symbols :: "qf_family \<Rightarrow> symfile_world \<Rightarrow> oid \<Rightarrow> bool traced" where
  "objfile_has_partial_symbols Q w ob =
     dbg_after w (\<lambda>r. ''qf->has_symbols ('' @ objfile_debug_name w ob @ '') = '' @ bool_dec r)
       (Some ([], partial_symbols_retval Q w ob))"

text \<open>\<^verbatim>\<open>objfile::find_last_source_symtab\<close> (lines 97--114).\<close>

definition objfile_find_last_source_symtab :: "qf_family \<Rightarrow> symfile_world \<Rightarrow> oid \<Rightarrow> symtab option traced" where
  "objfile_find_last_source_symtab Q w ob =
     dbg_before w (''qf->find_last_source_symtab ('' @ objfile_debug_name w ob @ '')'')
       (dbg_after w (\<lambda>r. ''qf->find_last_source_symtab (...) = '' @ symtab_result_name r)
         (Some ([], qf_call Q w ob (\<lambda>q. qsf_find_last_source_symtab q ob) None)))"

text \<open>\<^verbatim>\<open>objfile::forget_cached_source_info\<close> (lines 116--125).\<close>

definition objfile_forget_cached_source_info :: "qf_family \<Rightarrow> symfile_world \<Rightarrow> oid \<Rightarrow> unit traced" where
  "objfile_forget_cached_source_info Q w ob =
     dbg_before w (''qf->forget_cached_source_info ('' @ objfile_debug_name w ob @ '')'')
       (Some ([], qf_call Q w ob (\<lambda>q. qsf_forget_cached_source_info q ob) ()))"

text \<open>\<^verbatim>\<open>objfile::map_symtabs_matching_filename\<close> (lines 127--151); \<open>cb\<close> is the
  address printed for \<^verbatim>\<open>&callback\<close>.\<close>

definition objfile_map_symtabs_matching_filename ::
  "qf_family \<Rightarrow> symfile_world \<Rightarrow> oid \<Rightarrow> string \<Rightarrow> string option \<Rightarrow> addr \<Rightarrow> bool traced" where
  "objfile_map_symtabs_matching_filename Q w ob name real_path cb =
     dbg_before w (''qf->map_symtabs_matching_filename ('' @ objfile_debug_name w ob @ '', \"'' @ name
                   @ ''\", \"'' @ c_str real_path @ ''\", '' @ host_address_to_string cb @ '')'')
       (dbg_after w (\<lambda>r. ''qf->map_symtabs_matching_filename (...) = '' @ bool_dec r)
         (Some ([], qf_call Q w ob (\<lambda>q. qsf_map_symtabs_matching_filename q ob name real_path cb) False)))"

text \<open>\<^verbatim>\<open>objfile::lookup_symbol\<close> (lines 153--174).\<close>

definition objfile_lookup_symbol ::
  "qf_family \<Rightarrow> symfile_world \<Rightarrow> oid \<Rightarrow> int \<Rightarrow> string \<Rightarrow> string \<Rightarrow> compunit_symtab option traced" where
  "objfile_lookup_symbol Q w ob kind name domain =
     dbg_before w (''qf->lookup_symbol ('' @ objfile_debug_name w ob @ '', '' @ int_dec kind @ '', \"''
                   @ name @ ''\", '' @ domain @ '')'')
       (dbg_after w (\<lambda>r. ''qf->lookup_symbol (...) = '' @ cust_result_name r)
         (Some ([], qf_call Q w ob (\<lambda>q. qsf_lookup_symbol q ob kind name domain) None)))"

text \<open>\<^verbatim>\<open>objfile::print_stats\<close> (lines 176--185) and \<^verbatim>\<open>objfile::dump\<close>
  (lines 187--196).\<close>

definition objfile_print_stats :: "qf_family \<Rightarrow> symfile_world \<Rightarrow> oid \<Rightarrow> bool \<Rightarrow> unit traced" where
  "objfile_print_stats Q w ob print_bcache =
     dbg_before w (''qf->print_stats ('' @ objfile_debug_name w ob @ '', '' @ bool_dec print_bcache @ '')'')
       (Some ([], qf_call Q w ob (\<lambda>q. qsf_print_stats q ob print_bcache) ()))"

definition objfile_dump :: "qf_family \<Rightarrow> symfile_world \<Rightarrow> oid \<Rightarrow> unit traced" where
  "objfile_dump Q w ob =
     dbg_before w (''qf->dump ('' @ objfile_debug_name w ob @ '')'')
       (Some ([], qf_call Q w ob (\<lambda>q. qsf_dump q ob) ()))"

text \<open>\<^verbatim>\<open>objfile::expand_symtabs_for_function\<close> (lines 198--208),
  \<^verbatim>\<open>objfile::expand_all_symtabs\<close> (lines 210--219) and
  \<^verbatim>\<open>objfile::expand_symtabs_with_fullname\<close> (lines 221--231).\<close>

definition objfile_expand_symtabs_for_function :: "qf_family \<Rightarrow> symfile_world \<Rightarrow> oid \<Rightarrow> string \<Rightarrow> unit traced" where
  "objfile_expand_symtabs_for_function Q w ob func_name =
     dbg_before w (''qf->expand_symtabs_for_function ('' @ objfile_debug_name w ob @ '', \"''
                   @ func_name @ ''\")'')
       (Some ([], qf_call Q w ob (\<lambda>q. qsf_expand_symtabs_for_function q ob func_name) ()))"

definition objfile_expand_all_symtabs :: "qf_family \<Rightarrow> symfile_world \<Rightarrow> oid \<Rightarrow> unit traced" where
  "objfile_expand_all_symtabs Q w ob =
     dbg_before w (''qf->expand_all_symtabs ('' @ objfile_debug_name w ob @ '')'')
       (Some ([], qf_call Q w ob (\<lambda>q. qsf_expand_all_symtabs q ob) ()))"

definition objfile_expand_symtabs_with_fullname :: "qf_family \<Rightarrow> symfile_world \<Rightarrow> oid \<Rightarrow> string \<Rightarrow> unit traced" where
  "objfile_expand_symtabs_with_fullname Q w ob fullname =
     dbg_before w (''qf->expand_symtabs_with_fullname ('' @ objfile_debug_name w ob @ '', \"''
                   @ fullname @ ''\")'')
       (Some ([], qf_call Q w ob (\<lambda>q. qsf_expand_symtabs_with_fullname q ob fullname) ()))"

text \<open>\<^verbatim>\<open>objfile::map_matching_symbols\<close> (lines 233--250); the lookup name is passed
  on and not printed.\<close>

definition objfile_map_matching_symbols ::
  "qf_family \<Rightarrow> symfile_world \<Rightarrow> oid \<Rightarrow> string \<Rightarrow> string \<Rightarrow> int \<Rightarrow> addr \<Rightarrow> addr \<Rightarrow> unit traced" where
  "objfile_map_matching_symbols Q w ob name domain global callback ordered_compare =
     dbg_before w (''qf->map_matching_symbols ('' @ objfile_debug_name w ob @ '', '' @ domain @ '', ''
                   @ int_dec global @ '', '' @ host_address_to_string ordered_compare @ '')'')
       (Some ([], qf_call Q w ob
                    (\<lambda>q. qsf_map_matching_symbols q ob name domain global callback ordered_compare) ()))"

text \<open>\<^verbatim>\<open>objfile::expand_symtabs_matching\<close> (lines 252--272); the three matchers are
  printed by the addresses of their \<^verbatim>\<open>function_view\<close> objects.\<close>

definition objfile_expand_symtabs_matching ::
  "qf_family \<Rightarrow> symfile_world \<Rightarrow> oid \<Rightarrow> addr \<Rightarrow> string option \<Rightarrow> addr \<Rightarrow> addr \<Rightarrow> string \<Rightarrow> unit traced" where
  "objfile_expand_symtabs_matching Q w ob file_matcher lookup_name symbol_matcher expansion_notify kind =
     dbg_before w (''qf->expand_symtabs_matching ('' @ objfile_debug_name w ob @ '', ''
                   @ host_address_to_string file_matcher @ '', ''
                   @ host_address_to_string symbol_matcher @ '', ''
                   @ host_address_to_string expansion_notify @ '', '' @ kind @ '')'')
       (Some ([], qf_call Q w ob
                    (\<lambda>q. qsf_expand_symtabs_matching q ob file_matcher lookup_name symbol_matcher
                           expansion_notify kind) ()))"

text \<open>\<^verbatim>\<open>objfile::find_pc_sect_compunit_symtab\<close> (lines 274--303); \<open>minsym\<close> is
  \<^verbatim>\<open>msymbol.minsym\<close>.\<close>

definition objfile_find_pc_sect_compunit_symtab ::
  "qf_family \<Rightarrow> symfile_world \<Rightarrow> oid \<Rightarrow> addr \<Rightarrow> 64 word \<Rightarrow> addr \<Rightarrow> int \<Rightarrow> compunit_symtab option traced" where
  "objfile_find_pc_sect_compunit_symtab Q w ob minsym pc section warn_if_readin =
     dbg_before w (''qf->find_pc_sect_compunit_symtab ('' @ objfile_debug_name w ob @ '', ''
                   @ host_address_to_string minsym @ '', '' @ hex_string pc @ '', ''
                   @ host_address_to_string section @ '', '' @ int_dec warn_if_readin @ '')'')
       (dbg_after w (\<lambda>r. ''qf->find_pc_sect_compunit_symtab (...) = '' @ cust_result_name r)
         (Some ([], qf_call Q w ob
                      (\<lambda>q. qsf_find_pc_sect_compunit_symtab q ob minsym pc section warn_if_readin) None)))"

text \<open>\<^verbatim>\<open>objfile::map_symbol_filenames\<close> (lines 305--319).\<close>

definition objfile_map_symbol_filenames ::
  "qf_family \<Rightarrow> symfile_world \<Rightarrow> oid \<Rightarrow> addr \<Rightarrow> addr \<Rightarrow> int \<Rightarrow> unit traced" where
  "objfile_map_symbol_filenames Q w ob fn data need_fullname =
     dbg_before w (''qf->map_symbol_filenames ('' @ objfile_debug_name w ob @ '', ''
                   @ host_address_to_string fn @ '', '' @ host_address_to_string data @ '', ''
                   @ int_dec need_fullname @ '')'')
       (Some ([], qf_call Q w ob (\<lambda>q. qsf_map_symbol_filenames q ob fn data need_fullname) ()))"

text \<open>\<^verbatim>\<open>objfile::find_compunit_symtab_by_address\<close> (lines 321--342).\<close>

definition objfile_find_compunit_symtab_by_address ::
  "qf_family \<Rightarrow> symfile_world \<Rightarrow> oid \<Rightarrow> 64 word \<Rightarrow> compunit_symtab option traced" where
  "objfile_find_compunit_symtab_by_address Q w ob address =
     dbg_before w (''qf->find_compunit_symtab_by_address ('' @ objfile_debug_name w ob @ '', ''
                   @ hex_string address @ '')'')
       (dbg_after w (\<lambda>r. ''qf->find_compunit_symtab_by_address (...) = '' @ cust_result_name r)
         (Some ([], qf_call Q w ob (\<lambda>q. qsf_find_compunit_symtab_by_address q ob address) None)))"

text \<open>\<^verbatim>\<open>objfile::lookup_global_symbol_language\<close> (lines 344--358): the language and
  the value written to \<^verbatim>\<open>*symbol_found_p\<close>; it prints nothing.\<close>

definition objfile_lookup_global_symbol_language ::
  "qf_family \<Rightarrow> symfile_world \<Rightarrow> oid \<Rightarrow> string \<Rightarrow> string \<Rightarrow> (language \<times> bool) traced" where
  "objfile_lookup_global_symbol_language Q w ob name domain =
     Some ([], qf_call Q w ob (\<lambda>q. qsf_lookup_global_symbol_language q ob name domain)
                 (language_unknown, False))"

section \<open>All queries\<close>

text \<open>A query with its arguments, the value it returns, and the dispatch of a query to
  its method.\<close>

datatype qf_query =
    Q_has_partial_symbols
  | Q_find_last_source_symtab
  | Q_forget_cached_source_info
  | Q_map_symtabs_matching_filename string "string option" addr
  | Q_lookup_symbol int string string
  | Q_print_stats bool
  | Q_dump
  | Q_expand_symtabs_for_function string
  | Q_expand_all_symtabs
  | Q_expand_symtabs_with_fullname string
  | Q_map_matching_symbols string string int addr addr
  | Q_expand_symtabs_matching addr "string option" addr addr string
  | Q_find_pc_sect_compunit_symtab addr "64 word" addr int
  | Q_map_symbol_filenames addr addr int
  | Q_find_compunit_symtab_by_address "64 word"
  | Q_lookup_global_symbol_language string string

datatype qf_ret =
    QR_void
  | QR_bool bool
  | QR_symtab "symtab option"
  | QR_cust "compunit_symtab option"
  | QR_lang language bool

definition map_traced :: "('a \<Rightarrow> 'b) \<Rightarrow> 'a traced \<Rightarrow> 'b traced" where
  "map_traced f r = map_option (\<lambda>(ls, x). (ls, map_sum id f x)) r"

fun objfile_query :: "qf_family \<Rightarrow> symfile_world \<Rightarrow> oid \<Rightarrow> qf_query \<Rightarrow> qf_ret traced" where
  "objfile_query Q w ob Q_has_partial_symbols =
     map_traced QR_bool (objfile_has_partial_symbols Q w ob)"
| "objfile_query Q w ob Q_find_last_source_symtab =
     map_traced QR_symtab (objfile_find_last_source_symtab Q w ob)"
| "objfile_query Q w ob Q_forget_cached_source_info =
     map_traced (\<lambda>_. QR_void) (objfile_forget_cached_source_info Q w ob)"
| "objfile_query Q w ob (Q_map_symtabs_matching_filename name real_path cb) =
     map_traced QR_bool (objfile_map_symtabs_matching_filename Q w ob name real_path cb)"
| "objfile_query Q w ob (Q_lookup_symbol kind name domain) =
     map_traced QR_cust (objfile_lookup_symbol Q w ob kind name domain)"
| "objfile_query Q w ob (Q_print_stats b) =
     map_traced (\<lambda>_. QR_void) (objfile_print_stats Q w ob b)"
| "objfile_query Q w ob Q_dump = map_traced (\<lambda>_. QR_void) (objfile_dump Q w ob)"
| "objfile_query Q w ob (Q_expand_symtabs_for_function fn) =
     map_traced (\<lambda>_. QR_void) (objfile_expand_symtabs_for_function Q w ob fn)"
| "objfile_query Q w ob Q_expand_all_symtabs =
     map_traced (\<lambda>_. QR_void) (objfile_expand_all_symtabs Q w ob)"
| "objfile_query Q w ob (Q_expand_symtabs_with_fullname fn) =
     map_traced (\<lambda>_. QR_void) (objfile_expand_symtabs_with_fullname Q w ob fn)"
| "objfile_query Q w ob (Q_map_matching_symbols name domain global cb cmp) =
     map_traced (\<lambda>_. QR_void) (objfile_map_matching_symbols Q w ob name domain global cb cmp)"
| "objfile_query Q w ob (Q_expand_symtabs_matching fm ln sm en kind) =
     map_traced (\<lambda>_. QR_void) (objfile_expand_symtabs_matching Q w ob fm ln sm en kind)"
| "objfile_query Q w ob (Q_find_pc_sect_compunit_symtab ms pc sect warn) =
     map_traced QR_cust (objfile_find_pc_sect_compunit_symtab Q w ob ms pc sect warn)"
| "objfile_query Q w ob (Q_map_symbol_filenames fn data need) =
     map_traced (\<lambda>_. QR_void) (objfile_map_symbol_filenames Q w ob fn data need)"
| "objfile_query Q w ob (Q_find_compunit_symtab_by_address a) =
     map_traced QR_cust (objfile_find_compunit_symtab_by_address Q w ob a)"
| "objfile_query Q w ob (Q_lookup_global_symbol_language name domain) =
     map_traced (\<lambda>(l, found). QR_lang l found) (objfile_lookup_global_symbol_language Q w ob name domain)"

text \<open>The plain forwarding of a query, with no logging: the reference for the methods.\<close>

fun qf_dispatch :: "qf_family \<Rightarrow> symfile_world \<Rightarrow> oid \<Rightarrow> qf_query \<Rightarrow> gdb_error + qf_ret" where
  "qf_dispatch Q w ob Q_has_partial_symbols = map_sum id QR_bool (partial_symbols_retval Q w ob)"
| "qf_dispatch Q w ob Q_find_last_source_symtab =
     map_sum id QR_symtab (qf_call Q w ob (\<lambda>q. qsf_find_last_source_symtab q ob) None)"
| "qf_dispatch Q w ob Q_forget_cached_source_info =
     map_sum id (\<lambda>_. QR_void) (qf_call Q w ob (\<lambda>q. qsf_forget_cached_source_info q ob) ())"
| "qf_dispatch Q w ob (Q_map_symtabs_matching_filename name real_path cb) =
     map_sum id QR_bool (qf_call Q w ob (\<lambda>q. qsf_map_symtabs_matching_filename q ob name real_path cb) False)"
| "qf_dispatch Q w ob (Q_lookup_symbol kind name domain) =
     map_sum id QR_cust (qf_call Q w ob (\<lambda>q. qsf_lookup_symbol q ob kind name domain) None)"
| "qf_dispatch Q w ob (Q_print_stats b) =
     map_sum id (\<lambda>_. QR_void) (qf_call Q w ob (\<lambda>q. qsf_print_stats q ob b) ())"
| "qf_dispatch Q w ob Q_dump = map_sum id (\<lambda>_. QR_void) (qf_call Q w ob (\<lambda>q. qsf_dump q ob) ())"
| "qf_dispatch Q w ob (Q_expand_symtabs_for_function fn) =
     map_sum id (\<lambda>_. QR_void) (qf_call Q w ob (\<lambda>q. qsf_expand_symtabs_for_function q ob fn) ())"
| "qf_dispatch Q w ob Q_expand_all_symtabs =
     map_sum id (\<lambda>_. QR_void) (qf_call Q w ob (\<lambda>q. qsf_expand_all_symtabs q ob) ())"
| "qf_dispatch Q w ob (Q_expand_symtabs_with_fullname fn) =
     map_sum id (\<lambda>_. QR_void) (qf_call Q w ob (\<lambda>q. qsf_expand_symtabs_with_fullname q ob fn) ())"
| "qf_dispatch Q w ob (Q_map_matching_symbols name domain global cb cmp) =
     map_sum id (\<lambda>_. QR_void) (qf_call Q w ob (\<lambda>q. qsf_map_matching_symbols q ob name domain global cb cmp) ())"
| "qf_dispatch Q w ob (Q_expand_symtabs_matching fm ln sm en kind) =
     map_sum id (\<lambda>_. QR_void) (qf_call Q w ob (\<lambda>q. qsf_expand_symtabs_matching q ob fm ln sm en kind) ())"
| "qf_dispatch Q w ob (Q_find_pc_sect_compunit_symtab ms pc sect warn) =
     map_sum id QR_cust (qf_call Q w ob (\<lambda>q. qsf_find_pc_sect_compunit_symtab q ob ms pc sect warn) None)"
| "qf_dispatch Q w ob (Q_map_symbol_filenames fn data need) =
     map_sum id (\<lambda>_. QR_void) (qf_call Q w ob (\<lambda>q. qsf_map_symbol_filenames q ob fn data need) ())"
| "qf_dispatch Q w ob (Q_find_compunit_symtab_by_address a) =
     map_sum id QR_cust (qf_call Q w ob (\<lambda>q. qsf_find_compunit_symtab_by_address q ob a) None)"
| "qf_dispatch Q w ob (Q_lookup_global_symbol_language name domain) =
     map_sum id (\<lambda>(l, found). QR_lang l found)
       (qf_call Q w ob (\<lambda>q. qsf_lookup_global_symbol_language q ob name domain) (language_unknown, False))"

text \<open>Which methods print a line before the call, which print one with the result after
  it, and what a method returns for an objfile without a query object.\<close>

primrec prints_before :: "qf_query \<Rightarrow> bool" where
  "prints_before Q_has_partial_symbols = False"
| "prints_before Q_find_last_source_symtab = True"
| "prints_before Q_forget_cached_source_info = True"
| "prints_before (Q_map_symtabs_matching_filename n r c) = True"
| "prints_before (Q_lookup_symbol k n d) = True"
| "prints_before (Q_print_stats b) = True"
| "prints_before Q_dump = True"
| "prints_before (Q_expand_symtabs_for_function f) = True"
| "prints_before Q_expand_all_symtabs = True"
| "prints_before (Q_expand_symtabs_with_fullname f) = True"
| "prints_before (Q_map_matching_symbols n d g c o') = True"
| "prints_before (Q_expand_symtabs_matching f l s e k) = True"
| "prints_before (Q_find_pc_sect_compunit_symtab m p s wr) = True"
| "prints_before (Q_map_symbol_filenames f d n) = True"
| "prints_before (Q_find_compunit_symtab_by_address a) = True"
| "prints_before (Q_lookup_global_symbol_language n d) = False"

primrec prints_after :: "qf_query \<Rightarrow> bool" where
  "prints_after Q_has_partial_symbols = True"
| "prints_after Q_find_last_source_symtab = True"
| "prints_after Q_forget_cached_source_info = False"
| "prints_after (Q_map_symtabs_matching_filename n r c) = True"
| "prints_after (Q_lookup_symbol k n d) = True"
| "prints_after (Q_print_stats b) = False"
| "prints_after Q_dump = False"
| "prints_after (Q_expand_symtabs_for_function f) = False"
| "prints_after Q_expand_all_symtabs = False"
| "prints_after (Q_expand_symtabs_with_fullname f) = False"
| "prints_after (Q_map_matching_symbols n d g c o') = False"
| "prints_after (Q_expand_symtabs_matching f l s e k) = False"
| "prints_after (Q_find_pc_sect_compunit_symtab m p s wr) = True"
| "prints_after (Q_map_symbol_filenames f d n) = False"
| "prints_after (Q_find_compunit_symtab_by_address a) = True"
| "prints_after (Q_lookup_global_symbol_language n d) = False"

primrec query_default :: "qf_query \<Rightarrow> qf_ret" where
  "query_default Q_has_partial_symbols = QR_bool False"
| "query_default Q_find_last_source_symtab = QR_symtab None"
| "query_default Q_forget_cached_source_info = QR_void"
| "query_default (Q_map_symtabs_matching_filename n r c) = QR_bool False"
| "query_default (Q_lookup_symbol k n d) = QR_cust None"
| "query_default (Q_print_stats b) = QR_void"
| "query_default Q_dump = QR_void"
| "query_default (Q_expand_symtabs_for_function f) = QR_void"
| "query_default Q_expand_all_symtabs = QR_void"
| "query_default (Q_expand_symtabs_with_fullname f) = QR_void"
| "query_default (Q_map_matching_symbols n d g c o') = QR_void"
| "query_default (Q_expand_symtabs_matching f l s e k) = QR_void"
| "query_default (Q_find_pc_sect_compunit_symtab m p s wr) = QR_cust None"
| "query_default (Q_map_symbol_filenames f d n) = QR_void"
| "query_default (Q_find_compunit_symtab_by_address a) = QR_cust None"
| "query_default (Q_lookup_global_symbol_language n d) = QR_lang language_unknown False"

section \<open>Lemmas\<close>

lemma dbg_after_Some:
  "dbg_after w f (Some ([], x)) =
     Some (case x of Inl e \<Rightarrow> [] | Inr v \<Rightarrow> if debug_symfile w then [f v] else [], x)"
  by (cases x) (simp_all add: dbg_after_def log_after_def)

lemma dbg_before_Some:
  "dbg_before w l (Some (tr, x)) = Some (if debug_symfile w then l # tr else tr, x)"
  by (simp add: dbg_before_def log_before_def)

lemma map_traced_Some: "map_traced f (Some (tr, x)) = Some (tr, map_sum id f x)"
  by (simp add: map_traced_def)

lemmas query_defs = objfile_has_partial_symbols_def objfile_find_last_source_symtab_def
  objfile_forget_cached_source_info_def objfile_map_symtabs_matching_filename_def
  objfile_lookup_symbol_def objfile_print_stats_def objfile_dump_def
  objfile_expand_symtabs_for_function_def objfile_expand_all_symtabs_def
  objfile_expand_symtabs_with_fullname_def objfile_map_matching_symbols_def
  objfile_expand_symtabs_matching_def objfile_find_pc_sect_compunit_symtab_def
  objfile_map_symbol_filenames_def objfile_find_compunit_symtab_by_address_def
  objfile_lookup_global_symbol_language_def

lemmas query_trace_simps = dbg_after_Some dbg_before_Some map_traced_Some

lemma bit_16_word32: "bit (16::32 word) n \<longleftrightarrow> n = 4"
proof -
  have "(16::32 word) = 2 ^ 4" by simp
  then show ?thesis by (auto simp only: bit_exp_iff) simp
qed

lemma psymtabs_read_bit: "(x AND OBJF_PSYMTABS_READ = 0) \<longleftrightarrow> \<not> bit x 4"
  unfolding OBJF_PSYMTABS_READ_def
proof
  assume "x AND 0x10 = 0"
  then have "\<not> bit (x AND 16) 4" by simp
  then show "\<not> bit x 4" unfolding bit_and_iff using bit_16_word32 [of 4] by blast
next
  assume n4: "\<not> bit x 4"
  show "x AND 0x10 = 0"
  proof (rule bit_word_eqI)
    fix n
    have "\<not> (bit x n \<and> bit (16::32 word) n)" using n4 bit_16_word32 [of n] by blast
    then show "bit (x AND 0x10) n = bit 0 n" unfolding bit_and_iff by simp
  qed
qed

lemma objfile_query_result: "map_option snd (objfile_query Q w ob q) = Some (qf_dispatch Q w ob q)"
  by (cases q) (simp_all add: query_defs query_trace_simps)

lemma qf_dispatch_no_qf:
  "qf (objfile_of w ob) = None \<Longrightarrow> qf_dispatch Q w ob q = Inr (query_default q)"
  by (cases q) (simp_all add: qf_call_def partial_symbols_retval_def)

section \<open>Properties of the query forwarding\<close>

text \<open>C12: every query method returns what the plain forwarding returns, and the trace it
  writes is: nothing when logging is off; when it is on, one line before the call for every
  method but \<^verbatim>\<open>has_partial_symbols\<close> and \<^verbatim>\<open>lookup_global_symbol_language\<close>, and one
  line with the result after a call that returns, for the methods with a result other than
  \<^verbatim>\<open>lookup_global_symbol_language\<close>.\<close>

theorem objfile_query_trace_shape:
  "\<exists>tr. objfile_query Q w ob q = Some (tr, qf_dispatch Q w ob q) \<and>
     length tr = (if debug_symfile w
                  then (if prints_before q then 1 else 0) +
                       (if prints_after q \<and> \<not> isl (qf_dispatch Q w ob q) then 1 else 0)
                  else 0)"
  by (cases q) (auto simp: query_defs query_trace_simps split: sum.splits)

text \<open>C13: on an objfile without a query object every method returns normally, with the
  default of the method (\<^verbatim>\<open>false\<close>, \<^verbatim>\<open>NULL\<close>, nothing, or
  \<^verbatim>\<open>language_unknown\<close> with \<^verbatim>\<open>*symbol_found_p = false\<close>).\<close>

theorem objfile_query_without_qf:
  assumes "qf (objfile_of w ob) = None"
  shows "\<exists>tr. objfile_query Q w ob q = Some (tr, Inr (query_default q))"
  using objfile_query_result [of Q w ob q] qf_dispatch_no_qf [OF assms, of Q q] by auto

text \<open>C14: \<^verbatim>\<open>has_partial_symbols\<close> with a query object: once bit 4 of the flags
  (\<^verbatim>\<open>OBJF_PSYMTABS_READ\<close>) is set it answers \<^verbatim>\<open>has_symbols\<close>; before, it answers
  true without asking \<^verbatim>\<open>has_symbols\<close> when the reader can read the symbols lazily, and
  an error of either query is the method's error.\<close>

theorem has_partial_symbols_value:
  assumes "qf (objfile_of w ob) = Some i"
  shows "partial_symbols_retval Q w ob =
     (if bit (objfile_flags (objfile_of w ob)) 4 then qsf_has_symbols (Q i) ob
      else (case qsf_can_lazily_read_symbols (Q i) of
              Inl e \<Rightarrow> Inl e
            | Inr b \<Rightarrow> if b then Inr True else qsf_has_symbols (Q i) ob))"
  using assms
  by (simp add: partial_symbols_retval_def qf_call_def psymtabs_read_bit split: sum.splits bool.splits)

end
