(* ===== verification/Symfile_Trace.thy ===== *)
theory Symfile_Trace
  imports Symfile_Proxies
begin

text \<open>
  What the trace lines of \<^verbatim>\<open>debug_sym_read\<close> (lines 411--421) carry.  The flags are a
  32-bit \<^verbatim>\<open>symfile_add_flags\<close> printed with \<^verbatim>\<open>%x\<close> after \<^verbatim>\<open>0x\<close>: at most
  eight digits, so the line has a bounded length beyond the objfile's name, and a reader of
  the log recovers the flags from the line (\<open>read_line_flags\<close> reads the hexadecimal digits
  before the closing parenthesis), whatever the objfile's name contains.
\<close>

section \<open>Reading a trace line\<close>

text \<open>The flags a reader of the log reads from an \<^verbatim>\<open>sf->sym_read\<close> line: the digits
  before its last character, read as hexadecimal.\<close>

definition read_line_flags :: "string \<Rightarrow> symfile_add_flags" where
  "read_line_flags l = of_nat (hex_value (rev (takeWhile is_hex_char (drop 1 (rev l)))))"

section \<open>Lemmas\<close>

lemma debug_sym_read_Some:
  assumes "debug_sym_read call w ob fl = Some (ls, r)"
  shows "\<exists>rest. ls = (''sf->sym_read ('' @ objfile_debug_name w ob @ '', 0x'' @ hex_digits (unat fl) @ '')'') # rest"
  using assms by (auto simp: debug_sym_read_def log_before_def)

lemma takeWhile_hex_digits:
  assumes "\<not> is_hex_char c"
  shows " takeWhile is_hex_char (rev (hex_digits n) @ c # s) = rev (hex_digits n)"
proof -
  have h: "\<And>x. x \<in> set (rev (hex_digits n)) \<Longrightarrow> is_hex_char x"
    using hex_digits_hex_chars [of n] by (simp add: list_all_iff)
  show ?thesis by (subst takeWhile_append2 [OF h]) (simp_all add: assms)
qed

lemma flags_line_parse:
  "read_line_flags (p @ ''x'' @ hex_digits (unat fl) @ '')'') = fl"
proof -
  have nx: "\<not> is_hex_char CHR ''x''" by (simp add: is_hex_char_def)
  show ?thesis
    by (simp add: read_line_flags_def takeWhile_hex_digits [OF nx] hex_value_digits)
qed

section \<open>Properties of the trace line\<close>

text \<open>C19: the line \<^verbatim>\<open>debug_sym_read\<close> writes is the first of its trace, and its length
  exceeds the objfile's name by at least 20 and at most 27 characters: the 32-bit flags take
  one to eight hexadecimal digits.\<close>

theorem debug_sym_read_line_bounds:
  assumes "debug_sym_read call w ob fl = Some (ls, r)"
  shows "\<exists>l rest. ls = l # rest \<and> length (objfile_debug_name w ob) + 20 \<le> length l \<and>
           length l \<le> length (objfile_debug_name w ob) + 27"
proof -
  have "length (hex_digits (unat fl)) \<le> 8" using hex_digits_unat_len [of fl] by simp
  moreover have "1 \<le> length (hex_digits (unat fl))" by (simp add: Suc_le_eq)
  ultimately show ?thesis using debug_sym_read_Some [OF assms] by auto
qed

text \<open>C20: the flags printed in the line of \<^verbatim>\<open>debug_sym_read\<close> read back as the flags the
  call was given: printing with \<^verbatim>\<open>0x%x\<close> and reading the digits back is a round trip
  for every 32-bit value.\<close>

theorem debug_sym_read_line_roundtrip:
  assumes "debug_sym_read call w ob fl = Some (l # ls, r)"
  shows "read_line_flags l = fl"
proof -
  from debug_sym_read_Some [OF assms]
  have "l = (''sf->sym_read ('' @ objfile_debug_name w ob @ '', 0'') @ ''x'' @ hex_digits (unat fl) @ '')''"
    by simp
  then show ?thesis by (simp only: flags_line_parse)
qed

end
