(* ===== verification/Intl_Configure.thy ===== *)
theory Intl_Configure
  imports Symfile_Prelude
begin

text \<open>
  Lines 627--724 of \<^verbatim>\<open>src/gdb/symfile-debug.c\<close> are not C: they are the
  \<^verbatim>\<open>configure.ac\<close> of gdb's intl directory, appended to the file.  This theory models
  what the script computes: the \<^verbatim>\<open>AC_DEFINE\<close>s it emits and the values of the shell
  variables it substitutes (\<^verbatim>\<open>AC_SUBST\<close>) into \<^verbatim>\<open>Makefile\<close> and
  \<^verbatim>\<open>config.intl\<close>.  The state is the shell's variables, each set to a string or unset
  (an unset variable expands to the empty string, and \<^verbatim>\<open>${x+set}\<close> tells the two apart), the defines, the substituted names and the messages printed.  What the
  external macros and programs produce is an input (\<open>configure_input\<close>): the directory
  \<^verbatim>\<open>pwd\<close> prints for \<^verbatim>\<open>$ac_aux_dir\<close>, which programs are on the \<^verbatim>\<open>PATH\<close>, the
  \<^verbatim>\<open>--enable\<close>/\<^verbatim>\<open>--disable\<close> options given, the variables \<^verbatim>\<open>AM_GNU_GETTEXT\<close>
  sets, the version the \<^verbatim>\<open>sed\<close> pipeline extracts from \<^verbatim>\<open>$INTLBISON --version\<close>,
  and the flag \<^verbatim>\<open>GCC_PICFLAG\<close> computes.  Each block of the script is one function on
  the state, composed in the order of the script by \<open>intl_configure\<close>; the shell's
  field splitting and \<^verbatim>\<open>echo\<close> are \<open>shell_words\<close> and \<open>echo_unquoted\<close>.
\<close>

section \<open>Inputs and state\<close>

record configure_input =
  ci_env :: "string \<rightharpoonup> string"
  ci_aux_dir_pwd :: string
  ci_in_path :: "string \<Rightarrow> bool"
  ci_enable_maintainer_mode :: "string option"
  ci_enable_host_shared :: "string option"
  ci_enable_host_pie :: "string option"
  ci_USE_INCLUDED_LIBINTL :: string
  ci_LIBINTL :: string
  ci_INTLBISON :: string
  ci_bison_version :: string
  ci_gcc_picflag :: string

record configure_state =
  cs_vars :: "string \<rightharpoonup> string"
  cs_defines :: "(string \<times> string) list"
  cs_substs :: "string list"
  cs_msgs :: "string list"

text \<open>\<^verbatim>\<open>$x\<close>: the value of a set variable, the empty string for an unset one.\<close>

definition shell_value :: "string option \<Rightarrow> string" where
  "shell_value v = (case v of None \<Rightarrow> [] | Some x \<Rightarrow> x)"

definition get_var :: "configure_state \<Rightarrow> string \<Rightarrow> string" where
  "get_var s x = shell_value (cs_vars s x)"

text \<open>\<^verbatim>\<open>test "${x+set}" = set\<close>: the variable is set, possibly to the empty string.\<close>

definition var_is_set :: "configure_state \<Rightarrow> string \<Rightarrow> bool" where
  "var_is_set s x = (cs_vars s x \<noteq> None)"

definition set_var :: "string \<Rightarrow> string \<Rightarrow> configure_state \<Rightarrow> configure_state" where
  "set_var x v s = s\<lparr>cs_vars := (cs_vars s)(x \<mapsto> v)\<rparr>"

definition ac_define :: "string \<Rightarrow> string \<Rightarrow> configure_state \<Rightarrow> configure_state" where
  "ac_define n v s = s\<lparr>cs_defines := cs_defines s @ [(n, v)]\<rparr>"

definition ac_subst :: "string \<Rightarrow> configure_state \<Rightarrow> configure_state" where
  "ac_subst x s = s\<lparr>cs_substs := cs_substs s @ [x]\<rparr>"

definition ac_msg :: "string \<Rightarrow> configure_state \<Rightarrow> configure_state" where
  "ac_msg m s = s\<lparr>cs_msgs := cs_msgs s @ [m]\<rparr>"

text \<open>What \<^verbatim>\<open>AC_OUTPUT\<close> substitutes for \<^verbatim>\<open>@x@\<close>: the final value of a substituted
  variable.\<close>

text \<open>\<^verbatim>\<open>AC_ARG_ENABLE(name, help)\<close> with no action: \<^verbatim>\<open>enable_name\<close> is the
  option's value when it is given and keeps its value otherwise.\<close>

definition ac_arg_enable :: "string option \<Rightarrow> string \<Rightarrow> configure_state \<Rightarrow> configure_state" where
  "ac_arg_enable opt x s = (case opt of None \<Rightarrow> s | Some v \<Rightarrow> set_var x v s)"

definition subst_value :: "configure_state \<Rightarrow> string \<Rightarrow> string option" where
  "subst_value s x = (if x \<in> set (cs_substs s) then Some (get_var s x) else None)"

section \<open>Shell and sed\<close>

text \<open>\<^verbatim>\<open>echo $X\<close> with \<^verbatim>\<open>X\<close> unquoted: the words of the value (split at blanks,
  tabs and newlines) joined by single spaces.\<close>

definition is_ifs :: "char \<Rightarrow> bool" where
  "is_ifs c = (c = CHR '' '' \<or> c = CHR 0x09 \<or> c = CHR 0x0A)"

fun shell_words :: "string \<Rightarrow> string \<Rightarrow> string list" where
  "shell_words acc [] = (if acc = [] then [] else [rev acc])"
| "shell_words acc (c # cs) =
     (if is_ifs c then (if acc = [] then shell_words [] cs else rev acc # shell_words [] cs)
      else shell_words (c # acc) cs)"

fun join_words :: "string list \<Rightarrow> string" where
  "join_words [] = []"
| "join_words [x] = x"
| "join_words (x # xs) = x @ '' '' @ join_words xs"

definition echo_unquoted :: "string \<Rightarrow> string" where
  "echo_unquoted v = join_words (shell_words [] v)"

text \<open>\<^verbatim>\<open>test x$v = lit\<close> with \<^verbatim>\<open>v\<close> unquoted: the test is true when the
  expansion is the one word \<open>lit\<close>; more words make \<^verbatim>\<open>test\<close> fail.\<close>

definition test_unquoted_eq :: "string \<Rightarrow> string \<Rightarrow> bool" where
  "test_unquoted_eq v lit = (shell_words [] v = [lit])"

text \<open>A \<^verbatim>\<open>sed\<close> command \<^verbatim>\<open>s,pat,rep,\<close> without the \<^verbatim>\<open>g\<close> flag on one line,
  for a pattern with no special characters: the first occurrence is replaced.\<close>

fun sed_s_first :: "string \<Rightarrow> string \<Rightarrow> string \<Rightarrow> string" where
  "sed_s_first pat rep [] = (if pat = [] then rep else [])"
| "sed_s_first pat rep (c # cs) =
     (if take (length pat) (c # cs) = pat then rep @ drop (length pat) (c # cs)
      else c # sed_s_first pat rep cs)"

text \<open>The \<^verbatim>\<open>case\<close> pattern \<^verbatim>\<open>[3-9].*\<close> (line 689): a digit from 3 to 9, a literal
  dot, anything.\<close>

fun bison3_pattern :: "string \<Rightarrow> bool" where
  "bison3_pattern (c # d # rest) = (c \<in> set ''3456789'' \<and> d = CHR ''.'')"
| "bison3_pattern _ = False"

section \<open>The script\<close>

text \<open>Lines 627--633: \<^verbatim>\<open>AC_INIT\<close> and the gettext macros; \<^verbatim>\<open>AM_GNU_GETTEXT\<close>
  sets and substitutes \<^verbatim>\<open>USE_INCLUDED_LIBINTL\<close>, \<^verbatim>\<open>LIBINTL\<close> and
  \<^verbatim>\<open>INTLBISON\<close>.\<close>

definition configure_init :: "configure_input \<Rightarrow> configure_state" where
  "configure_init ci =
     \<lparr>cs_vars = (ci_env ci)(''USE_INCLUDED_LIBINTL'' \<mapsto> ci_USE_INCLUDED_LIBINTL ci,
                          ''LIBINTL'' \<mapsto> ci_LIBINTL ci, ''INTLBISON'' \<mapsto> ci_INTLBISON ci),
      cs_defines = [], cs_substs = [''USE_INCLUDED_LIBINTL'', ''LIBINTL'', ''INTLBISON''], cs_msgs = []\<rparr>"

text \<open>Lines 635--644.\<close>

definition intl_defines :: "configure_state \<Rightarrow> configure_state" where
  "intl_defines s =
     ac_define ''relocate'' ''libintl_relocate''
      (ac_define ''set_relocation_prefix'' ''libintl_set_relocation_prefix''
       (ac_define ''NO_XMALLOC'' ''1''
        (ac_define ''ENABLE_RELOCATABLE'' ''1''
         (ac_define ''DEPENDS_ON_LIBICONV'' ''1''
          (ac_define ''IN_LIBRARY'' ''1''
           (ac_define ''IN_LIBINTL'' ''1'' s))))))"

text \<open>\<^verbatim>\<open>AC_CHECK_PROGS(VAR, prog, value-if-not-found)\<close>: a value the user already gave
  is kept; otherwise the program if it is on the \<^verbatim>\<open>PATH\<close>, else the default.\<close>

definition ac_check_progs :: "configure_input \<Rightarrow> string \<Rightarrow> string \<Rightarrow> string \<Rightarrow> configure_state \<Rightarrow> configure_state" where
  "ac_check_progs ci var prog dflt s =
     ac_subst var
       (if get_var s var \<noteq> [] then s
        else set_var var (if ci_in_path ci prog then prog else dflt) s)"

text \<open>Lines 646--649.\<close>

definition check_maintainer_tools :: "configure_input \<Rightarrow> configure_state \<Rightarrow> configure_state" where
  "check_maintainer_tools ci s =
     (let s = set_var ''MISSING'' (ci_aux_dir_pwd ci @ ''/missing'') s;
          m = get_var s ''MISSING'';
          s = ac_check_progs ci ''ACLOCAL'' ''aclocal'' (m @ '' aclocal'') s;
          s = ac_check_progs ci ''AUTOCONF'' ''autoconf'' (m @ '' autoconf'') s
      in ac_check_progs ci ''AUTOHEADER'' ''autoheader'' (m @ '' autoheader'') s)"

text \<open>Lines 651--659: \<^verbatim>\<open>--enable-maintainer-mode\<close>.  The option sets
  \<^verbatim>\<open>enable_maintainer_mode\<close>; \<^verbatim>\<open>AC_ARG_ENABLE\<close> runs its
  action-if-not-given, \<^verbatim>\<open>enable_maintainer_mode=no\<close>, only when the variable is
  unset (\<^verbatim>\<open>test "${enable_maintainer_mode+set}" = set\<close> in the generated script),
  so a value inherited from the environment is kept.\<close>

definition maintainer_mode :: "configure_input \<Rightarrow> configure_state \<Rightarrow> configure_state" where
  "maintainer_mode ci s =
     (let s = ac_arg_enable (ci_enable_maintainer_mode ci) ''enable_maintainer_mode'' s;
          s = (if var_is_set s ''enable_maintainer_mode'' then s
               else set_var ''enable_maintainer_mode'' ''no'' s);
          s = (if ''x'' @ get_var s ''enable_maintainer_mode'' = ''xno'' then set_var ''MAINT'' ''#'' s
               else set_var ''MAINT'' [] s)
      in ac_subst ''MAINT'' s)"

text \<open>Lines 661--672: the variables for \<^verbatim>\<open>config.intl\<close>, and the rewriting of
  \<^verbatim>\<open>LIBINTL\<close> when the included libintl is used.\<close>

definition libintl_config :: "configure_state \<Rightarrow> configure_state" where
  "libintl_config s =
     (let s = ac_subst ''INCINTL'' (ac_subst ''LIBINTL_DEP'' s);
          s = set_var ''INCINTL'' [] (set_var ''LIBINTL_DEP'' [] s)
      in if get_var s ''USE_INCLUDED_LIBINTL'' = ''yes''
         then set_var ''INCINTL'' ''-I${top_builddir}/../intl''
               (set_var ''LIBINTL_DEP'' ''${top_builddir}/../intl/libintl.a''
                 (set_var ''LIBINTL''
                   (sed_s_first ''../intl/libintl.a'' ''../intl -lintl''
                     (sed_s_first ''${top_builddir}'' ''-L${top_builddir}/..''
                       (echo_unquoted (get_var s ''LIBINTL'')))) s))
         else s)"

text \<open>Lines 674--678: \<^verbatim>\<open>GCC_PICFLAG\<close>, whose comment says intl is always compiled
  position-independent.\<close>

definition picflag_default :: "configure_input \<Rightarrow> configure_state \<Rightarrow> configure_state" where
  "picflag_default ci s = ac_subst ''PICFLAG'' (set_var ''PICFLAG'' (ci_gcc_picflag ci) s)"

text \<open>Lines 680--700: the check for bison 3 or later.\<close>

definition bison3_check :: "configure_input \<Rightarrow> configure_state \<Rightarrow> configure_state" where
  "bison3_check ci s =
     (let s = set_var ''BISON3_NO'' [] (set_var ''BISON3_YES'' ''#'' s);
          s = (if get_var s ''INTLBISON'' \<noteq> '':''
               then (let v = ci_bison_version ci;
                         b3 = bison3_pattern v;
                         s = ac_msg ''checking bison 3 or later'' s;
                         s = ac_msg (v @ (if b3 then '', bison3'' else '', old'')) s
                     in if b3 then set_var ''BISON3_NO'' ''#'' (set_var ''BISON3_YES'' [] s) else s)
               else s)
      in ac_subst ''BISON3_NO'' (ac_subst ''BISON3_YES'' s))"

text \<open>Lines 702--713: \<^verbatim>\<open>--enable-host-shared\<close> and \<^verbatim>\<open>--enable-host-pie\<close>, with no
  action.\<close>

definition host_options :: "configure_input \<Rightarrow> configure_state \<Rightarrow> configure_state" where
  "host_options ci s =
     ac_subst ''enable_host_pie'' (ac_arg_enable (ci_enable_host_pie ci) ''enable_host_pie''
       (ac_subst ''enable_host_shared'' (ac_arg_enable (ci_enable_host_shared ci) ''enable_host_shared'' s)))"

text \<open>Lines 714--721: \<^verbatim>\<open>PICFLAG\<close> from the two options.\<close>

definition picflag_final :: "configure_state \<Rightarrow> configure_state" where
  "picflag_final s =
     ac_subst ''PICFLAG''
       (if test_unquoted_eq (''x'' @ get_var s ''enable_host_shared'') ''xyes'' then set_var ''PICFLAG'' ''-fPIC'' s
        else if test_unquoted_eq (''x'' @ get_var s ''enable_host_pie'') ''xyes'' then set_var ''PICFLAG'' ''-fPIE'' s
        else set_var ''PICFLAG'' [] s)"

text \<open>The script, lines 627--724 (\<^verbatim>\<open>AC_CONFIG_FILES\<close> and \<^verbatim>\<open>AC_OUTPUT\<close>
  write the substituted values out: \<open>subst_value\<close>).\<close>

definition intl_configure :: "configure_input \<Rightarrow> configure_state" where
  "intl_configure ci =
     picflag_final (host_options ci (bison3_check ci (picflag_default ci
       (libintl_config (maintainer_mode ci (check_maintainer_tools ci
         (intl_defines (configure_init ci))))))))"

text \<open>The names the script substitutes, in order.\<close>

definition intl_substituted :: "string list" where
  "intl_substituted = [''USE_INCLUDED_LIBINTL'', ''LIBINTL'', ''INTLBISON'', ''ACLOCAL'', ''AUTOCONF'',
     ''AUTOHEADER'', ''MAINT'', ''LIBINTL_DEP'', ''INCINTL'', ''PICFLAG'', ''BISON3_YES'', ''BISON3_NO'',
     ''enable_host_shared'', ''enable_host_pie'', ''PICFLAG'']"

text \<open>A word of the shell: non-empty, with no blank, tab or newline.\<close>

definition shell_word :: "string \<Rightarrow> bool" where
  "shell_word x = (x \<noteq> [] \<and> \<not> list_ex is_ifs x)"

section \<open>Lemmas\<close>

lemma shell_value_simps [simp]: "shell_value None = []" "shell_value (Some v) = v"
  by (simp_all add: shell_value_def)

lemma get_var_set_var [simp]: "get_var (set_var x v s) y = (if y = x then v else get_var s y)"
  by (simp add: get_var_def set_var_def)

lemma var_is_set_frame [simp]:
  "var_is_set (set_var x v s) y = (y = x \<or> var_is_set s y)"
  "var_is_set (ac_subst x s) = var_is_set s" "var_is_set (ac_define n v s) = var_is_set s"
  "var_is_set (ac_msg m s) = var_is_set s"
  by (simp_all add: var_is_set_def set_var_def ac_subst_def ac_define_def ac_msg_def fun_eq_iff)

lemma get_var_frame [simp]:
  "get_var (ac_subst x s) = get_var s" "get_var (ac_define n v s) = get_var s" "get_var (ac_msg m s) = get_var s"
  by (simp_all add: get_var_def ac_subst_def ac_define_def ac_msg_def fun_eq_iff)

lemma substs_frame [simp]:
  "cs_substs (set_var x v s) = cs_substs s" "cs_substs (ac_define n v s) = cs_substs s"
  "cs_substs (ac_msg m s) = cs_substs s" "cs_substs (ac_subst x s) = cs_substs s @ [x]"
  by (simp_all add: set_var_def ac_define_def ac_msg_def ac_subst_def)

lemma var_is_set_ac_arg_enable [simp]:
  "var_is_set (ac_arg_enable opt x s) y = (y = x \<and> opt \<noteq> None \<or> var_is_set s y)"
  by (simp add: ac_arg_enable_def split: option.split)

lemma subst_value_ac_subst [simp]: "subst_value (ac_subst x s) x = Some (get_var s x)"
  by (simp add: subst_value_def)

lemma get_var_ac_arg_enable [simp]:
  "get_var (ac_arg_enable opt x s) y = (if y = x then (case opt of None \<Rightarrow> get_var s x | Some v \<Rightarrow> v) else get_var s y)"
  by (simp add: ac_arg_enable_def split: option.splits)

lemma picflag_final_value:
  "subst_value (picflag_final s) ''PICFLAG'' =
     Some (if test_unquoted_eq (''x'' @ get_var s ''enable_host_shared'') ''xyes'' then ''-fPIC''
           else if test_unquoted_eq (''x'' @ get_var s ''enable_host_pie'') ''xyes'' then ''-fPIE'' else '''')"
  by (simp add: picflag_final_def)

lemma host_vars:
  "get_var (host_options ci s) ''enable_host_shared'' =
     (case ci_enable_host_shared ci of None \<Rightarrow> get_var s ''enable_host_shared'' | Some v \<Rightarrow> v)"
  "get_var (host_options ci s) ''enable_host_pie'' =
     (case ci_enable_host_pie ci of None \<Rightarrow> get_var s ''enable_host_pie'' | Some v \<Rightarrow> v)"
  by (simp_all add: host_options_def split: option.splits)

text \<open>Which variables each block writes: every other one keeps its value.\<close>

lemma configure_init_var:
  "x \<notin> {''USE_INCLUDED_LIBINTL'', ''LIBINTL'', ''INTLBISON''} \<Longrightarrow>
     get_var (configure_init ci) x = shell_value (ci_env ci x)"
  by (simp add: configure_init_def get_var_def)

text \<open>Which variables are set before \<^verbatim>\<open>AC_ARG_ENABLE(maintainer-mode)\<close>: those
  of the environment, the ones \<^verbatim>\<open>AM_GNU_GETTEXT\<close> sets and the ones the tool checks set.\<close>

lemma set_before_maintainer_mode:
  "x \<notin> {''USE_INCLUDED_LIBINTL'', ''LIBINTL'', ''INTLBISON'', ''MISSING'', ''ACLOCAL'', ''AUTOCONF'', ''AUTOHEADER''} \<Longrightarrow>
     var_is_set (check_maintainer_tools ci (intl_defines (configure_init ci))) x = (ci_env ci x \<noteq> None)"
  by (simp add: check_maintainer_tools_def ac_check_progs_def intl_defines_def Let_def)
     (simp add: var_is_set_def configure_init_def)

lemma intl_defines_var [simp]: "get_var (intl_defines s) = get_var s"
  by (simp add: intl_defines_def)

lemma check_maintainer_tools_var:
  "x \<notin> {''MISSING'', ''ACLOCAL'', ''AUTOCONF'', ''AUTOHEADER''} \<Longrightarrow>
     get_var (check_maintainer_tools ci s) x = get_var s x"
  by (simp add: check_maintainer_tools_def ac_check_progs_def Let_def split: if_split)

lemma maintainer_mode_var:
  "x \<notin> {''enable_maintainer_mode'', ''MAINT''} \<Longrightarrow> get_var (maintainer_mode ci s) x = get_var s x"
  by (simp add: maintainer_mode_def Let_def split: if_split)

lemma libintl_config_var:
  "x \<notin> {''INCINTL'', ''LIBINTL_DEP'', ''LIBINTL''} \<Longrightarrow> get_var (libintl_config s) x = get_var s x"
  by (simp add: libintl_config_def Let_def split: if_split)

lemma picflag_default_var:
  "x \<noteq> ''PICFLAG'' \<Longrightarrow> get_var (picflag_default ci s) x = get_var s x"
  by (simp add: picflag_default_def)

lemma bison3_check_var:
  "x \<notin> {''BISON3_YES'', ''BISON3_NO''} \<Longrightarrow> get_var (bison3_check ci s) x = get_var s x"
  by (simp add: bison3_check_def Let_def split: if_split)

lemma host_options_var:
  "x \<notin> {''enable_host_shared'', ''enable_host_pie''} \<Longrightarrow> get_var (host_options ci s) x = get_var s x"
  by (simp add: host_options_def)

lemma picflag_final_var: "x \<noteq> ''PICFLAG'' \<Longrightarrow> get_var (picflag_final s) x = get_var s x"
  by (simp add: picflag_final_def split: if_split)

lemmas configure_block_vars = configure_init_var check_maintainer_tools_var maintainer_mode_var
  libintl_config_var picflag_default_var bison3_check_var host_options_var picflag_final_var

text \<open>Each block substitutes the same names on every branch.\<close>

lemma block_substs [simp]:
  "cs_substs (configure_init ci) = [''USE_INCLUDED_LIBINTL'', ''LIBINTL'', ''INTLBISON'']"
  "cs_substs (intl_defines s) = cs_substs s"
  "cs_substs (check_maintainer_tools ci s) = cs_substs s @ [''ACLOCAL'', ''AUTOCONF'', ''AUTOHEADER'']"
  "cs_substs (maintainer_mode ci s) = cs_substs s @ [''MAINT'']"
  "cs_substs (libintl_config s) = cs_substs s @ [''LIBINTL_DEP'', ''INCINTL'']"
  "cs_substs (picflag_default ci s) = cs_substs s @ [''PICFLAG'']"
  "cs_substs (bison3_check ci s) = cs_substs s @ [''BISON3_YES'', ''BISON3_NO'']"
  "cs_substs (host_options ci s) = cs_substs s @ [''enable_host_shared'', ''enable_host_pie'']"
  "cs_substs (picflag_final s) = cs_substs s @ [''PICFLAG'']"
  by (simp_all add: configure_init_def intl_defines_def check_maintainer_tools_def ac_check_progs_def
      maintainer_mode_def libintl_config_def picflag_default_def bison3_check_def host_options_def
      picflag_final_def ac_arg_enable_def Let_def split: if_split option.split)

lemma intl_configure_substs: "cs_substs (intl_configure ci) = intl_substituted"
  by (simp add: intl_configure_def intl_substituted_def)

lemma subst_value_intl:
  "subst_value (intl_configure ci) x =
     (if x \<in> set intl_substituted then Some (get_var (intl_configure ci) x) else None)"
  by (simp add: subst_value_def intl_configure_substs)

lemma intl_vars_host:
  "get_var (intl_configure ci) ''enable_host_shared'' =
     (case ci_enable_host_shared ci of None \<Rightarrow> shell_value (ci_env ci ''enable_host_shared'') | Some v \<Rightarrow> v)"
  "get_var (intl_configure ci) ''enable_host_pie'' =
     (case ci_enable_host_pie ci of None \<Rightarrow> shell_value (ci_env ci ''enable_host_pie'') | Some v \<Rightarrow> v)"
  by (simp_all add: intl_configure_def picflag_final_var host_vars configure_block_vars split: option.split)

lemma picflag_final_self:
  "get_var (picflag_final s) ''PICFLAG'' =
     (if test_unquoted_eq (''x'' @ get_var (picflag_final s) ''enable_host_shared'') ''xyes'' then ''-fPIC''
      else if test_unquoted_eq (''x'' @ get_var (picflag_final s) ''enable_host_pie'') ''xyes'' then ''-fPIE'' else '''')"
  by (simp add: picflag_final_var) (simp add: picflag_final_def)

lemma intl_picflag:
  "get_var (intl_configure ci) ''PICFLAG'' =
     (if test_unquoted_eq (''x'' @ get_var (intl_configure ci) ''enable_host_shared'') ''xyes'' then ''-fPIC''
      else if test_unquoted_eq (''x'' @ get_var (intl_configure ci) ''enable_host_pie'') ''xyes'' then ''-fPIE'' else '''')"
  unfolding intl_configure_def by (rule picflag_final_self)

lemma configure_init_gettext:
  "get_var (configure_init ci) ''USE_INCLUDED_LIBINTL'' = ci_USE_INCLUDED_LIBINTL ci"
  "get_var (configure_init ci) ''LIBINTL'' = ci_LIBINTL ci"
  "get_var (configure_init ci) ''INTLBISON'' = ci_INTLBISON ci"
  by (simp_all add: configure_init_def get_var_def)

lemma bison3_check_vals:
  "get_var (bison3_check ci s) ''BISON3_YES'' =
     (if get_var s ''INTLBISON'' \<noteq> '':'' \<and> bison3_pattern (ci_bison_version ci) then [] else ''#'')"
  "get_var (bison3_check ci s) ''BISON3_NO'' =
     (if get_var s ''INTLBISON'' \<noteq> '':'' \<and> bison3_pattern (ci_bison_version ci) then ''#'' else [])"
  by (simp_all add: bison3_check_def Let_def)

lemma libintl_config_vals:
  "get_var (libintl_config s) ''LIBINTL'' =
     (if get_var s ''USE_INCLUDED_LIBINTL'' = ''yes''
      then sed_s_first ''../intl/libintl.a'' ''../intl -lintl''
             (sed_s_first ''${top_builddir}'' ''-L${top_builddir}/..'' (echo_unquoted (get_var s ''LIBINTL'')))
      else get_var s ''LIBINTL'')"
  by (simp add: libintl_config_def Let_def)

text \<open>\<^verbatim>\<open>s,pat,rep,\<close> on a line that starts with the pattern, and on a line
  whose first part cannot hold the start of an occurrence.\<close>

lemma sed_s_first_prefix: "pat \<noteq> [] \<Longrightarrow> sed_s_first pat rep (pat @ s) = rep @ s"
  by (cases pat) simp_all

lemma sed_s_first_skip:
  "pat \<noteq> [] \<Longrightarrow> hd pat \<notin> set u \<Longrightarrow> sed_s_first pat rep (u @ s) = u @ sed_s_first pat rep s"
proof (induction u)
  case (Cons c u)
  then have "take (length pat) (c # u @ s) \<noteq> pat" by (cases pat) auto
  with Cons show ?case by simp
qed simp

lemma maintainer_mode_val:
  "get_var (maintainer_mode ci s) ''MAINT'' =
     (if (case ci_enable_maintainer_mode ci of
            None \<Rightarrow> if var_is_set s ''enable_maintainer_mode'' then get_var s ''enable_maintainer_mode'' else ''no''
          | Some v \<Rightarrow> v) = ''no''
      then ''#'' else [])"
  by (simp add: maintainer_mode_def Let_def split: option.split)

lemma check_maintainer_tools_vals:
  "get_var (check_maintainer_tools ci s) ''ACLOCAL'' =
     (if get_var s ''ACLOCAL'' \<noteq> [] then get_var s ''ACLOCAL''
      else if ci_in_path ci ''aclocal'' then ''aclocal'' else ci_aux_dir_pwd ci @ ''/missing aclocal'')"
  by (simp add: check_maintainer_tools_def ac_check_progs_def Let_def)

text \<open>Splitting a list of words joined by single blanks gives the words back.\<close>

lemma shell_words_word:
  "\<not> list_ex is_ifs x \<Longrightarrow> shell_words acc (x @ s) = shell_words (rev x @ acc) s"
  by (induction x arbitrary: acc) simp_all

lemma shell_words_join: "list_all shell_word ws \<Longrightarrow> shell_words [] (join_words ws) = ws"
proof (induction ws rule: join_words.induct)
  case 1
  then show ?case by simp
next
  case (2 x)
  then show ?case using shell_words_word [of x "[]" "[]"] by (simp add: shell_word_def)
next
  case (3 x y ys)
  then have x: "shell_word x" and r: "list_all shell_word (y # ys)" by simp_all
  have sp: "is_ifs CHR '' ''" by (simp add: is_ifs_def)
  from x have "shell_words [] (x @ CHR '' '' # join_words (y # ys)) =
               shell_words (rev x) (CHR '' '' # join_words (y # ys))"
    using shell_words_word [of x "[]"] by (simp add: shell_word_def)
  also have "\<dots> = x # shell_words [] (join_words (y # ys))"
    using x sp by (simp add: shell_word_def)
  finally show ?case using "3.IH" [OF r] by simp
qed

lemma join_words_Cons: "join_words (x # xs) = (if xs = [] then x else x @ '' '' @ join_words xs)"
  by (cases xs) simp_all

text \<open>\<^verbatim>\<open>echo\<close> of a word followed by a blank and more words, or by nothing.\<close>

lemma echo_unquoted_word_tail:
  assumes w: "shell_word w" and t: "t = [] \<or> is_ifs (hd t)"
  shows "echo_unquoted (w @ t) = w @ (if shell_words [] t = [] then [] else CHR '' '' # echo_unquoted t)"
proof -
  have sw: "shell_words [] (w @ t) = shell_words (rev w) t"
    using w shell_words_word [of w "[]" t] by (simp add: shell_word_def)
  show ?thesis
  proof (cases t)
    case Nil
    with w sw show ?thesis by (simp add: echo_unquoted_def shell_word_def)
  next
    case (Cons c cs)
    with t have "is_ifs c" by simp
    with Cons w sw show ?thesis by (simp add: echo_unquoted_def shell_word_def join_words_Cons)
  qed
qed

lemma shell_words_are_words:
  "\<not> list_ex is_ifs acc \<Longrightarrow> list_all shell_word (shell_words acc s)"
  by (induction acc s rule: shell_words.induct) (auto simp: shell_word_def)

text \<open>Only the bison check prints messages.\<close>

lemma msgs_frame [simp]:
  "cs_msgs (set_var x v s) = cs_msgs s" "cs_msgs (ac_define n v s) = cs_msgs s"
  "cs_msgs (ac_subst x s) = cs_msgs s" "cs_msgs (ac_msg m s) = cs_msgs s @ [m]"
  by (simp_all add: set_var_def ac_define_def ac_subst_def ac_msg_def)

lemma block_msgs [simp]:
  "cs_msgs (configure_init ci) = []"
  "cs_msgs (intl_defines s) = cs_msgs s"
  "cs_msgs (check_maintainer_tools ci s) = cs_msgs s"
  "cs_msgs (maintainer_mode ci s) = cs_msgs s"
  "cs_msgs (libintl_config s) = cs_msgs s"
  "cs_msgs (picflag_default ci s) = cs_msgs s"
  "cs_msgs (host_options ci s) = cs_msgs s"
  "cs_msgs (picflag_final s) = cs_msgs s"
  by (simp_all add: configure_init_def intl_defines_def check_maintainer_tools_def ac_check_progs_def
      maintainer_mode_def libintl_config_def picflag_default_def host_options_def ac_arg_enable_def
      picflag_final_def Let_def split: if_split option.split)


section \<open>Properties of the script\<close>

text \<open>C21: the value \<^verbatim>\<open>AC_OUTPUT\<close> substitutes for \<^verbatim>\<open>@PICFLAG@\<close> is
  \<^verbatim>\<open>-fPIC\<close> when \<^verbatim>\<open>enable_host_shared\<close> (the option, or the environment when it is
  not given) expands to the one word \<^verbatim>\<open>yes\<close>, else \<^verbatim>\<open>-fPIE\<close> when
  \<^verbatim>\<open>enable_host_pie\<close> does, else empty (lines 714--721).\<close>

theorem picflag_value:
  "subst_value (intl_configure ci) ''PICFLAG'' =
     Some (if test_unquoted_eq (''x'' @ (case ci_enable_host_shared ci of None \<Rightarrow> shell_value (ci_env ci ''enable_host_shared'') | Some v \<Rightarrow> v)) ''xyes''
           then ''-fPIC''
           else if test_unquoted_eq (''x'' @ (case ci_enable_host_pie ci of None \<Rightarrow> shell_value (ci_env ci ''enable_host_pie'') | Some v \<Rightarrow> v)) ''xyes''
           then ''-fPIE'' else '''')"
  by (simp add: subst_value_intl intl_substituted_def intl_picflag intl_vars_host)

text \<open>C22: \<^verbatim>\<open>@BISON3_YES@\<close> is empty (the bison 3 rules enabled) exactly when
  \<^verbatim>\<open>INTLBISON\<close> is not \<^verbatim>\<open>:\<close> and the version matches \<^verbatim>\<open>[3-9].*\<close>,
  and \<^verbatim>\<open>#\<close> otherwise (lines 680--699).\<close>

theorem bison3_value:
  "subst_value (intl_configure ci) ''BISON3_YES'' =
     Some (if ci_INTLBISON ci \<noteq> '':'' \<and> bison3_pattern (ci_bison_version ci) then '''' else ''#'')"
  unfolding subst_value_intl
  by (simp add: intl_substituted_def) (simp add: intl_configure_def configure_block_vars
      bison3_check_vals configure_init_gettext)

text \<open>C23: \<^verbatim>\<open>AM_GNU_GETTEXT\<close> sets \<^verbatim>\<open>LIBINTL\<close> to the archive
  \<^verbatim>\<open>${top_builddir}/intl/libintl.a\<close>, followed by the words of
  \<^verbatim>\<open>$LIBICONV\<close> if any.  With the included libintl, the \<^verbatim>\<open>echo\<close> and the two
  \<^verbatim>\<open>sed\<close> substitutions of line 669 turn the archive into the pair
  \<^verbatim>\<open>-L${top_builddir}/../intl -lintl\<close> for the sibling directories that read
  \<^verbatim>\<open>config.intl\<close>, keep the other words, and \<^verbatim>\<open>LIBINTL_DEP\<close> and
  \<^verbatim>\<open>INCINTL\<close> name the archive and the headers one level up; otherwise
  \<^verbatim>\<open>LIBINTL\<close> is substituted unchanged and the other two are empty
  (lines 661--672).\<close>

theorem libintl_included_value:
  assumes lib: "ci_LIBINTL ci = ''${top_builddir}/intl/libintl.a'' @ iconv"
    and sep: "iconv = [] \<or> is_ifs (hd iconv)"
  shows "subst_value (intl_configure ci) ''LIBINTL'' =
           Some (if ci_USE_INCLUDED_LIBINTL ci = ''yes''
                 then ''-L${top_builddir}/../intl -lintl'' @
                        (if shell_words [] iconv = [] then [] else CHR '' '' # echo_unquoted iconv)
                 else ci_LIBINTL ci) \<and>
         subst_value (intl_configure ci) ''LIBINTL_DEP'' =
           Some (if ci_USE_INCLUDED_LIBINTL ci = ''yes'' then ''${top_builddir}/../intl/libintl.a'' else []) \<and>
         subst_value (intl_configure ci) ''INCINTL'' =
           Some (if ci_USE_INCLUDED_LIBINTL ci = ''yes'' then ''-I${top_builddir}/../intl'' else [])"
proof -
  have w: "shell_word ''${top_builddir}/intl/libintl.a''" by (simp add: shell_word_def is_ifs_def)
  define T where "T = (if shell_words [] iconv = [] then [] else CHR '' '' # echo_unquoted iconv)"
  have e: "echo_unquoted (ci_LIBINTL ci) = ''${top_builddir}/intl/libintl.a'' @ T"
    unfolding lib T_def by (rule echo_unquoted_word_tail [OF w sep])
  have p1: "sed_s_first ''${top_builddir}'' ''-L${top_builddir}/..'' (''${top_builddir}'' @ ''/intl/libintl.a'' @ T) =
            ''-L${top_builddir}/..'' @ ''/intl/libintl.a'' @ T"
    by (rule sed_s_first_prefix) simp
  have p2: "sed_s_first ''../intl/libintl.a'' ''../intl -lintl'' (''../intl/libintl.a'' @ T) = ''../intl -lintl'' @ T"
    by (rule sed_s_first_prefix) simp
  have rw: "sed_s_first ''../intl/libintl.a'' ''../intl -lintl''
              (sed_s_first ''${top_builddir}'' ''-L${top_builddir}/..''
                 (echo_unquoted (ci_LIBINTL ci))) = ''-L${top_builddir}/../intl -lintl'' @ T"
    using e p1 p2 sed_s_first_skip [of "''../intl/libintl.a''" "''-L${top_builddir}/''" "''../intl -lintl''"
        "''../intl/libintl.a'' @ T"]
    by simp
  let ?s = "maintainer_mode ci (check_maintainer_tools ci (intl_defines (configure_init ci)))"
  have v: "get_var (intl_configure ci) x = get_var (libintl_config ?s) x"
    if "x \<in> {''LIBINTL'', ''LIBINTL_DEP'', ''INCINTL''}" for x
    using that by (auto simp: intl_configure_def configure_block_vars)
  have u: "get_var ?s ''USE_INCLUDED_LIBINTL'' = ci_USE_INCLUDED_LIBINTL ci"
    "get_var ?s ''LIBINTL'' = ci_LIBINTL ci"
    by (simp_all add: configure_block_vars configure_init_gettext)
  have c: "get_var (libintl_config ?s) ''LIBINTL_DEP'' =
             (if ci_USE_INCLUDED_LIBINTL ci = ''yes'' then ''${top_builddir}/../intl/libintl.a'' else [])"
    "get_var (libintl_config ?s) ''INCINTL'' =
             (if ci_USE_INCLUDED_LIBINTL ci = ''yes'' then ''-I${top_builddir}/../intl'' else [])"
    by (simp_all add: libintl_config_def Let_def u)
  show ?thesis unfolding subst_value_intl
    by (simp add: intl_substituted_def v libintl_config_vals u rw T_def c)
qed

text \<open>C24: \<^verbatim>\<open>@MAINT@\<close> comments the maintainer rules out (\<^verbatim>\<open>#\<close>) when
  \<^verbatim>\<open>enable_maintainer_mode\<close> is \<^verbatim>\<open>no\<close>: the value of
  \<^verbatim>\<open>--enable-maintainer-mode\<close> or \<^verbatim>\<open>--disable-maintainer-mode\<close> when one is
  given, else the value the variable has in the environment, else \<^verbatim>\<open>no\<close>; it is
  empty otherwise (lines 651--659).\<close>

theorem maint_value:
  "subst_value (intl_configure ci) ''MAINT'' =
     Some (if (case ci_enable_maintainer_mode ci of
                 None \<Rightarrow> (case ci_env ci ''enable_maintainer_mode'' of None \<Rightarrow> ''no'' | Some v \<Rightarrow> v)
               | Some v \<Rightarrow> v) = ''no''
           then ''#'' else [])"
  unfolding subst_value_intl
  by (simp add: intl_substituted_def)
    (simp add: intl_configure_def configure_block_vars maintainer_mode_val set_before_maintainer_mode
      split: option.split)

text \<open>C25: \<^verbatim>\<open>@ACLOCAL@\<close> is the value the environment gives, else
  \<^verbatim>\<open>aclocal\<close> when it is on the \<^verbatim>\<open>PATH\<close>, else the \<^verbatim>\<open>missing\<close> script of the
  auxiliary directory (lines 646--647).\<close>

theorem aclocal_value:
  "subst_value (intl_configure ci) ''ACLOCAL'' =
     Some (if shell_value (ci_env ci ''ACLOCAL'') \<noteq> [] then shell_value (ci_env ci ''ACLOCAL'')
           else if ci_in_path ci ''aclocal'' then ''aclocal'' else ci_aux_dir_pwd ci @ ''/missing aclocal'')"
  unfolding subst_value_intl
  by (simp add: intl_substituted_def)
    (simp add: intl_configure_def configure_block_vars check_maintainer_tools_vals)


end
