(* ===== verification/Spec2Isabelle.thy ===== *)
theory Spec2Isabelle
  imports Symfile_System Symfile_Queries Symfile_Trace Intl_Configure
begin

text \<open>
  \<^bold>\<open>Symfile debug logging of gdb, \<^verbatim>\<open>src/gdb/symfile-debug.c\<close>.\<close>

  \<^bold>\<open>The program.\<close>  Every objfile (a loaded binary) has a table of optional symbol
  reader functions, \<^verbatim>\<open>objfile->sf\<close> (\<^verbatim>\<open>struct sym_fns\<close>), and a query object
  \<^verbatim>\<open>objfile->qf\<close>.  With \<^verbatim>\<open>set debug symfile on\<close>, the layer replaces each objfile's
  table by a shadow table of logging proxies (\<^verbatim>\<open>debug_sym_*\<close>) built slot by slot, keeping
  the real table in a block (\<^verbatim>\<open>struct debug_sym_fns_data\<close>) attached to the objfile
  through a registry key.  \<^verbatim>\<open>objfile_set_sym_fns\<close> is the only writer of
  \<^verbatim>\<open>objfile->sf\<close>: it uninstalls, replaces and reinstalls.  The \<^verbatim>\<open>objfile::\<close> query
  methods forward to \<^verbatim>\<open>qf\<close> and print their arguments and results while the flag is on.
  Appended to the file (lines 627--724) is the \<^verbatim>\<open>configure.ac\<close> of gdb's intl
  directory, an autoconf script independent of the layer.

  \<^bold>\<open>Theories.\<close>
  \<^item> \<open>Symfile_Prelude\<close>: identities, the error type \<open>gdb_error\<close> (assertions,
    \<^verbatim>\<open>gdb_assert_not_reached\<close>, faults on \<^verbatim>\<open>NULL\<close> or dangling pointers, reader
    errors), number printing (\<^verbatim>\<open>%x\<close>, \<^verbatim>\<open>%d\<close>, \<^verbatim>\<open>host_address_to_string\<close>,
    \<^verbatim>\<open>hex_string\<close>), and the trace type \<open>'a traced\<close>: \<open>None\<close> for a call that does not
    return, otherwise the lines written to \<^verbatim>\<open>gdb_stdlog\<close> with the outcome.
  \<^item> \<open>Sym_Fns\<close>: \<^verbatim>\<open>struct sym_fns\<close> and \<^verbatim>\<open>struct sym_probe_fns\<close> as records of
    optional function pointers, the template \<^verbatim>\<open>debug_sym_fns\<close> and the
    \<^verbatim>\<open>COPY_SF_PTR\<close> construction \<open>debug_sf_from\<close> (lines 494--540).
  \<^item> \<open>Objfile_Key\<close>: the registry \<^verbatim>\<open>objfile_key\<close>, not in the sources, modelled from
    the specification (section 4.1).
  \<^item> \<open>Symfile_State\<close>: the world record \<open>symfile_world\<close>: program spaces and their
    objfiles, the readers' static tables, the heap of blocks with its allocator, the registry
    slot, the flag \<^verbatim>\<open>debug_symfile\<close>, and the readers' functions; pointer reads that fault.
  \<^item> \<open>Symfile_Install\<close>: \<^verbatim>\<open>install_symfile_debug_logging\<close>,
    \<^verbatim>\<open>uninstall_symfile_debug_logging\<close>, \<^verbatim>\<open>objfile_set_sym_fns\<close>,
    \<^verbatim>\<open>set_debug_symfile\<close> with its two loops and the command (lines 507--626), each a
    function from a world to a world or an error; claims C1--C5.
  \<^item> \<open>Symfile_Proxies\<close>: the nine proxies (lines 363--487), each parameterised by the call
    it forwards, and the dispatcher \<open>call_sym_fn\<close>, which follows function pointers with
    fuel: a proxy's own call gets one unit less, and no fuel left is \<open>None\<close>.
  \<^item> \<open>Symfile_Invariant\<close>: the invariant \<open>symfile_inv\<close> (shape of blocks and registry,
    and synchronisation with the flag), the system's steps \<open>symfile_step\<close> (the command,
    the guard, objfiles created and destroyed, the last two modelled from the specification)
    and reachability; claim C6, and C29: the heap holds one block per instrumented objfile
    and none with logging off, so blocks never leak.
  \<^item> \<open>Symfile_Calls\<close>: the reference \<open>plain_call\<close> on the real table \<open>abs_sf\<close> and
    the behaviour of calls through an objfile's table: termination within two dispatches,
    transparency, trace lines, \<^verbatim>\<open>sym_segments\<close>; claims C7--C11; and C15: handing
    the guard the shadow table of another instrumented objfile makes every later read through
    it a call that never returns.
  \<^item> \<open>Symfile_Refinement\<close>: the abstract view \<open>abs_sf\<close> (the table each objfile
    effectively uses) is unchanged by install, uninstall and the command, and the guard
    replaces it at one objfile: claims C16--C17.  With C8 this is the refinement of the
    system in which an objfile is just its reader table.  C18: \<^verbatim>\<open>set debug symfile
    on\<close> then \<^verbatim>\<open>off\<close> gives back the world, except the block allocator
    (\<open>env_eq\<close> is the frame every procedure keeps).
  \<^item> \<open>Symfile_Progress\<close>: install and uninstall succeed where the invariant allows them,
    so the command fails only as in C5 and otherwise runs to the end (C30), and the guard
    fails exactly when logging is on and the new table is \<^verbatim>\<open>NULL\<close> (C26).
  \<^item> \<open>Symfile_System\<close>: sequences of operations (\<open>sym_op\<close>: the command, the guard,
    a call) run on the detailed model (\<open>sys_run\<close>) and on plain tables
    (\<open>abs_run\<close>): every run of well-formed operations returns, never aborts, and gives
    each call the abstract outcome (C27); a run with logging never on writes nothing (C28);
    an objfile created and not yet given a table makes \<^verbatim>\<open>set debug symfile on\<close> abort,
    and giving it its table first avoids that (C31, ordering).
  \<^item> \<open>Symfile_Trace\<close>: the line of \<^verbatim>\<open>debug_sym_read\<close>, whose 32-bit flags print as one
    to eight hex digits (C19, bounds) and read back as the call's flags (C20, round trip,
    with the reader \<open>hex_value\<close> of the prelude).
  \<^item> \<open>Symfile_Queries\<close>: the sixteen query methods (lines 65--358) over a record of the
    query object's methods, the dispatch \<open>objfile_query\<close> and the plain forwarding
    \<open>qf_dispatch\<close>; claims C12--C14.
  \<^item> \<open>Intl_Configure\<close>: the intl \<^verbatim>\<open>configure.ac\<close> (lines 627--724) as a function
    from its inputs (environment, options, what \<^verbatim>\<open>AM_GNU_GETTEXT\<close>,
    \<^verbatim>\<open>GCC_PICFLAG\<close> and the bison version pipeline give) to the defines and the
    substituted variables, one definition per block composed in script order.  Shell
    variables are set or unset (\<^verbatim>\<open>${x+set}\<close>), so that \<^verbatim>\<open>AC_ARG_ENABLE\<close> keeps
    an \<^verbatim>\<open>enable_*\<close> value inherited from the environment.  Claims C21--C25 give the
    value of each substituted variable the script computes (C23 for every
    \<^verbatim>\<open>LIBINTL\<close> of the form \<^verbatim>\<open>AM_GNU_GETTEXT\<close> produces, whatever
    \<^verbatim>\<open>LIBICONV\<close> adds), and C32 the messages printed.
  \<^item> This theory: example worlds and a witness for each claim with a hypothesis.

  \<^bold>\<open>Fuel.\<close>  \<open>call_sym_fn n\<close> returns \<open>None\<close> only when a chain of \<open>n\<close> proxies
  is followed.  In a state satisfying the invariant every real table holds readers'
  functions only, so a call needs one dispatch for the shadow table's proxy and one for the
  reader's function: fuel 2 suffices (C7), and more fuel gives the same answer
  (\<open>objfile_sym_call_mono\<close>).  Outside the invariant, a table that points at a shadow
  table makes a proxy call itself, and no fuel suffices (\<open>call_sym_fn_self_loop\<close>).
  A run \<open>sys_run n\<close> gives every call the same fuel \<open>n\<close>; C27 holds for every
  \<open>n \<ge> 2\<close>, and C28 for every \<open>n \<ge> 1\<close> since an uninstrumented call takes one dispatch.

  \<^bold>\<open>Not modelled.\<close>  The contents of trace lines are strings as the format strings
  build them, with \<^verbatim>\<open>printf\<close> modelled from its documented output; the registry,
  objfile creation and destruction, and the query object are modelled from the specification
  since their code is not in the sources, and the refinement of runs (C27) covers runs on a
  fixed set of objfiles (creation and destruction are operations of \<open>sys_run\<close>, used by
  C31); symbol tables and domains are represented by the
  names printed for them; the readers' functions are an arbitrary function of the world
  (\<open>sym_backend\<close>) whose effects on the symbol tables are not modelled.  The command
  registration itself (\<^verbatim>\<open>add_setshow_boolean_cmd\<close>) is external.  In the
  configure script, the autoconf macros whose expansion lies outside the file
  (\<^verbatim>\<open>AM_GNU_GETTEXT\<close>, \<^verbatim>\<open>GCC_PICFLAG\<close>) and the programs it runs
  (\<^verbatim>\<open>pwd\<close>, \<^verbatim>\<open>$INTLBISON --version | sed\<close>) are inputs; pathname
  expansion of unquoted words and the cache variables of autoconf are not modelled.
\<close>

section \<open>Example worlds\<close>

text \<open>A reader's table with \<^verbatim>\<open>sym_read\<close> and \<^verbatim>\<open>sym_init\<close> populated and every
  other slot absent, an objfile using it, and a world with that one objfile.\<close>

definition ex_tab :: sym_fns where
  "ex_tab = empty_sym_fns\<lparr>sym_init := Some (Backend_fn 2), sym_read := Some (Backend_fn 1),
                            sym_segments := Some (Backend_fn 3)\<rparr>"

definition ex_objfile :: objfile where
  "ex_objfile = \<lparr>objfile_name = ''M'', objfile_flags = 0, sf = Some (Static_sf 0), qf = None\<rparr>"

definition ex_world :: symfile_world where
  "ex_world =
     \<lparr>program_spaces = [[0]], objfile_of = (\<lambda>_. ex_objfile), sym_tabs = [0 \<mapsto> ex_tab],
      probe_tabs = Map.empty, dd_heap = Map.empty, dd_next = 0, data_key = Map.empty,
      debug_symfile = False, sym_backend = (\<lambda>b ob c. Inr (Ret_ptr b))\<rparr>"

definition ex_null_world :: symfile_world where
  "ex_null_world = ex_world\<lparr>objfile_of := (\<lambda>_. ex_objfile\<lparr>sf := None\<rparr>)\<rparr>"

text \<open>The example world after \<^verbatim>\<open>set debug symfile on\<close>: objfile 0 instrumented with
  block 0.\<close>

definition ex_on_world :: symfile_world where
  "ex_on_world =
     ex_world\<lparr>objfile_of := (\<lambda>_. ex_objfile)(0 := ex_objfile\<lparr>sf := Some (Debug_sf 0)\<rparr>),
              dd_heap := [0 \<mapsto> \<lparr>real_sf = Some (Static_sf 0), debug_sf = debug_sf_from ex_tab\<rparr>],
              dd_next := 1, data_key := [0 \<mapsto> 0], debug_symfile := True\<rparr>"

text \<open>A reader's query object that can read its symbols lazily, and an objfile using it.\<close>

definition ex_qf :: quick_symbol_functions where
  "ex_qf =
     \<lparr>qsf_has_symbols = (\<lambda>_. Inr False), qsf_can_lazily_read_symbols = Inr True,
      qsf_find_last_source_symtab = (\<lambda>_. Inr (Some \<lparr>filename_for_display = ''m.c''\<rparr>)),
      qsf_forget_cached_source_info = (\<lambda>_. Inr ()),
      qsf_map_symtabs_matching_filename = (\<lambda>_ _ _ _. Inr True),
      qsf_lookup_symbol = (\<lambda>_ _ _ _. Inr None), qsf_print_stats = (\<lambda>_ _. Inr ()),
      qsf_dump = (\<lambda>_. Inr ()), qsf_expand_symtabs_for_function = (\<lambda>_ _. Inr ()),
      qsf_expand_all_symtabs = (\<lambda>_. Inr ()), qsf_expand_symtabs_with_fullname = (\<lambda>_ _. Inr ()),
      qsf_map_matching_symbols = (\<lambda>_ _ _ _ _ _. Inr ()),
      qsf_expand_symtabs_matching = (\<lambda>_ _ _ _ _ _. Inr ()),
      qsf_find_pc_sect_compunit_symtab = (\<lambda>_ _ _ _ _. Inr None),
      qsf_map_symbol_filenames = (\<lambda>_ _ _ _. Inr ()),
      qsf_find_compunit_symtab_by_address = (\<lambda>_ _. Inr None),
      qsf_lookup_global_symbol_language = (\<lambda>_ _ _. Inr (1, True))\<rparr>"

definition ex_Q :: qf_family where
  "ex_Q = (\<lambda>_. ex_qf)"

definition ex_qf_world :: symfile_world where
  "ex_qf_world = ex_world\<lparr>objfile_of := (\<lambda>_. ex_objfile\<lparr>qf := Some 0\<rparr>)\<rparr>"

text \<open>Two objfiles sharing the reader's table, and the world after
  \<^verbatim>\<open>set debug symfile on\<close>: each instrumented with its own block.\<close>

definition ex2_world :: symfile_world where
  "ex2_world = ex_world\<lparr>program_spaces := [[0, 1]]\<rparr>"

definition ex_block :: debug_sym_fns_data where
  "ex_block = \<lparr>real_sf = Some (Static_sf 0), debug_sf = debug_sf_from ex_tab\<rparr>"

definition ex2_on_world :: symfile_world where
  "ex2_on_world =
     ex2_world\<lparr>objfile_of := ((\<lambda>_. ex_objfile)(0 := ex_objfile\<lparr>sf := Some (Debug_sf 0)\<rparr>))
                                 (1 := ex_objfile\<lparr>sf := Some (Debug_sf 1)\<rparr>),
               dd_heap := [0 \<mapsto> ex_block, 1 \<mapsto> ex_block],
               dd_next := 2, data_key := [0 \<mapsto> 0, 1 \<mapsto> 1], debug_symfile := True\<rparr>"

text \<open>A reader's function that returns at once, for calling a proxy directly.\<close>

definition ex_ret_call :: "sym_fn \<Rightarrow> sym_call \<Rightarrow> sym_ret traced" where
  "ex_ret_call f c = Some ([], Inr Ret_void)"

text \<open>Two runs of the layer on the example world: calls interleaved with the command and
  a table replacement, and a run in which logging stays off.\<close>

definition ex_ops :: "sym_op list" where
  "ex_ops = [Op_call 0 (Call_read 1), Op_set_debug True, Op_call 0 (Call_read 1),
             Op_set_sym_fns 0 (Some (Static_sf 0)), Op_set_debug False, Op_call 0 Call_init]"

definition ex_quiet_ops :: "sym_op list" where
  "ex_quiet_ops = [Op_call 0 (Call_read 1), Op_set_debug False, Op_set_sym_fns 0 (Some (Static_sf 0)),
                   Op_call 0 Call_init]"

lemmas ex_defs = ex_tab_def ex_objfile_def ex_world_def ex_null_world_def

section \<open>Witnesses\<close>

theorem install_preserves_absence_witness:
  "\<not> symfile_debug_installed ex_world 0 \<and> sf_of ex_world 0 = Some (Static_sf 0) \<and>
   sym_tabs ex_world 0 = Some ex_tab \<and>
   (\<exists>w' tab'. install_symfile_debug_logging 0 ex_world = Inr w' \<and>
      deref_sf_ptr w' (sf_of w' 0) = Inr tab' \<and>
      sf_slot Sym_read tab' = Some (Debug_fn Sym_read) \<and> sf_slot Sym_finish tab' = None)"
proof -
  have h: "\<not> symfile_debug_installed ex_world 0" "sf_of ex_world 0 = Some (Static_sf 0)"
    "sym_tabs ex_world 0 = Some ex_tab"
    by (simp_all add: ex_defs sf_of_def)
  have t: "sf_slot Sym_read ex_tab = Some (Backend_fn 1)" "sf_slot Sym_finish ex_tab = None"
    by (simp_all add: ex_tab_def empty_sym_fns_def)
  from Symfile_Install.install_preserves_absence [OF h] obtain w' tab'
    where i: "install_symfile_debug_logging 0 ex_world = Inr w'"
      and d: "deref_sf_ptr w' (sf_of w' 0) = Inr tab'"
      and sl: "\<forall>s. sf_slot s tab' = (if sf_slot s ex_tab = None then None else Some (Debug_fn s))"
    by blast
  from sl have "sf_slot Sym_read tab' = Some (Debug_fn Sym_read)" and "sf_slot Sym_finish tab' = None"
    using t by (simp_all only: if_False if_True option.distinct) (simp_all del: sf_slot.simps)
  with h i d show ?thesis by blast
qed

theorem install_uninstall_roundtrip_witness:
  "\<not> symfile_debug_installed ex_world 0 \<and> sf_of ex_world 0 = Some (Static_sf 0) \<and>
   sym_tabs ex_world 0 = Some ex_tab \<and> dd_heap ex_world (dd_next ex_world) = None \<and>
   (case install_symfile_debug_logging 0 ex_world of
      Inl e \<Rightarrow> Inl e
    | Inr w' \<Rightarrow> uninstall_symfile_debug_logging 0 w') = Inr (ex_world\<lparr>dd_next := 1\<rparr>)"
proof -
  have h: "\<not> symfile_debug_installed ex_world 0" "sf_of ex_world 0 = Some (Static_sf 0)"
    "sym_tabs ex_world 0 = Some ex_tab" "dd_heap ex_world (dd_next ex_world) = None"
    by (simp_all add: ex_defs sf_of_def)
  have "dd_next ex_world = 0" by (simp add: ex_world_def)
  with Symfile_Install.install_uninstall_roundtrip [OF h] h show ?thesis by simp
qed

theorem objfile_set_sym_fns_guard_witness:
  "\<exists>w'. objfile_set_sym_fns 0 (Some (Static_sf 0)) (ex_world\<lparr>debug_symfile := True\<rparr>) = Inr w' \<and>
     symfile_debug_installed w' 0 \<and> sf_of w' 0 = Some (Debug_sf 0)"
proof -
  let ?w = "ex_world\<lparr>debug_symfile := True\<rparr>"
  obtain w' where w': "objfile_set_sym_fns 0 (Some (Static_sf 0)) ?w = Inr w'"
    by (simp add: objfile_set_sym_fns_def ex_defs sf_of_def Let_def install_symfile_debug_logging_def
        data_key_set_def set_objfile_sf_def deref_sf_def)
  have "debug_symfile ?w" and "dd_next ?w = 0" by (simp_all add: ex_world_def)
  with Symfile_Install.objfile_set_sym_fns_guard [OF w'] w' show ?thesis by auto
qed

theorem set_debug_symfile_cmd_idempotent_witness:
  "\<exists>w'. set_debug_symfile_cmd True ex_world = Inr w' \<and> set_debug_symfile_cmd True w' = Inr w'"
proof -
  obtain w' where w': "set_debug_symfile_cmd True ex_world = Inr w'"
    by (simp add: set_debug_symfile_cmd_def set_debug_symfile_def set_debug_symfile_objfile_def
        ex_defs sf_of_def install_ok)
  with Symfile_Install.set_debug_symfile_cmd_idempotent [OF w'] show ?thesis by blast
qed

theorem set_debug_symfile_on_null_sf_witness:
  "0 \<in> set (live_objfiles ex_null_world) \<and> sf_of ex_null_world 0 = None \<and>
   (\<exists>e. set_debug_symfile_cmd True ex_null_world = Inl e)"
proof -
  have h: "0 \<in> set (live_objfiles ex_null_world)" "sf_of ex_null_world 0 = None"
    by (simp_all add: ex_defs live_objfiles_def sf_of_def)
  from Symfile_Install.set_debug_symfile_on_null_sf [OF h] h show ?thesis by blast
qed


text \<open>A run of the intl \<^verbatim>\<open>configure\<close> with the included libintl, no option given, an
  environment that sets only \<^verbatim>\<open>enable_maintainer_mode\<close> (to \<^verbatim>\<open>yes\<close>),
  \<^verbatim>\<open>LIBINTL\<close> as \<^verbatim>\<open>AM_GNU_GETTEXT\<close> sets it with \<^verbatim>\<open>LIBICONV\<close> = \<^verbatim>\<open>-liconv\<close>,
  and bison 10.\<close>

definition ex_ci :: configure_input where
  "ex_ci = \<lparr>ci_env = [''enable_maintainer_mode'' \<mapsto> ''yes''], ci_aux_dir_pwd = ''/src/config'',
     ci_in_path = (\<lambda>_. False),
     ci_enable_maintainer_mode = None, ci_enable_host_shared = None, ci_enable_host_pie = None,
     ci_USE_INCLUDED_LIBINTL = ''yes'', ci_LIBINTL = ''${top_builddir}/intl/libintl.a -liconv'',
     ci_INTLBISON = ''bison'', ci_bison_version = ''10.0'', ci_gcc_picflag = ''-fPIC''\<rparr>"

section \<open>Facts about the example worlds\<close>

lemma ex_on_world_cmd: "set_debug_symfile_cmd True ex_world = Inr ex_on_world"
  by (simp add: set_debug_symfile_cmd_def set_debug_symfile_def set_debug_symfile_objfile_def
      ex_defs ex_on_world_def sf_of_def install_ok set_objfile_sf_def)

lemma ex_tab_wf: "table_wf ex_world ex_tab"
  by (simp add: table_wf_def all_slots_iff ex_tab_def empty_sym_fns_def)

lemma ex_world_start: "symfile_start ex_world"
  by (simp add: symfile_start_def ex_world_def)

lemma ex_world_static: "\<forall>ob \<in> set (live_objfiles ex_world). static_sf_ok ex_world (sf_of ex_world ob)"
  using ex_tab_wf by (simp add: live_objfiles_def static_sf_ok_def ex_world_def ex_objfile_def sf_of_def)

lemma ex_world_inv: "symfile_inv ex_world"
  by (rule inv_start [OF ex_world_start ex_world_static])

lemma ex_on_world_inv: "symfile_inv ex_on_world"
  by (rule inv_set_debug_symfile_cmd [OF ex_world_inv ex_on_world_cmd])

lemma ex_on_world_facts:
  "0 \<in> set (live_objfiles ex_on_world)" "debug_symfile ex_on_world" "sf_of ex_on_world 0 \<noteq> None"
  "abs_sf ex_on_world 0 = Some (Static_sf 0)" "objfile_debug_name ex_on_world 0 = ''M''"
  by (simp_all add: ex_on_world_def ex_defs live_objfiles_def sf_of_def abs_sf_def objfile_debug_name_def)

lemma ex_on_world_deref: "deref_sf ex_on_world (Static_sf 0) = Inr ex_tab"
  by (simp add: ex_on_world_def ex_world_def)

section \<open>Witnesses of the invariant and of the calls\<close>

theorem reachable_inv_witness: "symfile_reachable ex_on_world \<and> symfile_inv ex_on_world"
proof -
  have r0: "symfile_reachable ex_world"
    by (rule symfile_reachable.start [OF ex_world_start ex_world_static])
  have "symfile_reachable ex_on_world"
    by (rule symfile_reachable.step [OF r0 symfile_step.toggle [OF ex_on_world_cmd]])
  with Symfile_Invariant.reachable_inv [OF this] show ?thesis by blast
qed

lemma ex_read_call_fn: "call_fn ex_on_world (deref_sf_ptr ex_on_world (abs_sf ex_on_world 0)) (Call_read 1) = Inr (Backend_fn 1)"
  by (simp add: ex_on_world_facts(4) ex_on_world_deref call_fn_def ex_tab_def empty_sym_fns_def)

lemma ex_read_plain: "plain_call ex_on_world (abs_sf ex_on_world 0) 0 (Call_read 1) = Inr (Ret_ptr 1)"
  using ex_read_call_fn by (simp add: plain_call_def ex_on_world_def ex_world_def)

theorem objfile_sym_call_terminates_witness:
  "symfile_inv ex_on_world \<and> 0 \<in> set (live_objfiles ex_on_world) \<and>
   (\<exists>r. objfile_sym_call 2 ex_on_world 0 (Call_read 1) = Some r)"
  using Symfile_Calls.objfile_sym_call_terminates [OF ex_on_world_inv ex_on_world_facts(1)]
    ex_on_world_inv ex_on_world_facts(1) by blast

theorem objfile_sym_call_transparent_witness:
  "symfile_inv ex_on_world \<and> 0 \<in> set (live_objfiles ex_on_world) \<and> \<not> is_segments_call (Call_read 1) \<and>
   map_option snd (objfile_sym_call 2 ex_on_world 0 (Call_read 1)) = Some (Inr (Ret_ptr 1))"
  using Symfile_Calls.objfile_sym_call_transparent [OF ex_on_world_inv ex_on_world_facts(1), of "Call_read 1"]
    ex_on_world_inv ex_on_world_facts(1) ex_read_plain by simp

theorem objfile_sym_call_trace_witness:
  "symfile_inv ex_on_world \<and> 0 \<in> set (live_objfiles ex_on_world) \<and> debug_symfile ex_on_world \<and>
   sf_of ex_on_world 0 \<noteq> None \<and>
   call_fn ex_on_world (deref_sf_ptr ex_on_world (abs_sf ex_on_world 0)) (Call_read 1) = Inr (Backend_fn 1) \<and>
   (\<exists>l. objfile_sym_call 2 ex_on_world 0 (Call_read 1) = Some ([l], Inr (Ret_ptr 1)))"
  using Symfile_Calls.objfile_sym_call_trace [OF ex_on_world_inv ex_on_world_facts(1-3) ex_read_call_fn]
    ex_on_world_inv ex_on_world_facts(1-3) ex_read_call_fn ex_read_plain by simp

theorem objfile_sym_read_trace_witness:
  "symfile_inv ex_on_world \<and> 0 \<in> set (live_objfiles ex_on_world) \<and> debug_symfile ex_on_world \<and>
   sf_of ex_on_world 0 \<noteq> None \<and>
   call_fn ex_on_world (deref_sf_ptr ex_on_world (abs_sf ex_on_world 0)) (Call_read 1) = Inr (Backend_fn 1) \<and>
   objfile_sym_call 2 ex_on_world 0 (Call_read 1) = Some ([''sf->sym_read (M, 0x1)''], Inr (Ret_ptr 1))"
  using Symfile_Calls.objfile_sym_read_trace [OF ex_on_world_inv ex_on_world_facts(1-3) ex_read_call_fn]
    ex_on_world_inv ex_on_world_facts ex_read_call_fn ex_read_plain
  by (simp add: hex_digits_small hex_digit_nth)

lemma ex_segments_call_fn:
  "call_fn ex_on_world (deref_sf_ptr ex_on_world (abs_sf ex_on_world 0)) (Call_segments 7) = Inr (Backend_fn 3)"
  by (simp add: ex_on_world_facts(4) ex_on_world_deref call_fn_def ex_tab_def empty_sym_fns_def)

theorem objfile_sym_segments_not_reached_witness:
  "symfile_inv ex_on_world \<and> 0 \<in> set (live_objfiles ex_on_world) \<and> debug_symfile ex_on_world \<and>
   sf_of ex_on_world 0 \<noteq> None \<and>
   call_fn ex_on_world (deref_sf_ptr ex_on_world (abs_sf ex_on_world 0)) (Call_segments 7) = Inr (Backend_fn 3) \<and>
   objfile_sym_call 2 ex_on_world 0 (Call_segments 7) = Some ([], Inl (Not_reached ''debug_sym_segments called''))"
  using Symfile_Calls.objfile_sym_segments_not_reached [OF ex_on_world_inv ex_on_world_facts(1-3) ex_segments_call_fn]
    ex_on_world_inv ex_on_world_facts(1-3) ex_segments_call_fn by simp

lemma ex2_on_world_cmd: "set_debug_symfile_cmd True ex2_world = Inr ex2_on_world"
  by (simp add: set_debug_symfile_cmd_def set_debug_symfile_def set_debug_symfile_objfile_def
      ex_defs ex2_world_def ex2_on_world_def ex_block_def sf_of_def install_ok set_objfile_sf_def)

lemma ex2_tab_wf: "table_wf ex2_world ex_tab"
  by (simp add: table_wf_def all_slots_iff ex_tab_def empty_sym_fns_def)

lemma ex2_world_inv: "symfile_inv ex2_world"
proof (rule inv_start)
  show "symfile_start ex2_world" by (simp add: symfile_start_def ex2_world_def ex_world_def)
  show "\<forall>ob \<in> set (live_objfiles ex2_world). static_sf_ok ex2_world (sf_of ex2_world ob)"
    using ex2_tab_wf
    by (simp add: live_objfiles_def static_sf_ok_def ex2_world_def ex_world_def ex_objfile_def sf_of_def)
qed

lemma ex2_on_world_inv: "symfile_inv ex2_on_world"
  by (rule inv_set_debug_symfile_cmd [OF ex2_world_inv ex2_on_world_cmd])

lemma ex2_on_world_facts:
  "debug_symfile ex2_on_world" "0 \<in> set (live_objfiles ex2_on_world)" "data_key ex2_on_world 0 = Some 0"
  "sf_of ex2_on_world 0 = Some (Debug_sf 0)"
  "call_fn ex2_on_world (deref_sf_ptr ex2_on_world (abs_sf ex2_on_world 0)) (Call_read 1) = Inr (Backend_fn 1)"
  by (simp_all add: ex2_on_world_def ex2_world_def ex_defs ex_block_def live_objfiles_def sf_of_def
      abs_sf_def call_fn_def)

lemma ex2_share_ok: "\<exists>w'. objfile_set_sym_fns 1 (Some (Debug_sf 0)) ex2_on_world = Inr w'"
  by (simp add: objfile_set_sym_fns_def uninstall_symfile_debug_logging_def
      install_symfile_debug_logging_def ex2_on_world_def ex2_world_def ex_defs ex_block_def sf_of_def
      set_objfile_sf_def Let_def data_key_set_def data_key_clear_def key_set_def key_clear_def deref_sf_def)

theorem set_sym_fns_shared_shadow_diverges_witness:
  "symfile_inv ex2_on_world \<and> debug_symfile ex2_on_world \<and> 0 \<in> set (live_objfiles ex2_on_world) \<and>
   data_key ex2_on_world 0 = Some 0 \<and>
   call_fn ex2_on_world (deref_sf_ptr ex2_on_world (abs_sf ex2_on_world 0)) (Call_read 1) = Inr (Backend_fn 1) \<and>
   (\<exists>w'. objfile_set_sym_fns 1 (sf_of ex2_on_world 0) ex2_on_world = Inr w' \<and>
         (\<forall>n. objfile_sym_call n w' 1 (Call_read 1) = None))"
proof -
  obtain w' where s: "objfile_set_sym_fns 1 (sf_of ex2_on_world 0) ex2_on_world = Inr w'"
    using ex2_share_ok ex2_on_world_facts(4) by auto
  have "\<forall>n. objfile_sym_call n w' 1 (Call_read 1) = None"
    using Symfile_Calls.set_sym_fns_shared_shadow_diverges [OF ex2_on_world_inv ex2_on_world_facts(1,2) _
        ex2_on_world_facts(3,5) s] by simp
  with s ex2_on_world_inv ex2_on_world_facts show ?thesis by blast
qed

lemma ex_on_reset_ok: "\<exists>w'. objfile_set_sym_fns 0 (Some (Static_sf 0)) ex_on_world = Inr w'"
  by (simp add: objfile_set_sym_fns_def uninstall_symfile_debug_logging_def
      install_symfile_debug_logging_def ex_on_world_def ex_world_def ex_defs sf_of_def
      set_objfile_sf_def Let_def data_key_set_def data_key_clear_def key_set_def key_clear_def deref_sf_def)

theorem objfile_set_sym_fns_refines_witness:
  "symfile_inv ex_on_world \<and> 0 \<in> set (live_objfiles ex_on_world) \<and>
   (\<exists>w'. objfile_set_sym_fns 0 (Some (Static_sf 0)) ex_on_world = Inr w' \<and>
         abs_sf w' 0 = Some (Static_sf 0))"
proof -
  obtain w' where s: "objfile_set_sym_fns 0 (Some (Static_sf 0)) ex_on_world = Inr w'"
    using ex_on_reset_ok by blast
  from Symfile_Refinement.objfile_set_sym_fns_refines [OF ex_on_world_inv ex_on_world_facts(1) s]
  have "abs_sf w' 0 = Some (Static_sf 0)" by simp
  with s ex_on_world_inv ex_on_world_facts(1) show ?thesis by blast
qed

theorem set_debug_symfile_cmd_refines_witness:
  "symfile_inv ex_world \<and> set_debug_symfile_cmd True ex_world = Inr ex_on_world \<and>
   abs_sf ex_on_world = abs_sf ex_world"
  using Symfile_Refinement.set_debug_symfile_cmd_refines [OF ex_world_inv ex_on_world_cmd]
    ex_world_inv ex_on_world_cmd by blast

section \<open>Witnesses of the query forwarding\<close>

theorem objfile_query_without_qf_witness:
  "qf (objfile_of ex_world 0) = None \<and>
   (\<exists>tr. objfile_query ex_Q ex_world 0 (Q_lookup_global_symbol_language ''main'' ''VAR_DOMAIN'') =
      Some (tr, Inr (QR_lang language_unknown False)))"
proof -
  have n: "qf (objfile_of ex_world 0) = None" by (simp add: ex_defs)
  from Symfile_Queries.objfile_query_without_qf [OF n, of ex_Q "Q_lookup_global_symbol_language ''main'' ''VAR_DOMAIN''"]
  show ?thesis using n by simp
qed

theorem has_partial_symbols_value_witness:
  "qf (objfile_of ex_qf_world 0) = Some 0 \<and> partial_symbols_retval ex_Q ex_qf_world 0 = Inr True"
proof -
  have s: "qf (objfile_of ex_qf_world 0) = Some 0" by (simp add: ex_qf_world_def)
  have "\<not> bit (objfile_flags (objfile_of ex_qf_world 0)) 4" by (simp add: ex_qf_world_def ex_objfile_def)
  with Symfile_Queries.has_partial_symbols_value [OF s, of ex_Q] s show ?thesis
    by (simp add: ex_Q_def ex_qf_def)
qed

section \<open>Witnesses of the on/off round trip and the trace line\<close>

lemma ex_off_cmd: "\<exists>w2. set_debug_symfile_cmd False ex_on_world = Inr w2"
  by (simp add: set_debug_symfile_cmd_def set_debug_symfile_def set_debug_symfile_objfile_def
      ex_defs ex_on_world_def sf_of_def uninstall_symfile_debug_logging_def data_key_clear_def
      set_objfile_sf_def Let_def)

theorem set_debug_symfile_on_off_roundtrip_witness:
  "symfile_inv ex_world \<and> \<not> debug_symfile ex_world \<and> set_debug_symfile_cmd True ex_world = Inr ex_on_world \<and>
   (\<exists>w2. set_debug_symfile_cmd False ex_on_world = Inr w2 \<and> w2 = ex_world\<lparr>dd_next := dd_next w2\<rparr>)"
proof -
  obtain w2 where w2: "set_debug_symfile_cmd False ex_on_world = Inr w2" using ex_off_cmd by blast
  have off: "\<not> debug_symfile ex_world" by (simp add: ex_world_def)
  from Symfile_Refinement.set_debug_symfile_on_off_roundtrip [OF ex_world_inv off ex_on_world_cmd w2]
  show ?thesis using ex_world_inv off ex_on_world_cmd w2 by blast
qed

lemma ex_hex_2a: "hex_digits 42 = ''2a''"
  by code_simp

lemma ex_on_real: "real_sf_of ex_on_world 0 = Inr ex_tab"
  by (simp add: real_sf_of_def ex_on_world_def ex_defs)

lemma ex_debug_read:
  "debug_sym_read ex_ret_call ex_on_world 0 0x2A = Some ([''sf->sym_read (M, 0x2a)''], Inr Ret_void)"
  by (simp add: debug_sym_read_def forward_def ex_ret_call_def ex_on_world_facts(5) ex_hex_2a
      ex_on_real ex_tab_def empty_sym_fns_def)

theorem debug_sym_read_line_bounds_witness:
  "debug_sym_read ex_ret_call ex_on_world 0 0x2A = Some ([''sf->sym_read (M, 0x2a)''], Inr Ret_void) \<and>
   (\<exists>l rest. [''sf->sym_read (M, 0x2a)''] = l # rest \<and> length (objfile_debug_name ex_on_world 0) + 20 \<le> length l \<and>
      length l \<le> length (objfile_debug_name ex_on_world 0) + 27)"
  using Symfile_Trace.debug_sym_read_line_bounds [OF ex_debug_read] ex_debug_read by blast

theorem debug_sym_read_line_roundtrip_witness:
  "debug_sym_read ex_ret_call ex_on_world 0 0x2A = Some (''sf->sym_read (M, 0x2a)'' # [], Inr Ret_void) \<and>
   read_line_flags ''sf->sym_read (M, 0x2a)'' = 0x2A"
  using Symfile_Trace.debug_sym_read_line_roundtrip [OF ex_debug_read] ex_debug_read by blast

section \<open>Witnesses of progress and of the guard's outcome\<close>

theorem objfile_set_sym_fns_outcome_witness:
  "symfile_inv ex_on_world \<and> 0 \<in> set (live_objfiles ex_on_world) \<and> static_sf_ok ex_on_world None \<and>
   objfile_set_sym_fns 0 None ex_on_world = Inl Null_deref"
proof -
  have ok: "static_sf_ok ex_on_world None" by (simp add: static_sf_ok_def)
  from Symfile_Progress.objfile_set_sym_fns_outcome [OF ex_on_world_inv ex_on_world_facts(1) ok]
    ex_on_world_facts(2) ex_on_world_inv ex_on_world_facts(1) ok
  show ?thesis by simp
qed

section \<open>Witnesses of the runs of the layer\<close>

lemma ex_ops_ok: "list_all (op_ok ex_world) ex_ops"
  using ex_world_static by (simp add: ex_ops_def ex_defs live_objfiles_def sf_of_def)

lemma ex_quiet_ops_ok: "list_all (op_ok ex_world) ex_quiet_ops"
  using ex_world_static by (simp add: ex_quiet_ops_def ex_defs live_objfiles_def sf_of_def)

lemma ex_abs_run:
  "abs_run ex_world (abs_sf ex_world) ex_ops = [Inr (Ret_ptr 1), Inr (Ret_ptr 1), Inr (Ret_ptr 2)]"
  by (simp add: ex_ops_def ex_defs abs_sf_def sf_of_def plain_call_def call_fn_def slot_fn_def
      empty_sym_fns_def)

theorem sys_run_refines_witness:
  "symfile_inv ex_world \<and> live_objfiles ex_world = [0] \<and> sf_of ex_world 0 = Some (Static_sf 0) \<and>
   list_all (op_ok ex_world) ex_ops \<and>
   (\<exists>ls w'. sys_run 2 ex_ops ex_world = Some (ls, [Inr (Ret_ptr 1), Inr (Ret_ptr 1), Inr (Ret_ptr 2)], Inr w'))"
proof -
  have l: "live_objfiles ex_world = [0]" and s: "sf_of ex_world 0 = Some (Static_sf 0)"
    by (simp_all add: ex_defs live_objfiles_def sf_of_def)
  then have nn: "\<forall>ob \<in> set (live_objfiles ex_world). sf_of ex_world ob \<noteq> None" by simp
  from Symfile_System.sys_run_refines [OF ex_world_inv nn ex_ops_ok, of 2] ex_abs_run
  have "\<exists>ls w'. sys_run 2 ex_ops ex_world = Some (ls, [Inr (Ret_ptr 1), Inr (Ret_ptr 1), Inr (Ret_ptr 2)], Inr w')"
    by simp
  with ex_world_inv l s ex_ops_ok show ?thesis by blast
qed

theorem sys_run_logging_off_silent_witness:
  "symfile_inv ex_world \<and> \<not> debug_symfile ex_world \<and> Op_set_debug True \<notin> set ex_quiet_ops \<and>
   list_all (op_ok ex_world) ex_quiet_ops \<and> (\<exists>xs w'. sys_run 2 ex_quiet_ops ex_world = Some ([], xs, Inr w'))"
proof -
  have off: "\<not> debug_symfile ex_world" by (simp add: ex_world_def)
  have no: "Op_set_debug True \<notin> set ex_quiet_ops" by (simp add: ex_quiet_ops_def)
  from Symfile_System.sys_run_logging_off_silent [OF ex_world_inv off no ex_quiet_ops_ok, of 1]
  show ?thesis using ex_world_inv off no ex_quiet_ops_ok by (simp add: numeral_2_eq_2)
qed

section \<open>Witness of the block accounting\<close>

theorem blocks_per_instrumented_objfile_witness:
  "symfile_reachable ex_on_world \<and> debug_symfile ex_on_world \<and> card (dom (dd_heap ex_on_world)) = 1"
proof -
  have r: "symfile_reachable ex_on_world"
    by (rule symfile_reachable.step [OF symfile_reachable.start symfile_step.toggle])
       (rule ex_world_start, rule ex_world_static, rule ex_on_world_cmd)
  have "{ob \<in> set (live_objfiles ex_on_world). sf_of ex_on_world ob \<noteq> None} = {0}"
    by (auto simp: ex_on_world_def ex_defs live_objfiles_def sf_of_def)
  with Symfile_Invariant.blocks_per_instrumented_objfile [OF r] ex_on_world_facts(2) r
  show ?thesis by simp
qed

section \<open>Witness of the errors of the command\<close>

lemma ex_null_world_inv: "symfile_inv ex_null_world"
proof (rule inv_start)
  show "symfile_start ex_null_world" by (simp add: symfile_start_def ex_defs)
  show "\<forall>ob \<in> set (live_objfiles ex_null_world). static_sf_ok ex_null_world (sf_of ex_null_world ob)"
    by (simp add: ex_defs live_objfiles_def sf_of_def static_sf_ok_def)
qed

theorem set_debug_symfile_cmd_outcome_witness:
  "symfile_inv ex_null_world \<and> set_debug_symfile_cmd True ex_null_world = Inl Null_deref \<and>
   (\<exists>w'. set_debug_symfile_cmd False ex_null_world = Inr w')"
proof -
  have h: "0 \<in> set (live_objfiles ex_null_world)" "sf_of ex_null_world 0 = None"
    by (simp_all add: ex_defs live_objfiles_def sf_of_def)
  have "\<exists>ob \<in> set (live_objfiles ex_null_world). sf_of ex_null_world ob = None" using h by blast
  with Symfile_Progress.set_debug_symfile_cmd_outcome [OF ex_null_world_inv, of True]
  have "set_debug_symfile_cmd True ex_null_world = Inl Null_deref" by simp
  moreover from Symfile_Progress.set_debug_symfile_cmd_outcome [OF ex_null_world_inv, of False]
  have "\<exists>w'. set_debug_symfile_cmd False ex_null_world = Inr w'" by auto
  ultimately show ?thesis using ex_null_world_inv by blast
qed

theorem new_objfile_table_before_logging_witness:
  "symfile_inv ex_world \<and> live_objfiles ex_world = [0] \<and> sf_of ex_world 0 = Some (Static_sf 0) \<and>
   0 < length (program_spaces ex_world) \<and> static_sf_ok ex_world (Some (Static_sf 0)) \<and>
   sys_run 2 [Op_new 1 ex_objfile 0, Op_set_debug True] ex_world = Some ([], [], Inl Null_deref) \<and>
   (\<exists>w'. sys_run 2 [Op_new 1 ex_objfile 0, Op_set_sym_fns 1 (Some (Static_sf 0)), Op_set_debug True] ex_world =
      Some ([], [], Inr w'))"
proof -
  have l: "live_objfiles ex_world = [0]" and s: "sf_of ex_world 0 = Some (Static_sf 0)"
    and p: "0 < length (program_spaces ex_world)"
    by (simp_all add: ex_defs live_objfiles_def sf_of_def)
  have ok: "static_sf_ok ex_world (Some (Static_sf 0))"
    using ex_world_static l s by simp
  have nn: "\<forall>x \<in> set (live_objfiles ex_world). sf_of ex_world x \<noteq> None" using l s by simp
  have fresh: "1 \<notin> set (live_objfiles ex_world)" using l by simp
  from Symfile_System.new_objfile_table_before_logging [OF ex_world_inv nn fresh p ok, of 2 ex_objfile]
  show ?thesis using ex_world_inv l s p ok by blast
qed

section \<open>Witnesses of the configure script\<close>

lemma bison_version_examples: "bison3_pattern ''3.8.2'' \<and> \<not> bison3_pattern ''10.0'' \<and> \<not> bison3_pattern []"
  by simp

theorem libintl_included_value_witness:
  "ci_LIBINTL ex_ci = ''${top_builddir}/intl/libintl.a'' @ '' -liconv'' \<and> is_ifs (hd '' -liconv'') \<and>
   subst_value (intl_configure ex_ci) ''LIBINTL'' = Some ''-L${top_builddir}/../intl -lintl -liconv'' \<and>
   subst_value (intl_configure ex_ci) ''LIBINTL_DEP'' = Some ''${top_builddir}/../intl/libintl.a'' \<and>
   subst_value (intl_configure ex_ci) ''INCINTL'' = Some ''-I${top_builddir}/../intl''"
proof -
  have lib: "ci_LIBINTL ex_ci = ''${top_builddir}/intl/libintl.a'' @ '' -liconv''" by (simp add: ex_ci_def)
  have sep: "is_ifs (hd '' -liconv'')" by (simp add: is_ifs_def)
  have e: "echo_unquoted '' -liconv'' = ''-liconv''" "shell_words [] '' -liconv'' = [''-liconv'']" by code_simp+
  from Intl_Configure.libintl_included_value [OF lib] sep lib e show ?thesis by (simp add: ex_ci_def)
qed

theorem maint_value_witness:
  "ci_enable_maintainer_mode ex_ci = None \<and> ci_env ex_ci ''enable_maintainer_mode'' = Some ''yes'' \<and>
   subst_value (intl_configure ex_ci) ''MAINT'' = Some []"
  using Intl_Configure.maint_value [of ex_ci] by (simp add: ex_ci_def)

end
